theory Spec2Isabelle
  imports Complex_Main "HOL-Library.Multiset"
begin

section \<open>Data model\<close>

text \<open>
  The mesh optimisation engine of OMesh (\<^verbatim>\<open>OptimizationMesh.cpp\<close>) is embedded
  function by function. Conventions of the embedding:
  \<^item> a vertex coordinate is a real number (\<^typ>\<open>real\<close>) that stands for a finite
    \<^verbatim>\<open>float\<close>. The relocation and decimation chain is embedded over exact reals:
    rounding, overflow and NaN are not represented there. The angle test and the flip
    test, whose outcome rounding decides, are embedded over IEEE 754 values
    (section \<open>Floating-point arithmetic\<close>);
  \<^item> the C arrays \<^verbatim>\<open>vertex\<close> and \<^verbatim>\<open>face\<close> are lists whose length is
    \<^verbatim>\<open>numberVertices\<close> and \<^verbatim>\<open>numberFaces\<close>;
  \<^item> the intrusive singly linked ring of a vertex (\<^verbatim>\<open>NPNT3\<close> cells chained by
    \<^verbatim>\<open>next\<close>) is the list of its cells in chain order, \<^verbatim>\<open>neighborList\<close> is the list
    of rings, and a null \<^verbatim>\<open>neighborList\<close> is \<^term>\<open>None\<close>;
  \<^item> a read or write outside an array, a dereference of a null or uninitialised
    pointer is undefined behaviour in the source; state-changing operations return it
    as an \<^verbatim>\<open>error\<close> value.
\<close>

text \<open>
  Modelled from the spec: \<^verbatim>\<open>Vertex.hpp\<close> is not part of the sources; section 3 gives
  the fields \<^verbatim>\<open>{x, y, z: float32, marker: int32, selected: bool}\<close>.
\<close>

record Vertex =
  vx :: real
  vy :: real
  vz :: real
  vmarker :: int
  vselected :: bool

text \<open>
  Modelled from the spec: \<^verbatim>\<open>Triangle.hpp\<close> is not part of the sources; section 3 gives
  the fields \<^verbatim>\<open>{v1, v2, v3: uint32, marker: int32, selected: bool}\<close>. The corner indices
  are integers here because \<^verbatim>\<open>coarse\<close> stores \<^verbatim>\<open>-1\<close> in them and reads them back
  through \<^verbatim>\<open>int\<close>.
\<close>

record Triangle =
  v1 :: int
  v2 :: int
  v3 :: int
  tmarker :: int
  tselected :: bool

text \<open>
  Modelled from the spec: \<^verbatim>\<open>NeighborPoint3.hpp\<close> is not part of the sources; section 3
  describes a ring record as \<^verbatim>\<open>{a, b, c}\<close>, two vertex indices and a face index. The
  source reads all three through \<^verbatim>\<open>int\<close>. A record is the triple \<open>(a, b, c)\<close>.
\<close>

type_synonym NPNT3 = "int \<times> int \<times> int"

text \<open>\<^verbatim>\<open>Normal\<close> (\<^verbatim>\<open>Normal.hpp\<close>) has the three fields \<^verbatim>\<open>x, y, z\<close>.\<close>

type_synonym Normal = "real \<times> real \<times> real"

section \<open>Geometry kernel\<close>

text \<open>The exact squared length of the edge between two vertices, \<open>|pq|\<^sup>2\<close>.\<close>

definition sqlen :: "Vertex \<Rightarrow> Vertex \<Rightarrow> real" where
  "sqlen p q = (vx p - vx q) * (vx p - vx q) + (vy p - vy q) * (vy p - vy q)
             + (vz p - vz q) * (vz p - vz q)"

text \<open>\<^verbatim>\<open>OptimizationMesh::computeDotProduct\<close> over exact reals, as the relocation step
  uses it: the cosine at apex \<open>a\<close> between the arms to \<open>b\<close> and \<open>c\<close>; an arm of length zero
  stays the zero vector.\<close>

definition computeDotProduct :: "Vertex list \<Rightarrow> nat \<Rightarrow> nat \<Rightarrow> nat \<Rightarrow> real" where
  "computeDotProduct vs a b c =
    (let bx = vx (vs ! b) - vx (vs ! a);
         by = vy (vs ! b) - vy (vs ! a);
         bz = vz (vs ! b) - vz (vs ! a);
         length = sqrt (bx * bx + by * by + bz * bz);
         (bx, by, bz) = (if length > 0 then (bx / length, by / length, bz / length)
                         else (bx, by, bz));
         cx = vx (vs ! c) - vx (vs ! a);
         cy = vy (vs ! c) - vy (vs ! a);
         cz = vz (vs ! c) - vz (vs ! a);
         length = sqrt (cx * cx + cy * cy + cz * cz);
         (cx, cy, cz) = (if length > 0 then (cx / length, cy / length, cz / length)
                         else (cx, cy, cz))
     in bx * cx + by * cy + bz * cz)"

text \<open>The dot product of two normals, written inline in the source.\<close>

definition dot3 :: "Normal \<Rightarrow> Normal \<Rightarrow> real" where
  "dot3 n m = (case n of (p, q, r) \<Rightarrow> case m of (p', q', r') \<Rightarrow> p * p' + q * q' + r * r')"

text \<open>The normalisation step shared by the kernel: \<^verbatim>\<open>if (length > 0) { x /= length; ... }\<close>.\<close>

definition hat :: "real \<times> real \<times> real \<Rightarrow> real \<times> real \<times> real" where
  "hat v = (case v of (p, q, r) \<Rightarrow>
     (if sqrt (p * p + q * q + r * r) > 0
      then (p / sqrt (p * p + q * q + r * r), q / sqrt (p * p + q * q + r * r), r / sqrt (p * p + q * q + r * r))
      else (p, q, r)))"

section \<open>The mesh and its adjacency\<close>

text \<open>Undefined behaviour of the source, as error values.\<close>

datatype error = OutOfBounds | NullPointer | Uninitialised | UseAfterFree

text \<open>
  \<^verbatim>\<open>class OptimizationMesh\<close> (\<^verbatim>\<open>OptimizationMesh.hh\<close>): the vertex array, the face array
  and the one-ring table. \<^verbatim>\<open>numberVertices\<close> and \<^verbatim>\<open>numberFaces\<close> are the lengths of
  the two lists. The bounding box and the domain fields are never read by the operations
  embedded here and are left out.
\<close>

record OptimizationMesh =
  vertex :: "Vertex list"
  face :: "Triangle list"
  neighborList :: "NPNT3 list list option"

definition numberVertices :: "OptimizationMesh \<Rightarrow> nat" where
  "numberVertices m = length (vertex m)"

definition numberFaces :: "OptimizationMesh \<Rightarrow> nat" where
  "numberFaces m = length (face m)"

text \<open>An index that may be used on an array of \<open>n\<close> elements.\<close>

definition inRange :: "nat \<Rightarrow> int \<Rightarrow> bool" where
  "inRange n i = (0 \<le> i \<and> i < int n)"

subsection \<open>removeUnconnectedVertices\<close>

text \<open>
  \<^verbatim>\<open>OptimizationMesh::removeUnconnectedVertices\<close>, with its loops run in index order.
  \<^verbatim>\<open>verticesToRemove[n]\<close> is the number of vertices with a negative marker up to and
  including \<open>n\<close>; a surviving vertex \<open>n\<close> moves to \<open>n - verticesToRemove[n]\<close>; every
  face index is lowered by the same table; \<^verbatim>\<open>numberVertices\<close> drops by the count.
\<close>

fun verticesToRemove :: "nat \<Rightarrow> Vertex list \<Rightarrow> nat list" where
  "verticesToRemove numberRemovedVertices [] = []"
| "verticesToRemove numberRemovedVertices (v # vs) =
     (let numberRemovedVertices =
            (if vmarker v < 0 then numberRemovedVertices + 1 else numberRemovedVertices)
      in numberRemovedVertices # verticesToRemove numberRemovedVertices vs)"

fun countRemoved :: "nat \<Rightarrow> Vertex list \<Rightarrow> nat" where
  "countRemoved numberRemovedVertices [] = numberRemovedVertices"
| "countRemoved numberRemovedVertices (v # vs) =
     countRemoved (if vmarker v < 0 then numberRemovedVertices + 1 else numberRemovedVertices) vs"

definition moveForward :: "nat list \<Rightarrow> nat \<Rightarrow> Vertex list \<Rightarrow> Vertex list" where
  "moveForward vtr n vs =
     (if (n = 0 \<and> vtr ! n \<noteq> 0) \<or> (n \<noteq> 0 \<and> vtr ! (n - 1) \<noteq> vtr ! n) then vs
      else vs[n - vtr ! n := vs ! n])"

definition fixFace :: "nat list \<Rightarrow> Triangle \<Rightarrow> Triangle" where
  "fixFace vtr f = f\<lparr>v1 := v1 f - int (vtr ! nat (v1 f)),
                     v2 := v2 f - int (vtr ! nat (v2 f)),
                     v3 := v3 f - int (vtr ! nat (v3 f))\<rparr>"

definition faceInRange :: "nat \<Rightarrow> Triangle \<Rightarrow> bool" where
  "faceInRange n f = (inRange n (v1 f) \<and> inRange n (v2 f) \<and> inRange n (v3 f))"

definition removeUnconnectedVertices :: "OptimizationMesh \<Rightarrow> error + OptimizationMesh" where
  "removeUnconnectedVertices m =
     (let vtr = verticesToRemove 0 (vertex m);
          numberRemovedVertices = countRemoved 0 (vertex m);
          vs = fold (moveForward vtr) [0..<length (vertex m)] (vertex m)
      in if \<not> list_all (faceInRange (length (vertex m))) (face m) then Inl OutOfBounds
         else Inr (m\<lparr>vertex := take (length (vertex m) - numberRemovedVertices) vs,
                      face := map (fixFace vtr) (face m)\<rparr>))"

subsection \<open>createNeighborlist\<close>

text \<open>
  \<^verbatim>\<open>OptimizationMesh::createNeighborlist\<close>. \<^term>\<open>collectFaces\<close> is the loop over the
  faces: face \<open>n = (a, b, c)\<close> prepends \<open>(b, c, n)\<close> to the ring of \<open>a\<close>, \<open>(c, a, n)\<close> to
  the ring of \<open>b\<close> and \<open>(a, b, n)\<close> to the ring of \<open>c\<close>, and a vertex that gets its first
  record is marked connected. A face with a repeated index is only reported.
\<close>

definition markConnected :: "nat \<Rightarrow> Vertex list \<times> nat \<Rightarrow> Vertex list \<times> nat" where
  "markConnected a st = (case st of (vs, numberConnected) \<Rightarrow>
     if vmarker (vs ! a) < 0 then (vs[a := (vs ! a)\<lparr>vmarker := 0\<rparr>], numberConnected + 1)
     else (vs, numberConnected))"

definition push :: "nat \<Rightarrow> NPNT3 \<Rightarrow> NPNT3 list list \<Rightarrow> NPNT3 list list" where
  "push a r nl = nl[a := r # nl ! a]"

fun collectFaces :: "nat \<Rightarrow> Triangle list \<Rightarrow> NPNT3 list list \<times> Vertex list \<times> nat
                     \<Rightarrow> error + NPNT3 list list \<times> Vertex list \<times> nat" where
  "collectFaces n [] st = Inr st"
| "collectFaces n (f # fs) (nl, vs, numberConnected) =
     (if \<not> faceInRange (length vs) f then Inl OutOfBounds
      else let a = nat (v1 f); b = nat (v2 f); c = nat (v3 f);
               nl = push a (int b, int c, int n) nl;
               (vs, numberConnected) = markConnected a (vs, numberConnected);
               nl = push b (int c, int a, int n) nl;
               (vs, numberConnected) = markConnected b (vs, numberConnected);
               nl = push c (int a, int b, int n) nl;
               (vs, numberConnected) = markConnected c (vs, numberConnected)
           in collectFaces (n + 1) fs (nl, vs, numberConnected))"

text \<open>
  The ordering loop of one ring. \<^term>\<open>findNext\<close> is the inner \<^verbatim>\<open>while\<close> over
  \<^verbatim>\<open>secondNeighbour\<close>: it looks, among the cells after \<^verbatim>\<open>firstNeighbour\<close>, for the first
  one with \<^verbatim>\<open>a0 == b && b0 != a\<close> and moves it directly behind \<^verbatim>\<open>firstNeighbour\<close>; the
  variables \<^verbatim>\<open>a0, b0\<close> keep the fields of the last cell it looked at.
  \<^term>\<open>orderRing\<close> is the outer \<^verbatim>\<open>while\<close> over \<^verbatim>\<open>firstNeighbour\<close>.
\<close>

fun findNext :: "int \<Rightarrow> int \<Rightarrow> NPNT3 list \<Rightarrow> NPNT3 list \<Rightarrow> int \<times> int
                 \<Rightarrow> NPNT3 list \<times> int \<times> int" where
  "findNext a b seen [] ab0 = (rev seen, ab0)"
| "findNext a b seen (s # ss) ab0 =
     (case s of (a0, b0, c0) \<Rightarrow>
        if a0 = b \<and> b0 \<noteq> a then (s # rev seen @ ss, a0, b0)
        else findNext a b (s # seen) ss (a0, b0))"

lemma length_findNext: "length (fst (findNext a b seen ss ab0)) = length seen + length ss"
  by (induction ss arbitrary: seen ab0) (auto split: prod.splits)

function orderRing :: "NPNT3 list \<Rightarrow> int \<times> int \<Rightarrow> NPNT3 list \<times> int \<times> int" where
  "orderRing [] ab0 = ([], ab0)"
| "orderRing (firstNeighbour # rest) ab0 =
     (let a = fst firstNeighbour; b = fst (snd firstNeighbour);
          found = findNext a b [] rest ab0;
          ordered = orderRing (fst found) (snd found)
      in (firstNeighbour # fst ordered, snd ordered))"
  by pat_completeness auto
termination
  by (relation "measure (\<lambda>p. length (fst p))") (simp_all add: length_findNext)

text \<open>
  The check that follows: the ring is interrupted when some cell's \<^verbatim>\<open>b\<close> differs from
  the next cell's \<^verbatim>\<open>a\<close>; a ring that is not interrupted but has \<^verbatim>\<open>b0 != c\<close> (with
  \<^verbatim>\<open>c\<close> the \<^verbatim>\<open>a\<close> of the head cell) is not closed. Either way the vertex gets
  \<^verbatim>\<open>selected = false\<close> and the construction goes on. An empty ring would be a null
  dereference.
\<close>

fun interrupted :: "NPNT3 list \<Rightarrow> bool" where
  "interrupted [] = False"
| "interrupted [r] = False"
| "interrupted (r # s # rs) = (fst (snd r) \<noteq> fst s \<or> interrupted (s # rs))"

definition orderVertex :: "NPNT3 list \<Rightarrow> Vertex \<Rightarrow> error + NPNT3 list \<times> Vertex" where
  "orderVertex ring v =
     (case ring of [] \<Rightarrow> Inl NullPointer
      | firstNeighbour # rest \<Rightarrow>
         let c = fst firstNeighbour;
             (ring', a0, b0) = orderRing ring (- 1, - 1);
             closed = \<not> interrupted ring';
             v = (if \<not> closed then v\<lparr>vselected := False\<rparr> else v);
             v = (if closed \<and> b0 \<noteq> c then v\<lparr>vselected := False\<rparr> else v)
         in Inr (ring', v))"

fun orderAll :: "NPNT3 list list \<Rightarrow> Vertex list \<Rightarrow> error + NPNT3 list list \<times> Vertex list" where
  "orderAll [] vs = Inr ([], vs)"
| "orderAll (ring # rings) [] = Inl OutOfBounds"
| "orderAll (ring # rings) (v # vs) =
     (case orderVertex ring v of Inl e \<Rightarrow> Inl e
      | Inr (ring', v') \<Rightarrow>
         (case orderAll rings vs of Inl e \<Rightarrow> Inl e
          | Inr (rings', vs') \<Rightarrow> Inr (ring' # rings', v' # vs')))"


text \<open>
  The recursion of \<^verbatim>\<open>createNeighborlist\<close> ends because every call that recurses has
  removed at least one vertex: the vertices still marked \<open>-1\<close> after the face loop are
  exactly those not counted in \<^verbatim>\<open>numberConnected\<close>.
\<close>

lemma countRemoved_filter:
  "countRemoved k vs = k + length (filter (\<lambda>v. vmarker v < 0) vs)"
  by (induction vs arbitrary: k) auto

definition negatives :: "Vertex list \<Rightarrow> nat" where
  "negatives vs = length (filter (\<lambda>v. vmarker v < 0) vs)"

lemma negatives_update:
  assumes "a < length vs" "vmarker (vs ! a) < 0" "\<not> vmarker w < 0"
  shows "Suc (negatives (vs[a := w])) = negatives vs"
proof -
  have vs: "vs = take a vs @ vs ! a # drop (Suc a) vs"
    using assms(1) by (simp add: id_take_nth_drop)
  have upd: "vs[a := w] = take a vs @ w # drop (Suc a) vs"
    using assms(1) by (simp add: upd_conv_take_nth_drop)
  have "negatives vs = negatives (take a vs @ vs ! a # drop (Suc a) vs)"
    using vs by simp
  thus ?thesis unfolding upd using assms(2,3) by (simp add: negatives_def)
qed

lemma markConnected_inv:
  assumes "a < length vs" "markConnected a (vs, nc) = (vs', nc')"
  shows "length vs' = length vs \<and> nc' + negatives vs' = nc + negatives vs"
proof (cases "vmarker (vs ! a) < 0")
  case True
  with assms(2) have e: "vs' = vs[a := (vs ! a)\<lparr>vmarker := 0\<rparr>]" "nc' = nc + 1"
    by (simp_all add: markConnected_def)
  have "Suc (negatives vs') = negatives vs"
    unfolding e by (rule negatives_update [OF assms(1) True]) simp
  thus ?thesis using e by simp
next
  case False
  with assms(2) show ?thesis by (simp add: markConnected_def)
qed

lemma collectFaces_inv:
  assumes "collectFaces n fs (nl, vs, nc) = Inr (nl', vs', nc')"
  shows "length vs' = length vs \<and> nc' + negatives vs' = nc + negatives vs"
  using assms
proof (induction fs arbitrary: n nl vs nc)
  case Nil
  then show ?case by simp
next
  case (Cons f fs)
  from Cons.prems have r: "faceInRange (length vs) f"
    by (auto split: if_splits)
  obtain vs1 nc1 where m1: "markConnected (nat (v1 f)) (vs, nc) = (vs1, nc1)" by fastforce
  obtain vs2 nc2 where m2: "markConnected (nat (v2 f)) (vs1, nc1) = (vs2, nc2)" by fastforce
  obtain vs3 nc3 where m3: "markConnected (nat (v3 f)) (vs2, nc2) = (vs3, nc3)" by fastforce
  from r have a: "nat (v1 f) < length vs" "nat (v2 f) < length vs" "nat (v3 f) < length vs"
    by (auto simp: faceInRange_def inRange_def)
  note i1 = markConnected_inv [OF a(1) m1]
  from a i1 have a2: "nat (v2 f) < length vs1" by simp
  note i2 = markConnected_inv [OF a2 m2]
  from a i1 i2 have a3: "nat (v3 f) < length vs2" by simp
  note i3 = markConnected_inv [OF a3 m3]
  from Cons.prems r obtain nl3 where
    "collectFaces (n + 1) fs (nl3, vs3, nc3) = Inr (nl', vs', nc')"
    by (simp add: Let_def m1 m2 m3)
  from Cons.IH [OF this] i1 i2 i3 show ?case by simp
qed

lemma length_moveForward [simp]: "length (moveForward vtr n vs) = length vs"
  by (simp add: moveForward_def)

lemma length_fold_moveForward [simp]: "length (fold (moveForward vtr) ns vs) = length vs"
  by (induction ns arbitrary: vs) simp_all

lemma removeUnconnectedVertices_length:
  assumes "removeUnconnectedVertices m = Inr m'"
  shows "length (vertex m') = length (vertex m) - negatives (vertex m)"
  using assms
  by (auto simp: removeUnconnectedVertices_def Let_def countRemoved_filter negatives_def
           split: if_splits)

lemma createNeighborlist_decreases:
  assumes "collectFaces 0 fs (nl0, map (\<lambda>v. v\<lparr>vmarker := - 1\<rparr>) vs0, 0) = Inr (nl, vs', nc)"
      and "nc < numberVertices m"
      and "removeUnconnectedVertices (m\<lparr>vertex := vs', neighborList := None\<rparr>) = Inr m'"
      and "vs0 = vertex m"
  shows "length (vertex m') < length (vertex m)"
proof -
  have n0: "negatives (map (\<lambda>v. v\<lparr>vmarker := - 1\<rparr>) vs0) = length vs0"
    by (simp add: negatives_def)
  from collectFaces_inv [OF assms(1)] n0
  have "length vs' = length vs0" "nc + negatives vs' = length vs0"
    by simp_all
  with assms(2,4) removeUnconnectedVertices_length [OF assms(3)]
  show ?thesis by (simp add: numberVertices_def)
qed

function createNeighborlist :: "OptimizationMesh \<Rightarrow> error + OptimizationMesh" where
  "createNeighborlist m =
     (let neighbourList = replicate (numberVertices m) [];
          vs = map (\<lambda>v. v\<lparr>vmarker := - 1\<rparr>) (vertex m)
      in case collectFaces 0 (face m) (neighbourList, vs, 0) of
           Inl e \<Rightarrow> Inl e
         | Inr (neighbourList, vs, numberConnected) \<Rightarrow>
             if numberConnected < numberVertices m
             then (case removeUnconnectedVertices (m\<lparr>vertex := vs, neighborList := None\<rparr>) of
                     Inl e \<Rightarrow> Inl e
                   | Inr m' \<Rightarrow> createNeighborlist m')
             else (case orderAll neighbourList vs of
                     Inl e \<Rightarrow> Inl e
                   | Inr (neighbourList, vs) \<Rightarrow>
                       Inr (m\<lparr>vertex := vs, neighborList := Some neighbourList\<rparr>)))"
  by pat_completeness auto
termination
proof (relation "measure numberVertices", goal_cases)
  case 1
  show ?case by simp
next
  case (2 m neighbourList vs x2 nl y vs' numberConnected m')
  from 2(3,4,5) have c: "collectFaces 0 (face m) (replicate (numberVertices m) [],
      map (\<lambda>v. v\<lparr>vmarker := - 1\<rparr>) (vertex m), 0) = Inr (nl, vs', numberConnected)"
    using 2(1,2) by simp
  show ?case
    using createNeighborlist_decreases [OF c 2(6) 2(7) refl] by (simp add: numberVertices_def)
qed

declare createNeighborlist.simps [simp del]

section \<open>Properties of the adjacency construction\<close>

text \<open>The corners of a face, and the number of cells of a ring that name face \<open>k\<close>.\<close>

definition corners :: "Triangle \<Rightarrow> int list" where
  "corners f = [v1 f, v2 f, v3 f]"

definition faceRecords :: "int \<Rightarrow> NPNT3 list \<Rightarrow> nat" where
  "faceRecords k ring = length (filter (\<lambda>r. snd (snd r) = k) ring)"

lemma faceRecords_Cons [simp]:
  "faceRecords k (r # ring) = (if snd (snd r) = k then 1 else 0) + faceRecords k ring"
  by (simp add: faceRecords_def)

lemma faceRecords_Nil [simp]: "faceRecords k [] = 0"
  by (simp add: faceRecords_def)

lemma length_push [simp]: "length (push a r nl) = length nl"
  by (simp add: push_def)

lemma faceRecords_push:
  assumes "a < length nl" "v < length nl"
  shows "faceRecords k (push a r nl ! v) =
         (if v = a \<and> snd (snd r) = k then 1 else 0) + faceRecords k (nl ! v)"
  using assms by (simp add: push_def nth_list_update)

lemma sum_length_push:
  assumes "a < length nl"
  shows "sum_list (map length (push a r nl)) = Suc (sum_list (map length nl))"
proof -
  have nl: "nl = take a nl @ nl ! a # drop (Suc a) nl"
    using assms by (simp add: id_take_nth_drop)
  have "push a r nl = take a nl @ (r # nl ! a) # drop (Suc a) nl"
    using assms by (simp add: push_def upd_conv_take_nth_drop)
  hence "sum_list (map length (push a r nl))
       = sum_list (map length (take a nl)) + Suc (length (nl ! a))
         + sum_list (map length (drop (Suc a) nl))" by simp
  moreover have "sum_list (map length nl)
       = sum_list (map length (take a nl)) + length (nl ! a)
         + sum_list (map length (drop (Suc a) nl))"
    by (subst nl) simp
  ultimately show ?thesis by simp
qed

lemma collectFaces_Cons_Inr:
  assumes "collectFaces n (f # fs) (nl, vs, nc) = Inr res"
  shows "faceInRange (length vs) f \<and>
         (\<exists>vs3 nc3. length vs3 = length vs \<and>
            collectFaces (n + 1) fs
              (push (nat (v3 f)) (v1 f, v2 f, int n)
                 (push (nat (v2 f)) (v3 f, v1 f, int n)
                    (push (nat (v1 f)) (v2 f, v3 f, int n) nl)), vs3, nc3) = Inr res)"
proof -
  from assms have r: "faceInRange (length vs) f" by (auto split: if_splits)
  hence nn: "0 \<le> v1 f" "0 \<le> v2 f" "0 \<le> v3 f"
    and a: "nat (v1 f) < length vs" "nat (v2 f) < length vs" "nat (v3 f) < length vs"
    by (auto simp: faceInRange_def inRange_def)
  obtain vs1 nc1 where m1: "markConnected (nat (v1 f)) (vs, nc) = (vs1, nc1)" by fastforce
  obtain vs2 nc2 where m2: "markConnected (nat (v2 f)) (vs1, nc1) = (vs2, nc2)" by fastforce
  obtain vs3 nc3 where m3: "markConnected (nat (v3 f)) (vs2, nc2) = (vs3, nc3)" by fastforce
  note i1 = markConnected_inv [OF a(1) m1]
  from a i1 have a2: "nat (v2 f) < length vs1" by simp
  note i2 = markConnected_inv [OF a2 m2]
  from a i1 i2 have a3: "nat (v3 f) < length vs2" by simp
  note i3 = markConnected_inv [OF a3 m3]
  from assms r nn have
    "collectFaces (n + 1) fs
       (push (nat (v3 f)) (v1 f, v2 f, int n)
          (push (nat (v2 f)) (v3 f, v1 f, int n)
             (push (nat (v1 f)) (v2 f, v3 f, int n) nl)), vs3, nc3) = Inr res"
    by (simp add: Let_def m1 m2 m3)
  with r i1 i2 i3 show ?thesis by auto
qed

lemma collectFaces_rings:
  assumes "collectFaces n fs (nl, vs, nc) = Inr (nl', vs', nc')" "length nl = length vs"
  shows "length nl' = length nl
       \<and> sum_list (map length nl') = sum_list (map length nl) + 3 * length fs
       \<and> (\<forall>v k. v < length nl \<longrightarrow>
            faceRecords (int k) (nl' ! v) = faceRecords (int k) (nl ! v)
              + (if n \<le> k \<and> k < n + length fs
                 then count_list (corners (fs ! (k - n))) (int v) else 0))"
  using assms
proof (induction fs arbitrary: n nl vs nc)
  case Nil
  then show ?case by simp
next
  case (Cons f fs)
  let ?nl3 = "push (nat (v3 f)) (v1 f, v2 f, int n)
                 (push (nat (v2 f)) (v3 f, v1 f, int n)
                    (push (nat (v1 f)) (v2 f, v3 f, int n) nl))"
  from collectFaces_Cons_Inr [OF Cons.prems(1)] obtain vs3 nc3 where
    r: "faceInRange (length vs) f" and l3: "length vs3 = length vs" and
    c: "collectFaces (n + 1) fs (?nl3, vs3, nc3) = Inr (nl', vs', nc')" by blast
  from r Cons.prems(2) have a: "nat (v1 f) < length nl" "nat (v2 f) < length nl" "nat (v3 f) < length nl"
    and nn: "0 \<le> v1 f" "0 \<le> v2 f" "0 \<le> v3 f"
    by (auto simp: faceInRange_def inRange_def)
  have len3: "length ?nl3 = length vs3" using Cons.prems(2) l3 by simp
  note IH = Cons.IH [OF c len3]
  have s3: "sum_list (map length ?nl3) = sum_list (map length nl) + 3"
    using a by (simp add: sum_length_push)
  have rec: "faceRecords (int k) (?nl3 ! v) = faceRecords (int k) (nl ! v)
              + (if k = n then count_list (corners f) (int v) else 0)"
    if v: "v < length nl" for v k
  proof -
    let ?nl1 = "push (nat (v1 f)) (v2 f, v3 f, int n) nl"
    let ?nl2 = "push (nat (v2 f)) (v3 f, v1 f, int n) ?nl1"
    have e1: "faceRecords (int k) (?nl1 ! v)
              = (if v = nat (v1 f) \<and> n = k then 1 else 0) + faceRecords (int k) (nl ! v)"
      using a(1) v by (simp add: faceRecords_push)
    have e2: "faceRecords (int k) (?nl2 ! v)
              = (if v = nat (v2 f) \<and> n = k then 1 else 0) + faceRecords (int k) (?nl1 ! v)"
      using a(2) v by (simp add: faceRecords_push)
    have e3: "faceRecords (int k) (?nl3 ! v)
              = (if v = nat (v3 f) \<and> n = k then 1 else 0) + faceRecords (int k) (?nl2 ! v)"
      using a(3) v by (simp add: faceRecords_push)
    have q: "(v = nat (v1 f)) = (v1 f = int v)" "(v = nat (v2 f)) = (v2 f = int v)"
            "(v = nat (v3 f)) = (v3 f = int v)"
      using nn by auto
    show ?thesis
      unfolding e3 e2 e1 q corners_def by (cases "k = n") simp_all
  qed
  show ?case
  proof (intro conjI allI impI)
    show "length nl' = length nl" using IH by simp
    show "sum_list (map length nl') = sum_list (map length nl) + 3 * length (f # fs)"
      using IH s3 by simp
    fix v k assume v: "v < length nl"
    hence "faceRecords (int k) (nl' ! v) = faceRecords (int k) (?nl3 ! v)
              + (if n + 1 \<le> k \<and> k < n + 1 + length fs
                 then count_list (corners (fs ! (k - (n + 1)))) (int v) else 0)"
      using IH by simp
    also have "\<dots> = faceRecords (int k) (nl ! v)
              + (if n \<le> k \<and> k < n + length (f # fs)
                 then count_list (corners ((f # fs) ! (k - n))) (int v) else 0)"
    proof (cases "k = n")
      case True
      then show ?thesis unfolding rec [OF v] by simp
    next
      case False
      have "(f # fs) ! (k - n) = fs ! (k - (n + 1))" if "n < k"
      proof -
        from that have "k - n = Suc (k - (n + 1))" by simp
        thus ?thesis by (simp only: nth_Cons_Suc)
      qed
      with False show ?thesis unfolding rec [OF v] by auto
    qed
    finally show "faceRecords (int k) (nl' ! v) = faceRecords (int k) (nl ! v)
              + (if n \<le> k \<and> k < n + length (f # fs)
                 then count_list (corners ((f # fs) ! (k - n))) (int v) else 0)" .
  qed
qed

text \<open>A ring is a closed cycle when it is not empty, every cell's \<^verbatim>\<open>b\<close> is the next
  cell's \<^verbatim>\<open>a\<close>, and the last cell's \<^verbatim>\<open>b\<close> is the first cell's \<^verbatim>\<open>a\<close>.\<close>

definition closedCycle :: "NPNT3 list \<Rightarrow> bool" where
  "closedCycle ring = (ring \<noteq> [] \<and> \<not> interrupted ring \<and> fst (snd (last ring)) = fst (hd ring))"

lemma findNext_mset: "mset (fst (findNext a b seen ss ab0)) = mset seen + mset ss"
  by (induction ss arbitrary: seen ab0) (auto split: prod.splits)

lemma findNext_single:
  "findNext a b [] [s] ab0 = ([s], fst s, fst (snd s))"
  by (cases s) auto

lemma orderRing_mset: "mset (fst (orderRing ring ab0)) = mset ring"
proof (induction ring ab0 rule: orderRing.induct)
  case (1 ab0)
  then show ?case by simp
next
  case (2 firstNeighbour rest ab0)
  let ?found = "findNext (fst firstNeighbour) (fst (snd firstNeighbour)) [] rest ab0"
  have "mset (fst (orderRing (fst ?found) (snd ?found))) = mset (fst ?found)"
    using "2.IH" by simp
  also have "\<dots> = mset rest" by (simp add: findNext_mset)
  finally show ?case by (simp add: Let_def)
qed

lemma orderRing_length: "length (fst (orderRing ring ab0)) = length ring"
  using orderRing_mset [of ring ab0] by (metis size_mset)

lemma orderRing_hd: "ring \<noteq> [] \<Longrightarrow> hd (fst (orderRing ring ab0)) = hd ring"
  by (cases ring) (simp_all add: Let_def)

lemma orderRing_single: "orderRing [s] ab0 = ([s], ab0)"
  by (simp add: Let_def)

lemma orderRing_pair: "orderRing [f, s] ab0 = ([f, s], fst s, fst (snd s))"
  by (subst orderRing.simps)
     (simp add: Let_def findNext_single orderRing_single del: findNext.simps orderRing.simps)

lemma orderRing_last:
  "2 \<le> length ring \<Longrightarrow>
   snd (snd (orderRing ring ab0)) = fst (snd (last (fst (orderRing ring ab0))))"
proof (induction ring ab0 rule: orderRing.induct)
  case (1 ab0)
  then show ?case by simp
next
  case (2 firstNeighbour rest ab0)
  let ?found = "findNext (fst firstNeighbour) (fst (snd firstNeighbour)) [] rest ab0"
  let ?ord = "orderRing (fst ?found) (snd ?found)"
  have len: "length (fst ?found) = length rest" by (simp add: length_findNext)
  have ne: "fst ?ord \<noteq> []"
    using "2.prems" len orderRing_length [of "fst ?found" "snd ?found"] by auto
  show ?case
  proof (cases "2 \<le> length rest")
    case True
    with len have "snd (snd ?ord) = fst (snd (last (fst ?ord)))"
      using "2.IH" by simp
    thus ?thesis using ne by (simp add: Let_def)
  next
    case False
    with "2.prems" obtain s where rest: "rest = [s]"
      by (cases rest; cases "tl rest") auto
    show ?thesis unfolding rest orderRing_pair by simp
  qed
qed

lemma orderVertex_result:
  assumes "orderVertex ring v = Inr (ring', v')" "\<forall>r \<in> set ring. 0 \<le> fst r"
  shows "mset ring' = mset ring \<and> (\<not> closedCycle ring' \<longrightarrow> \<not> vselected v')
       \<and> (vselected v' \<longrightarrow> vselected v)
       \<and> vx v' = vx v \<and> vy v' = vy v \<and> vz v' = vz v \<and> vmarker v' = vmarker v"
proof -
  from assms(1) obtain f rest where ring: "ring = f # rest"
    by (cases ring) (auto simp: orderVertex_def)
  obtain out a0 b0 where o: "orderRing ring (- 1, - 1) = (out, a0, b0)"
    by (cases "orderRing ring (- 1, - 1)") auto
  from assms(1) o [unfolded ring] have r': "ring' = out"
    and v': "v' = (if interrupted out then v\<lparr>vselected := False\<rparr>
                   else if b0 \<noteq> fst f then v\<lparr>vselected := False\<rparr> else v)"
    by (auto simp add: orderVertex_def ring Let_def simp del: orderRing.simps split: if_splits)
  have ms: "mset out = mset ring" using orderRing_mset [of ring "(- 1, - 1)"] o by simp
  have hd: "hd out = f" using orderRing_hd [of ring "(- 1, - 1)"] o ring by simp
  have ne: "out \<noteq> []" using ms ring by auto
  have b0: "b0 \<noteq> fst f" if "\<not> interrupted out" "fst (snd (last out)) \<noteq> fst (hd out)"
  proof (cases "2 \<le> length ring")
    case True
    from orderRing_last [OF True, of "(- 1, - 1)"] o have "b0 = fst (snd (last out))" by simp
    with that hd show ?thesis by simp
  next
    case False
    with ring have "ring = [f]" by (cases rest) auto
    with o have "b0 = - 1" by (simp add: Let_def)
    moreover have "0 \<le> fst f" using assms(2) ring by simp
    ultimately show ?thesis by simp
  qed
  have "\<not> vselected v'" if "\<not> closedCycle out"
  proof (cases "interrupted out")
    case True
    then show ?thesis unfolding v' by simp
  next
    case False
    with that ne have "fst (snd (last out)) \<noteq> fst (hd out)" by (simp add: closedCycle_def)
    from b0 [OF False this] False show ?thesis unfolding v' by simp
  qed
  moreover have "vselected v' \<longrightarrow> vselected v" "vx v' = vx v" "vy v' = vy v" "vz v' = vz v"
    "vmarker v' = vmarker v"
    unfolding v' by simp_all
  ultimately show ?thesis using ms r' by simp
qed

lemma orderAll_result:
  assumes "orderAll nl vs = Inr (nl', vs')" "length nl = length vs"
      and "\<forall>ring \<in> set nl. \<forall>r \<in> set ring. 0 \<le> fst r"
  shows "length nl' = length nl \<and> length vs' = length vs
       \<and> (\<forall>v < length nl. mset (nl' ! v) = mset (nl ! v)
             \<and> (\<not> closedCycle (nl' ! v) \<longrightarrow> \<not> vselected (vs' ! v))
             \<and> vx (vs' ! v) = vx (vs ! v) \<and> vy (vs' ! v) = vy (vs ! v)
             \<and> vz (vs' ! v) = vz (vs ! v) \<and> vmarker (vs' ! v) = vmarker (vs ! v))"
  using assms
proof (induction nl vs arbitrary: nl' vs' rule: orderAll.induct)
  case (1 vs)
  then show ?case by simp
next
  case (2 ring rings)
  then show ?case by simp
next
  case (3 ring rings v vs)
  from "3.prems"(1) obtain ring' w rings' ws where
    ov: "orderVertex ring v = Inr (ring', w)" and
    oa: "orderAll rings vs = Inr (rings', ws)" and
    res: "nl' = ring' # rings'" "vs' = w # ws"
    by (auto split: sum.splits prod.splits)
  have r: "\<forall>r \<in> set ring. 0 \<le> fst r" using "3.prems"(3) by simp
  note h = orderVertex_result [OF ov r]
  have "length rings = length vs" using "3.prems"(2) by simp
  moreover have "\<forall>ring \<in> set rings. \<forall>r \<in> set ring. 0 \<le> fst r" using "3.prems"(3) by simp
  ultimately have IH: "length rings' = length rings \<and> length ws = length vs
       \<and> (\<forall>v < length rings. mset (rings' ! v) = mset (rings ! v)
             \<and> (\<not> closedCycle (rings' ! v) \<longrightarrow> \<not> vselected (ws ! v))
             \<and> vx (ws ! v) = vx (vs ! v) \<and> vy (ws ! v) = vy (vs ! v)
             \<and> vz (ws ! v) = vz (vs ! v) \<and> vmarker (ws ! v) = vmarker (vs ! v))"
    using "3.IH" ov oa by simp
  have "mset ((ring' # rings') ! u) = mset ((ring # rings) ! u)
          \<and> (\<not> closedCycle ((ring' # rings') ! u) \<longrightarrow> \<not> vselected ((w # ws) ! u))
          \<and> vx ((w # ws) ! u) = vx ((v # vs) ! u) \<and> vy ((w # ws) ! u) = vy ((v # vs) ! u)
          \<and> vz ((w # ws) ! u) = vz ((v # vs) ! u) \<and> vmarker ((w # ws) ! u) = vmarker ((v # vs) ! u)"
    if "u < length (ring # rings)" for u
    using that h IH by (cases u) simp_all
  moreover have "length (ring' # rings') = length (ring # rings)" "length (w # ws) = length (v # vs)"
    using IH by simp_all
  ultimately show ?case unfolding res by blast
qed

text \<open>Invariants of the face loop: what it may change in the vertex array.\<close>

definition ringsNonneg :: "NPNT3 list list \<Rightarrow> bool" where
  "ringsNonneg nl = (\<forall>ring \<in> set nl. \<forall>r \<in> set ring. 0 \<le> fst r)"

definition markStep :: "Vertex \<Rightarrow> Vertex \<Rightarrow> bool" where
  "markStep w w' = (vx w' = vx w \<and> vy w' = vy w \<and> vz w' = vz w \<and> vselected w' = vselected w
     \<and> (vmarker w' = vmarker w \<or> (vmarker w < 0 \<and> vmarker w' = 0)))"

definition marks :: "Vertex list \<Rightarrow> Vertex list \<Rightarrow> bool" where
  "marks vs vs' = (length vs' = length vs \<and> (\<forall>v < length vs. markStep (vs ! v) (vs' ! v)))"

lemma markStep_refl: "markStep w w"
  by (simp add: markStep_def)

lemma markStep_trans: "markStep w w' \<Longrightarrow> markStep w' w'' \<Longrightarrow> markStep w w''"
  by (auto simp: markStep_def)

lemma marks_refl: "marks vs vs"
  by (simp add: marks_def markStep_refl)

lemma marks_trans: "marks vs vs' \<Longrightarrow> marks vs' vs'' \<Longrightarrow> marks vs vs''"
  unfolding marks_def using markStep_trans by auto

lemma marks_nonneg: "marks vs vs' \<Longrightarrow> v < length vs \<Longrightarrow> 0 \<le> vmarker (vs ! v) \<Longrightarrow> 0 \<le> vmarker (vs' ! v)"
  unfolding marks_def markStep_def by (metis order_refl)

lemma marks_length: "marks vs vs' \<Longrightarrow> length vs' = length vs"
  by (simp add: marks_def)

lemma markConnected_marks:
  assumes "a < length vs" "markConnected a (vs, nc) = (vs', nc')"
  shows "marks vs vs' \<and> 0 \<le> vmarker (vs' ! a) \<and> (\<forall>v. v \<noteq> a \<longrightarrow> vs' ! v = vs ! v)"
proof (cases "vmarker (vs ! a) < 0")
  case True
  with assms(2) have e: "vs' = vs[a := (vs ! a)\<lparr>vmarker := 0\<rparr>]"
    by (simp add: markConnected_def)
  show ?thesis unfolding e marks_def markStep_def using assms(1) True
    by (simp add: nth_list_update)
next
  case False
  with assms(2) show ?thesis by (simp add: markConnected_def marks_refl)
qed

lemma ringsNonneg_push:
  assumes "ringsNonneg nl" "a < length nl" "0 \<le> fst r"
  shows "ringsNonneg (push a r nl)"
proof -
  have "ring \<in> set (push a r nl) \<Longrightarrow> ring = r # nl ! a \<or> ring \<in> set nl" for ring
    unfolding push_def using set_update_subset_insert [of nl a "r # nl ! a"] by auto
  moreover have "nl ! a \<in> set nl" using assms(2) by simp
  ultimately show ?thesis using assms(1,3) unfolding ringsNonneg_def by fastforce
qed

lemma push_nonempty:
  assumes "a < length nl" "v < length nl"
  shows "push a r nl ! a \<noteq> []" "nl ! v \<noteq> [] \<Longrightarrow> push a r nl ! v \<noteq> []"
  using assms by (simp_all add: push_def nth_list_update)

lemma collectFaces_step:
  assumes "collectFaces n (f # fs) (nl, vs, nc) = Inr res" "length nl = length vs"
  shows "\<exists>nl3 vs3 nc3. collectFaces (n + 1) fs (nl3, vs3, nc3) = Inr res
          \<and> faceInRange (length vs) f
          \<and> length nl3 = length nl \<and> marks vs vs3
          \<and> (\<forall>c \<in> set (corners f). 0 \<le> vmarker (vs3 ! nat c) \<and> nl3 ! nat c \<noteq> [])
          \<and> (\<forall>v < length nl. nl ! v \<noteq> [] \<longrightarrow> nl3 ! v \<noteq> [])
          \<and> (\<forall>v. int v \<notin> set (corners f) \<longrightarrow> vs3 ! v = vs ! v)
          \<and> (ringsNonneg nl \<longrightarrow> ringsNonneg nl3)"
proof -
  from assms have r: "faceInRange (length vs) f" by (auto split: if_splits)
  hence nn: "0 \<le> v1 f" "0 \<le> v2 f" "0 \<le> v3 f"
    and a: "nat (v1 f) < length vs" "nat (v2 f) < length vs" "nat (v3 f) < length vs"
    by (auto simp: faceInRange_def inRange_def)
  let ?nl1 = "push (nat (v1 f)) (v2 f, v3 f, int n) nl"
  let ?nl2 = "push (nat (v2 f)) (v3 f, v1 f, int n) ?nl1"
  let ?nl3 = "push (nat (v3 f)) (v1 f, v2 f, int n) ?nl2"
  obtain vs1 nc1 where m1: "markConnected (nat (v1 f)) (vs, nc) = (vs1, nc1)" by fastforce
  obtain vs2 nc2 where m2: "markConnected (nat (v2 f)) (vs1, nc1) = (vs2, nc2)" by fastforce
  obtain vs3 nc3 where m3: "markConnected (nat (v3 f)) (vs2, nc2) = (vs3, nc3)" by fastforce
  note k1 = markConnected_marks [OF a(1) m1]
  from k1 a have a2: "nat (v2 f) < length vs1" "nat (v1 f) < length vs1" "nat (v3 f) < length vs1"
    by (auto dest: marks_length)
  note k2 = markConnected_marks [OF a2(1) m2]
  from k2 a2 have a3: "nat (v3 f) < length vs2" "nat (v1 f) < length vs2" "nat (v2 f) < length vs2"
    by (auto dest: marks_length)
  note k3 = markConnected_marks [OF a3(1) m3]
  have mk: "marks vs vs3" using k1 k2 k3 marks_trans by blast
  have c1: "0 \<le> vmarker (vs3 ! nat (v1 f))"
    using k1 k2 k3 a2 a3 marks_nonneg by blast
  have c2: "0 \<le> vmarker (vs3 ! nat (v2 f))"
    using k2 k3 a3 marks_nonneg by blast
  have c3: "0 \<le> vmarker (vs3 ! nat (v3 f))" using k3 by simp
  have la: "nat (v1 f) < length nl" "nat (v2 f) < length nl" "nat (v3 f) < length nl"
    using a assms(2) by simp_all
  have ne: "?nl3 ! nat (v1 f) \<noteq> []" "?nl3 ! nat (v2 f) \<noteq> []" "?nl3 ! nat (v3 f) \<noteq> []"
    using la by (simp_all add: push_nonempty)
  have keep: "\<forall>v < length nl. nl ! v \<noteq> [] \<longrightarrow> ?nl3 ! v \<noteq> []"
    using la by (simp add: push_nonempty)
  have rn: "ringsNonneg nl \<longrightarrow> ringsNonneg ?nl3"
    using la nn by (simp add: ringsNonneg_push)
  from assms r nn have "collectFaces (n + 1) fs (?nl3, vs3, nc3) = Inr res"
    by (simp add: Let_def m1 m2 m3)
  moreover have "length ?nl3 = length nl" by simp
  moreover have "\<forall>c \<in> set (corners f). 0 \<le> vmarker (vs3 ! nat c) \<and> ?nl3 ! nat c \<noteq> []"
    using c1 c2 c3 ne by (simp add: corners_def)
  moreover have "\<forall>v. int v \<notin> set (corners f) \<longrightarrow> vs3 ! v = vs ! v"
  proof (intro allI impI)
    fix v assume "int v \<notin> set (corners f)"
    hence "v \<noteq> nat (v1 f)" "v \<noteq> nat (v2 f)" "v \<noteq> nat (v3 f)"
      using nn by (auto simp: corners_def)
    thus "vs3 ! v = vs ! v" using k1 k2 k3 by simp
  qed
  ultimately show ?thesis using r mk keep rn by blast
qed

lemma collectFaces_marks:
  assumes "collectFaces n fs (nl, vs, nc) = Inr (nl', vs', nc')" "length nl = length vs"
  shows "marks vs vs'
       \<and> (\<forall>f \<in> set fs. \<forall>c \<in> set (corners f). 0 \<le> vmarker (vs' ! nat c))
       \<and> ((\<forall>v < length nl. 0 \<le> vmarker (vs ! v) \<longrightarrow> nl ! v \<noteq> [])
            \<longrightarrow> (\<forall>v < length nl. 0 \<le> vmarker (vs' ! v) \<longrightarrow> nl' ! v \<noteq> []))
       \<and> (ringsNonneg nl \<longrightarrow> ringsNonneg nl')"
  using assms
proof (induction fs arbitrary: n nl vs nc)
  case Nil
  then show ?case by (simp add: marks_refl)
next
  case (Cons f fs)
  from collectFaces_step [OF Cons.prems] obtain nl3 vs3 nc3 where
    c: "collectFaces (n + 1) fs (nl3, vs3, nc3) = Inr (nl', vs', nc')" and
    r: "faceInRange (length vs) f" and
    l3: "length nl3 = length nl" and mk: "marks vs vs3" and
    cs: "\<forall>c \<in> set (corners f). 0 \<le> vmarker (vs3 ! nat c) \<and> nl3 ! nat c \<noteq> []" and
    keep: "\<forall>v < length nl. nl ! v \<noteq> [] \<longrightarrow> nl3 ! v \<noteq> []" and
    same: "\<forall>v. int v \<notin> set (corners f) \<longrightarrow> vs3 ! v = vs ! v" and
    rn: "ringsNonneg nl \<longrightarrow> ringsNonneg nl3" by blast
  have len3: "length nl3 = length vs3" using l3 mk Cons.prems(2) by (simp add: marks_length)
  note IH = Cons.IH [OF c len3]
  have lvs: "length vs3 = length vs" using mk by (simp add: marks_length)
  have inr: "\<forall>c \<in> set (corners f). nat c < length vs"
    using r by (auto simp: corners_def faceInRange_def inRange_def)
  have 1: "marks vs vs'" using mk IH marks_trans by blast
  have 2: "\<forall>g \<in> set (f # fs). \<forall>c \<in> set (corners g). 0 \<le> vmarker (vs' ! nat c)"
  proof -
    have "\<forall>c \<in> set (corners f). 0 \<le> vmarker (vs' ! nat c)"
      using cs inr lvs IH marks_nonneg by metis
    thus ?thesis using IH by simp
  qed
  have 3: "\<forall>v < length nl. 0 \<le> vmarker (vs' ! v) \<longrightarrow> nl' ! v \<noteq> []"
    if h: "\<forall>v < length nl. 0 \<le> vmarker (vs ! v) \<longrightarrow> nl ! v \<noteq> []"
  proof -
    have "nl3 ! v \<noteq> []" if v: "v < length nl3" "0 \<le> vmarker (vs3 ! v)" for v
    proof (cases "int v \<in> set (corners f)")
      case True
      then show ?thesis using cs by force
    next
      case False
      hence "vs3 ! v = vs ! v" using same by simp
      then show ?thesis using h keep v l3 by simp
    qed
    thus ?thesis using IH l3 by simp
  qed
  have 4: "ringsNonneg nl \<longrightarrow> ringsNonneg nl'" using rn IH by simp
  show ?case using 1 2 3 4 by blast
qed

lemma createNeighborlist_cases:
  assumes "createNeighborlist m = Inr m'"
  obtains (direct) nl vs nc nl' vs' where
      "collectFaces 0 (face m) (replicate (numberVertices m) [],
          map (\<lambda>v. v\<lparr>vmarker := - 1\<rparr>) (vertex m), 0) = Inr (nl, vs, nc)"
      "\<not> nc < numberVertices m" "orderAll nl vs = Inr (nl', vs')"
      "m' = m\<lparr>vertex := vs', neighborList := Some nl'\<rparr>"
  | (removed) nl vs nc m'' where
      "collectFaces 0 (face m) (replicate (numberVertices m) [],
          map (\<lambda>v. v\<lparr>vmarker := - 1\<rparr>) (vertex m), 0) = Inr (nl, vs, nc)"
      "nc < numberVertices m"
      "removeUnconnectedVertices (m\<lparr>vertex := vs, neighborList := None\<rparr>) = Inr m''"
      "createNeighborlist m'' = Inr m'"
  using assms
  by (subst (asm) createNeighborlist.simps)
     (auto simp: Let_def split: sum.splits prod.splits if_splits)

lemma faceRecords_mset: "mset r = mset r' \<Longrightarrow> faceRecords k r = faceRecords k r'"
  unfolding faceRecords_def by (metis mset_filter size_mset)

lemma sum_list_replicate_Nil: "sum_list (map length (replicate n [])) = 0"
  by (induction n) simp_all

lemma sum_list_length_cong:
  assumes "length xs = length ys" "\<forall>i < length xs. length (xs ! i) = length (ys ! i)"
  shows "sum_list (map length xs) = sum_list (map length ys)"
proof -
  have "map length xs = map length ys"
    using assms by (intro nth_equalityI) simp_all
  thus ?thesis by simp
qed

text \<open>The adjacency table \<open>nl\<close> of a mesh agrees with its faces.\<close>

definition adjacent :: "OptimizationMesh \<Rightarrow> NPNT3 list list \<Rightarrow> bool" where
  "adjacent m nl =
     (neighborList m = Some nl \<and> length nl = numberVertices m
      \<and> list_all (faceInRange (numberVertices m)) (face m)
      \<and> sum_list (map length nl) = 3 * numberFaces m
      \<and> (\<forall>k < numberFaces m. \<forall>v < numberVertices m.
            faceRecords (int k) (nl ! v) = count_list (corners (face m ! k)) (int v))
      \<and> (\<forall>v < numberVertices m. \<not> closedCycle (nl ! v) \<longrightarrow> \<not> vselected (vertex m ! v)))"

lemma collectFaces_inRange:
  "collectFaces n fs (nl, vs, nc) = Inr res \<Longrightarrow> list_all (faceInRange (length vs)) fs"
proof (induction fs arbitrary: n nl vs nc)
  case Nil
  then show ?case by simp
next
  case (Cons f fs)
  from collectFaces_Cons_Inr [OF Cons.prems] obtain vs3 nc3 nl3 where
    "faceInRange (length vs) f" "length vs3 = length vs"
    "collectFaces (n + 1) fs (nl3, vs3, nc3) = Inr res" by blast
  with Cons.IH [of "n + 1" nl3 vs3 nc3] show ?case by simp
qed

lemma createNeighborlist_direct:
  assumes c: "collectFaces 0 (face m) (replicate (numberVertices m) [],
          map (\<lambda>v. v\<lparr>vmarker := - 1\<rparr>) (vertex m), 0) = Inr (nl, vs, nc)"
      and o: "orderAll nl vs = Inr (nl', vs')"
  shows "adjacent (m\<lparr>vertex := vs', neighborList := Some nl'\<rparr>) nl'
       \<and> length vs' = length (vertex m)
       \<and> (\<forall>v < length (vertex m). vx (vs' ! v) = vx (vertex m ! v)
             \<and> vy (vs' ! v) = vy (vertex m ! v) \<and> vz (vs' ! v) = vz (vertex m ! v))"
proof -
  let ?N = "numberVertices m"
  let ?vs0 = "map (\<lambda>v. v\<lparr>vmarker := - 1\<rparr>) (vertex m)"
  have l0: "length (replicate ?N ([]::NPNT3 list)) = length ?vs0"
    by (simp add: numberVertices_def)
  note R = collectFaces_rings [OF c l0]
  note M = collectFaces_marks [OF c l0]
  from M have mk: "marks ?vs0 vs" by blast
  have lvs: "length vs = ?N" using marks_length [OF mk] by (simp add: numberVertices_def)
  have lnl: "length nl = ?N" using R by simp
  have "ringsNonneg (replicate ?N [])" by (simp add: ringsNonneg_def)
  with M have rn: "ringsNonneg nl" by blast
  hence rn': "\<forall>ring \<in> set nl. \<forall>r \<in> set ring. 0 \<le> fst r" by (simp add: ringsNonneg_def)
  have lq: "length nl = length vs" using lvs lnl by simp
  note O = orderAll_result [OF o lq rn']
  have ir: "list_all (faceInRange ?N) (face m)"
    using collectFaces_inRange [OF c] by (simp add: numberVertices_def)
  have cnt: "faceRecords (int k) (nl ! v) = count_list (corners (face m ! k)) (int v)"
    if "k < numberFaces m" "v < ?N" for k v
    using R that by (simp add: numberFaces_def)
  have cnt': "faceRecords (int k) (nl' ! v) = count_list (corners (face m ! k)) (int v)"
    if "k < numberFaces m" "v < ?N" for k v
  proof -
    have "mset (nl' ! v) = mset (nl ! v)" using O that(2) lnl by simp
    from faceRecords_mset [OF this] cnt [OF that] show ?thesis by simp
  qed
  have sm: "sum_list (map length nl') = 3 * numberFaces m"
  proof -
    have "\<forall>i < length nl'. length (nl' ! i) = length (nl ! i)"
      using O by (metis size_mset)
    hence "sum_list (map length nl') = sum_list (map length nl)"
      using O by (intro sum_list_length_cong) simp_all
    thus ?thesis using R by (simp add: sum_list_replicate_Nil numberFaces_def)
  qed
  have co: "vx (vs' ! v) = vx (vertex m ! v) \<and> vy (vs' ! v) = vy (vertex m ! v)
            \<and> vz (vs' ! v) = vz (vertex m ! v)" if v: "v < length (vertex m)" for v
  proof -
    have "markStep (?vs0 ! v) (vs ! v)" using mk v by (simp add: marks_def)
    hence "vx (vs ! v) = vx (vertex m ! v) \<and> vy (vs ! v) = vy (vertex m ! v)
            \<and> vz (vs ! v) = vz (vertex m ! v)" using v by (simp add: markStep_def)
    moreover have "v < length nl" using v lnl by (simp add: numberVertices_def)
    ultimately show ?thesis using O by simp
  qed
  have "adjacent (m\<lparr>vertex := vs', neighborList := Some nl'\<rparr>) nl'"
    unfolding adjacent_def using O lnl lvs ir cnt' sm
    by (simp add: numberVertices_def numberFaces_def)
  moreover have "length vs' = length (vertex m)" using O lvs by (simp add: numberVertices_def)
  ultimately show ?thesis using co by blast
qed

lemma createNeighborlist_sound:
  "createNeighborlist m = Inr m' \<Longrightarrow> \<exists>nl. adjacent m' nl"
proof (induction "numberVertices m" arbitrary: m rule: less_induct)
  case less
  from less.prems show ?case
  proof (cases rule: createNeighborlist_cases)
    case (direct nl vs nc nl' vs')
    from createNeighborlist_direct [OF direct(1,3)] direct(4) show ?thesis by blast
  next
    case (removed nl vs nc m'')
    have "length (vertex m'') < length (vertex m)"
      by (rule createNeighborlist_decreases [OF removed(1,2,3) refl])
    hence "numberVertices m'' < numberVertices m" by (simp add: numberVertices_def)
    from less.hyps [OF this removed(4)] show ?thesis .
  qed
qed

lemma collectFaces_Cons:
  assumes "faceInRange (length vs) f"
  shows "\<exists>nl3 vs3 nc3. length vs3 = length vs \<and>
           collectFaces n (f # fs) (nl, vs, nc) = collectFaces (n + 1) fs (nl3, vs3, nc3)"
proof -
  from assms have a: "nat (v1 f) < length vs" "nat (v2 f) < length vs" "nat (v3 f) < length vs"
    by (auto simp: faceInRange_def inRange_def)
  obtain vs1 nc1 where m1: "markConnected (nat (v1 f)) (vs, nc) = (vs1, nc1)" by fastforce
  obtain vs2 nc2 where m2: "markConnected (nat (v2 f)) (vs1, nc1) = (vs2, nc2)" by fastforce
  obtain vs3 nc3 where m3: "markConnected (nat (v3 f)) (vs2, nc2) = (vs3, nc3)" by fastforce
  note i1 = markConnected_inv [OF a(1) m1]
  from a i1 have a2: "nat (v2 f) < length vs1" by simp
  note i2 = markConnected_inv [OF a2 m2]
  from a i1 i2 have a3: "nat (v3 f) < length vs2" by simp
  note i3 = markConnected_inv [OF a3 m3]
  have "length vs3 = length vs" using i1 i2 i3 by simp
  moreover from assms have "0 \<le> v1 f" "0 \<le> v2 f" "0 \<le> v3 f"
    by (auto simp: faceInRange_def inRange_def)
  hence "collectFaces n (f # fs) (nl, vs, nc) = collectFaces (n + 1) fs
           (push (nat (v3 f)) (v1 f, v2 f, int n)
              (push (nat (v2 f)) (v3 f, v1 f, int n)
                 (push (nat (v1 f)) (v2 f, v3 f, int n) nl)), vs3, nc3)"
    using assms by (simp add: Let_def m1 m2 m3)
  ultimately show ?thesis by blast
qed

lemma collectFaces_total:
  "list_all (faceInRange (length vs)) fs \<Longrightarrow> \<exists>res. collectFaces n fs (nl, vs, nc) = Inr res"
proof (induction fs arbitrary: n nl vs nc)
  case Nil
  then show ?case by simp
next
  case (Cons f fs)
  hence r: "faceInRange (length vs) f" and rs: "list_all (faceInRange (length vs)) fs" by simp_all
  from collectFaces_Cons [OF r, of n fs nl nc] obtain nl3 vs3 nc3 where
    l: "length vs3 = length vs" and
    e: "collectFaces n (f # fs) (nl, vs, nc) = collectFaces (n + 1) fs (nl3, vs3, nc3)" by blast
  from rs l have "list_all (faceInRange (length vs3)) fs" by simp
  from Cons.IH [OF this] show ?case unfolding e .
qed

lemma orderVertex_total: "ring \<noteq> [] \<Longrightarrow> \<exists>res. orderVertex ring v = Inr res"
  by (cases ring) (simp_all add: orderVertex_def Let_def split: prod.splits del: orderRing.simps)

lemma orderAll_total:
  "length nl = length vs \<Longrightarrow> \<forall>ring \<in> set nl. ring \<noteq> [] \<Longrightarrow> \<exists>res. orderAll nl vs = Inr res"
proof (induction nl vs rule: orderAll.induct)
  case (1 vs)
  then show ?case by simp
next
  case (2 ring rings)
  then show ?case by simp
next
  case (3 ring rings v vs)
  from "3.prems" obtain res where ov: "orderVertex ring v = Inr res"
    using orderVertex_total [of ring v] by auto
  obtain ring' v' where res: "res = (ring', v')" by (cases res) auto
  from "3.prems" have "\<exists>res. orderAll rings vs = Inr res"
    using "3.IH" [OF ov [unfolded res] refl] by simp
  then obtain rs where "orderAll rings vs = Inr rs" by blast
  thus ?case using ov res by (cases rs) simp
qed

lemma verticesToRemove_length [simp]: "length (verticesToRemove k vs) = length vs"
  by (induction vs arbitrary: k) (simp_all add: Let_def)

lemma verticesToRemove_nth:
  "v < length vs \<Longrightarrow> verticesToRemove k vs ! v = k + negatives (take (Suc v) vs)"
proof (induction vs arbitrary: k v)
  case Nil
  then show ?case by simp
next
  case (Cons w vs)
  show ?case
  proof (cases v)
    case 0
    then show ?thesis by (simp add: negatives_def Let_def)
  next
    case (Suc u)
    with Cons.prems have "u < length vs" by simp
    from Cons.IH [OF this] Suc show ?thesis by (simp add: negatives_def Let_def)
  qed
qed

lemma kept_index:
  assumes "v < length vs" "0 \<le> vmarker (vs ! v)"
  shows "negatives (take (Suc v) vs) \<le> v
       \<and> v - negatives (take (Suc v) vs) < length vs - negatives vs"
proof -
  let ?neg = "\<lambda>w. vmarker w < 0"
  have vs: "vs = take v vs @ vs ! v # drop (Suc v) vs"
    using assms(1) by (simp add: id_take_nth_drop)
  have t: "take (Suc v) vs = take v vs @ [vs ! v]"
    using assms(1) by (simp add: take_Suc_conv_app_nth)
  have n1: "negatives (take (Suc v) vs) = negatives (take v vs)"
    unfolding t using assms(2) by (simp add: negatives_def)
  have n2: "negatives (take v vs) \<le> v"
    unfolding negatives_def using length_filter_le [of ?neg "take v vs"] assms(1) by simp
  have "negatives vs = negatives (take v vs @ vs ! v # drop (Suc v) vs)" using vs by simp
  also have "\<dots> = negatives (take v vs) + negatives (drop (Suc v) vs)"
    using assms(2) by (simp add: negatives_def)
  finally have n3: "negatives vs = negatives (take v vs) + negatives (drop (Suc v) vs)" .
  have n4: "negatives (drop (Suc v) vs) \<le> length vs - Suc v"
    unfolding negatives_def using length_filter_le [of ?neg "drop (Suc v) vs"] by simp
  show ?thesis using n1 n2 n3 n4 assms(1) by simp
qed

lemma fixFace_inRange:
  assumes "faceInRange (length vs) f" "\<forall>c \<in> set (corners f). 0 \<le> vmarker (vs ! nat c)"
  shows "faceInRange (length vs - negatives vs) (fixFace (verticesToRemove 0 vs) f)"
proof -
  have one: "inRange (length vs - negatives vs) (c - int (verticesToRemove 0 vs ! nat c))"
    if "inRange (length vs) c" "0 \<le> vmarker (vs ! nat c)" for c
  proof -
    from that(1) have c: "0 \<le> c" "nat c < length vs" by (auto simp: inRange_def)
    note k = kept_index [OF c(2) that(2)]
    have e: "verticesToRemove 0 vs ! nat c = negatives (take (Suc (nat c)) vs)"
      using verticesToRemove_nth [OF c(2), of 0] by simp
    have le: "negatives vs \<le> length vs" by (simp add: negatives_def)
    from k have k1: "negatives (take (Suc (nat c)) vs) \<le> nat c"
      and k2: "nat c - negatives (take (Suc (nat c)) vs) < length vs - negatives vs" by simp_all
    have d: "int (nat c - negatives (take (Suc (nat c)) vs))
             = int (nat c) - int (negatives (take (Suc (nat c)) vs))"
      using k1 by (rule of_nat_diff)
    from k2 have "int (nat c - negatives (take (Suc (nat c)) vs)) < int (length vs - negatives vs)"
      by (simp only: of_nat_less_iff)
    hence lt: "int (nat c) - int (negatives (take (Suc (nat c)) vs)) < int (length vs - negatives vs)"
      unfolding d .
    from k1 have ge: "int (negatives (take (Suc (nat c)) vs)) \<le> int (nat c)"
      by (simp only: of_nat_le_iff)
    have ic: "int (nat c) = c" using c(1) by simp
    from lt ge show ?thesis unfolding e inRange_def ic by simp
  qed
  show ?thesis
    using assms one unfolding faceInRange_def fixFace_def corners_def by simp
qed

lemma removeUnconnectedVertices_inRange:
  assumes "list_all (faceInRange (length (vertex m))) (face m)"
      and "\<forall>f \<in> set (face m). \<forall>c \<in> set (corners f). 0 \<le> vmarker (vertex m ! nat c)"
  shows "\<exists>m'. removeUnconnectedVertices m = Inr m'
             \<and> list_all (faceInRange (numberVertices m')) (face m')"
proof -
  let ?m' = "m\<lparr>vertex := take (length (vertex m) - countRemoved 0 (vertex m))
                     (fold (moveForward (verticesToRemove 0 (vertex m))) [0..<length (vertex m)] (vertex m)),
                face := map (fixFace (verticesToRemove 0 (vertex m))) (face m)\<rparr>"
  have e: "removeUnconnectedVertices m = Inr ?m'"
    using assms(1) by (simp add: removeUnconnectedVertices_def Let_def)
  have n: "numberVertices ?m' = length (vertex m) - negatives (vertex m)"
    by (simp add: numberVertices_def countRemoved_filter negatives_def)
  have "list_all (faceInRange (length (vertex m) - negatives (vertex m)))
          (map (fixFace (verticesToRemove 0 (vertex m))) (face m))"
    unfolding list_all_iff using assms fixFace_inRange by (auto simp: list_all_iff)
  hence "list_all (faceInRange (numberVertices ?m')) (face ?m')" unfolding n by simp
  with e show ?thesis by blast
qed

lemma negatives_zero: "negatives vs = 0 \<Longrightarrow> v < length vs \<Longrightarrow> 0 \<le> vmarker (vs ! v)"
  unfolding negatives_def by (metis filter_empty_conv length_0_conv not_less nth_mem)

lemma createNeighborlist_total:
  "list_all (faceInRange (numberVertices m)) (face m) \<Longrightarrow> \<exists>m'. createNeighborlist m = Inr m'"
proof (induction "numberVertices m" arbitrary: m rule: less_induct)
  case less
  let ?N = "numberVertices m"
  let ?vs0 = "map (\<lambda>v. v\<lparr>vmarker := - 1\<rparr>) (vertex m)"
  have l0: "length (replicate ?N ([]::NPNT3 list)) = length ?vs0"
    by (simp add: numberVertices_def)
  have "list_all (faceInRange (length ?vs0)) (face m)"
    using less.prems by (simp add: numberVertices_def)
  from collectFaces_total [OF this, of 0 "replicate ?N []" 0] obtain nl vs nc where
    c: "collectFaces 0 (face m) (replicate ?N [], ?vs0, 0) = Inr (nl, vs, nc)"
    by (metis prod_cases3)
  note I = collectFaces_inv [OF c]
  note M = collectFaces_marks [OF c l0]
  note R = collectFaces_rings [OF c l0]
  have n0: "negatives ?vs0 = ?N" by (simp add: negatives_def numberVertices_def)
  have lvs: "length vs = ?N" using I by (simp add: numberVertices_def)
  have lnl: "length nl = ?N" using R by simp
  have sum: "nc + negatives vs = ?N" using I n0 by simp
  show ?case
  proof (cases "nc < ?N")
    case True
    let ?m1 = "m\<lparr>vertex := vs, neighborList := None\<rparr>"
    have "list_all (faceInRange (length (vertex ?m1))) (face ?m1)"
      using less.prems lvs by simp
    moreover have "\<forall>f \<in> set (face ?m1). \<forall>c \<in> set (corners f). 0 \<le> vmarker (vertex ?m1 ! nat c)"
      using M by simp
    ultimately obtain m'' where
      r: "removeUnconnectedVertices ?m1 = Inr m''" and
      ir: "list_all (faceInRange (numberVertices m'')) (face m'')"
      using removeUnconnectedVertices_inRange [of ?m1] by blast
    have "length (vertex m'') < length (vertex m)"
      by (rule createNeighborlist_decreases [OF c True r refl])
    hence "numberVertices m'' < ?N" by (simp add: numberVertices_def)
    from less.hyps [OF this ir] obtain m' where "createNeighborlist m'' = Inr m'" by blast
    thus ?thesis
      by (subst createNeighborlist.simps) (simp add: Let_def c True r)
  next
    case False
    with sum have z: "negatives vs = 0" by simp
    have ne: "\<forall>ring \<in> set nl. ring \<noteq> []"
    proof
      fix ring assume "ring \<in> set nl"
      then obtain v where v: "v < length nl" "ring = nl ! v" by (auto simp: in_set_conv_nth)
      have "0 \<le> vmarker (vs ! v)" using negatives_zero [OF z] v lnl lvs by simp
      moreover have "\<forall>v < length (replicate ?N ([]::NPNT3 list)). 0 \<le> vmarker (?vs0 ! v) \<longrightarrow> replicate ?N ([]::NPNT3 list) ! v \<noteq> []"
        by (simp add: numberVertices_def)
      ultimately show "ring \<noteq> []" using M v lnl by simp
    qed
    from orderAll_total [OF _ ne] lnl lvs obtain nl' vs' where "orderAll nl vs = Inr (nl', vs')"
      by fastforce
    thus ?thesis
      by (subst createNeighborlist.simps) (simp add: Let_def c False)
  qed
qed

lemma createNeighborlist_numberFaces:
  "createNeighborlist m = Inr m' \<Longrightarrow> numberFaces m' = numberFaces m"
proof (induction "numberVertices m" arbitrary: m rule: less_induct)
  case less
  from less.prems show ?case
  proof (cases rule: createNeighborlist_cases)
    case (direct nl vs nc nl' vs')
    then show ?thesis by (simp add: numberFaces_def)
  next
    case (removed nl vs nc m'')
    have "length (vertex m'') < length (vertex m)"
      by (rule createNeighborlist_decreases [OF removed(1,2,3) refl])
    hence "numberVertices m'' < numberVertices m" by (simp add: numberVertices_def)
    from less.hyps [OF this removed(4)] have "numberFaces m' = numberFaces m''" .
    moreover from removed(3) have "numberFaces m'' = numberFaces m"
      by (auto simp: removeUnconnectedVertices_def Let_def numberFaces_def split: if_splits)
    ultimately show ?thesis by simp
  qed
qed

text \<open>Two small meshes: one whose only face repeats a vertex, and one with an unconnected
  vertex, a repeated index and open rings.\<close>

definition pinched :: OptimizationMesh where
  "pinched = \<lparr>vertex = [\<lparr>vx = 0, vy = 0, vz = 0, vmarker = 0, vselected = True\<rparr>,
                        \<lparr>vx = 1, vy = 0, vz = 0, vmarker = 0, vselected = True\<rparr>],
               face = [\<lparr>v1 = 0, v2 = 0, v3 = 1, tmarker = 0, tselected = True\<rparr>],
               neighborList = None\<rparr>"

definition speck :: OptimizationMesh where
  "speck = \<lparr>vertex = [\<lparr>vx = 0, vy = 0, vz = 0, vmarker = 0, vselected = True\<rparr>,
                      \<lparr>vx = 5, vy = 5, vz = 5, vmarker = 0, vselected = True\<rparr>,
                      \<lparr>vx = 1, vy = 0, vz = 0, vmarker = 0, vselected = True\<rparr>,
                      \<lparr>vx = 0, vy = 1, vz = 0, vmarker = 0, vselected = True\<rparr>],
             face = [\<lparr>v1 = 0, v2 = 2, v3 = 3, tmarker = 0, tselected = True\<rparr>,
                     \<lparr>v1 = 0, v2 = 0, v3 = 3, tmarker = 0, tselected = True\<rparr>],
             neighborList = None\<rparr>"

lemma count_list_distinct: "distinct xs \<Longrightarrow> x \<in> set xs \<Longrightarrow> count_list xs x = 1"
  by (induction xs) (auto simp: count_list_0_iff)

text \<open>
  Claim C7, as the code has it. For a mesh whose face indices are in range,
  \<^verbatim>\<open>createNeighborlist\<close> returns; afterwards every face \<open>k\<close> with three different
  corners has exactly one record with face field \<open>k\<close> in the ring of each corner, the ring
  lengths add up to three times the number of faces, and every vertex whose ring is not
  a closed cycle (so also every vertex whose ring cannot be arranged into one) has
  \<^verbatim>\<open>selected = false\<close>.
\<close>

theorem createNeighborlist_spec:
  assumes "list_all (faceInRange (numberVertices m)) (face m)"
  shows "\<exists>m' nl. createNeighborlist m = Inr m' \<and> neighborList m' = Some nl
      \<and> length nl = numberVertices m' \<and> numberFaces m' = numberFaces m
      \<and> list_all (faceInRange (numberVertices m')) (face m')
      \<and> (\<forall>k < numberFaces m'. distinct (corners (face m' ! k)) \<longrightarrow>
            (\<forall>c \<in> set (corners (face m' ! k)). faceRecords (int k) (nl ! nat c) = 1))
      \<and> sum_list (map length nl) = 3 * numberFaces m'
      \<and> (\<forall>v < numberVertices m'. \<not> closedCycle (nl ! v) \<longrightarrow> \<not> vselected (vertex m' ! v))
      \<and> (\<forall>v < numberVertices m'. (\<forall>r. mset r = mset (nl ! v) \<longrightarrow> \<not> closedCycle r)
            \<longrightarrow> \<not> vselected (vertex m' ! v))"
proof -
  from createNeighborlist_total [OF assms] obtain m' where c: "createNeighborlist m = Inr m'"
    by blast
  from createNeighborlist_sound [OF c] obtain nl where a: "adjacent m' nl" by blast
  hence nl: "neighborList m' = Some nl" "length nl = numberVertices m'"
    and ir: "list_all (faceInRange (numberVertices m')) (face m')"
    and sm: "sum_list (map length nl) = 3 * numberFaces m'"
    and cnt: "\<And>k v. k < numberFaces m' \<Longrightarrow> v < numberVertices m' \<Longrightarrow>
            faceRecords (int k) (nl ! v) = count_list (corners (face m' ! k)) (int v)"
    and cl: "\<And>v. v < numberVertices m' \<Longrightarrow> \<not> closedCycle (nl ! v) \<Longrightarrow> \<not> vselected (vertex m' ! v)"
    by (simp_all add: adjacent_def)
  have one: "faceRecords (int k) (nl ! nat c) = 1"
    if k: "k < numberFaces m'" and d: "distinct (corners (face m' ! k))"
      and c: "c \<in> set (corners (face m' ! k))" for k c
  proof -
    have "faceInRange (numberVertices m') (face m' ! k)"
      using ir k by (simp add: list_all_length numberFaces_def)
    with c have r: "0 \<le> c" "nat c < numberVertices m'"
      by (auto simp: corners_def faceInRange_def inRange_def)
    from cnt [OF k r(2)] r(1) count_list_distinct [OF d c] show ?thesis by simp
  qed
  have perm: "\<not> vselected (vertex m' ! v)"
    if "v < numberVertices m'" "\<forall>r. mset r = mset (nl ! v) \<longrightarrow> \<not> closedCycle r" for v
    using cl [OF that(1)] that(2) by blast
  from c nl createNeighborlist_numberFaces [OF c] ir one sm cl perm show ?thesis by blast
qed

lemma speck_result:
  "createNeighborlist speck =
     Inr \<lparr>vertex = [\<lparr>vx = 0, vy = 0, vz = 0, vmarker = 0, vselected = False\<rparr>,
                    \<lparr>vx = 1, vy = 0, vz = 0, vmarker = 0, vselected = False\<rparr>,
                    \<lparr>vx = 0, vy = 1, vz = 0, vmarker = 0, vselected = False\<rparr>],
           face = [\<lparr>v1 = 0, v2 = 1, v3 = 2, tmarker = 0, tselected = True\<rparr>,
                   \<lparr>v1 = 0, v2 = 0, v3 = 2, tmarker = 0, tselected = True\<rparr>],
           neighborList = Some [[(2, 0, 1), (0, 2, 1), (1, 2, 0)], [(2, 0, 0)],
                                [(0, 0, 1), (0, 1, 0)]]\<rparr>"
  by code_simp

theorem createNeighborlist_witness:
  "list_all (faceInRange (numberVertices speck)) (face speck)
   \<and> (\<exists>m' nl. createNeighborlist speck = Inr m' \<and> neighborList m' = Some nl
        \<and> numberVertices m' = 3
        \<and> faceRecords 0 (nl ! 0) = 1 \<and> faceRecords 0 (nl ! 1) = 1 \<and> faceRecords 0 (nl ! 2) = 1
        \<and> sum_list (map length nl) = 6
        \<and> \<not> closedCycle (nl ! 1) \<and> \<not> vselected (vertex m' ! 1))"
proof -
  have h: "list_all (faceInRange (numberVertices speck)) (face speck)"
    by (simp add: speck_def numberVertices_def faceInRange_def inRange_def)
  from createNeighborlist_spec [OF h] obtain m' nl where
    r: "createNeighborlist speck = Inr m'" "neighborList m' = Some nl"
    and one: "\<forall>k < numberFaces m'. distinct (corners (face m' ! k)) \<longrightarrow>
            (\<forall>c \<in> set (corners (face m' ! k)). faceRecords (int k) (nl ! nat c) = 1)"
    and sm: "sum_list (map length nl) = 3 * numberFaces m'"
    and cl: "\<forall>v < numberVertices m'. \<not> closedCycle (nl ! v) \<longrightarrow> \<not> vselected (vertex m' ! v)"
    by blast
  from r(1) have m': "m' = \<lparr>vertex = [\<lparr>vx = 0, vy = 0, vz = 0, vmarker = 0, vselected = False\<rparr>,
                    \<lparr>vx = 1, vy = 0, vz = 0, vmarker = 0, vselected = False\<rparr>,
                    \<lparr>vx = 0, vy = 1, vz = 0, vmarker = 0, vselected = False\<rparr>],
           face = [\<lparr>v1 = 0, v2 = 1, v3 = 2, tmarker = 0, tselected = True\<rparr>,
                   \<lparr>v1 = 0, v2 = 0, v3 = 2, tmarker = 0, tselected = True\<rparr>],
           neighborList = Some [[(2, 0, 1), (0, 2, 1), (1, 2, 0)], [(2, 0, 0)],
                                [(0, 0, 1), (0, 1, 0)]]\<rparr>"
    unfolding speck_result by simp
  have nv: "numberVertices m' = 3" "numberFaces m' = 2"
    by (simp_all add: m' numberVertices_def numberFaces_def)
  have f0: "corners (face m' ! 0) = [0, 1, 2]" by (simp add: m' corners_def)
  from one nv f0 have "\<forall>c \<in> set [0, 1, 2]. faceRecords (int 0) (nl ! nat c) = 1"
    by (metis distinct_length_2_or_more distinct_singleton zero_less_numeral
              zero_neq_one one_neq_zero numeral_eq_iff semiring_norm(85) 
              zero_neq_numeral numeral_One)
  hence rec: "faceRecords 0 (nl ! 0) = 1" "faceRecords 0 (nl ! 1) = 1" "faceRecords 0 (nl ! 2) = 1"
    by simp_all
  have nl: "nl = [[(2, 0, 1), (0, 2, 1), (1, 2, 0)], [(2, 0, 0)], [(0, 0, 1), (0, 1, 0)]]"
    using r(2) by (simp add: m')
  have nc: "\<not> closedCycle (nl ! 1)" by (simp add: nl closedCycle_def)
  with cl nv have "\<not> vselected (vertex m' ! 1)" by simp
  with h r nv rec sm nc show ?thesis by simp
qed

text \<open>
  The claim as stated, without the condition on the corners, fails on a face that repeats
  a vertex: such a face is reported and kept, and the ring of the repeated vertex gets two
  records with its index.
\<close>

theorem createNeighborlist_counterexample:
  "createNeighborlist pinched =
     Inr \<lparr>vertex = [\<lparr>vx = 0, vy = 0, vz = 0, vmarker = 0, vselected = True\<rparr>,
                    \<lparr>vx = 1, vy = 0, vz = 0, vmarker = 0, vselected = False\<rparr>],
           face = [\<lparr>v1 = 0, v2 = 0, v3 = 1, tmarker = 0, tselected = True\<rparr>],
           neighborList = Some [[(1, 0, 0), (0, 1, 0)], [(0, 0, 0)]]\<rparr>
   \<and> faceRecords 0 ([[(1, 0, 0), (0, 1, 0)], [(0, 0, 0)]] ! 0) = 2"
  by code_simp

section \<open>Polygon retriangulation\<close>

text \<open>
  \<^verbatim>\<open>OptimizationMesh::subdividePolygon\<close> works on a cyclic list of cells. The cycle is
  the list of its cells from \<^verbatim>\<open>startNeighbour\<close> on, in \<^verbatim>\<open>next\<close> order; a position in
  the list stands for a pointer to the cell. The field \<^verbatim>\<open>b\<close> of a cell holds the degree
  of the boundary vertex \<^verbatim>\<open>a\<close>.
\<close>

definition degree :: "NPNT3 \<Rightarrow> int" where
  "degree cell = fst (snd cell)"

text \<open>
  The first search: \<^verbatim>\<open>firstNeighbour\<close> is the first cell of smallest degree. The
  second search: \<^verbatim>\<open>minNumber\<close> starts at \<open>99999\<close>; a cell is a candidate when it is
  not \<^verbatim>\<open>firstNeighbour\<close>, not its successor and not its predecessor; the start cell, if a
  candidate, is taken whatever its degree, a later candidate only when its degree is
  strictly below \<^verbatim>\<open>minNumber\<close>. When no cell is taken, \<^verbatim>\<open>secondNeighbour\<close> stays
  uninitialised (\<^term>\<open>None\<close>).
\<close>

definition firstIndex :: "NPNT3 list \<Rightarrow> nat" where
  "firstIndex cyc =
     fst (fold (\<lambda>i (firstNeighbour, minNumber).
                  if degree (cyc ! i) < minNumber then (i, degree (cyc ! i))
                  else (firstNeighbour, minNumber))
               [1..<length cyc] (0, degree (cyc ! 0)))"

definition candidate :: "nat \<Rightarrow> nat \<Rightarrow> nat \<Rightarrow> bool" where
  "candidate k firstNeighbour i =
     (i \<noteq> firstNeighbour \<and> i \<noteq> (firstNeighbour + 1) mod k \<and> (i + 1) mod k \<noteq> firstNeighbour)"

definition secondIndex :: "NPNT3 list \<Rightarrow> nat \<Rightarrow> nat option" where
  "secondIndex cyc firstNeighbour =
     fst (fold (\<lambda>i (secondNeighbour, minNumber).
                  if candidate (length cyc) firstNeighbour i \<and> degree (cyc ! i) < minNumber
                  then (Some i, degree (cyc ! i))
                  else (secondNeighbour, minNumber))
               [1..<length cyc]
               (if candidate (length cyc) firstNeighbour 0 then (Some 0, degree (cyc ! 0))
                else (None, 99999)))"

text \<open>
  Both chosen cells get their degree raised by one and are copied (only \<^verbatim>\<open>a\<close> and
  \<^verbatim>\<open>b\<close> of a copy are written; its \<^verbatim>\<open>c\<close>, never read, is \<open>0\<close> here). The chord splits
  the cycle in two: \<^verbatim>\<open>firstNeighbour ... secondNeighbour\<close>, and the two copies followed
  by the cells after \<^verbatim>\<open>secondNeighbour\<close> up to the one before \<^verbatim>\<open>firstNeighbour\<close>.
\<close>

definition bump :: "NPNT3 \<Rightarrow> NPNT3" where
  "bump cell = (case cell of (a, b, c) \<Rightarrow> (a, b + 1, c))"

definition copyCell :: "NPNT3 \<Rightarrow> NPNT3" where
  "copyCell cell = (case cell of (a, b, c) \<Rightarrow> (a, b, 0))"

text \<open>
  What \<^verbatim>\<open>subdividePolygon\<close> writes: the face array, the neighbour table and
  \<^verbatim>\<open>*faceAvailableIndex\<close>. The field \<open>emitted\<close> is a trace added by the embedding: the
  triangles written so far, each with its face slot, in the order they were written.
\<close>

record Retriangulation =
  rface :: "Triangle list"
  rneighbourList :: "NPNT3 list list"
  faceAvailableIndex :: nat
  emitted :: "(int \<times> int \<times> int \<times> int) list"

text \<open>
  The base case (three cells): the triangle \<open>(a, b, c)\<close> goes to the face slot
  \<^verbatim>\<open>faceAvailableList[*faceAvailableIndex]\<close>, the index moves on by one, and the three
  rings get their new cells. Reading the slot list beyond its filled part, or using a
  slot or a vertex outside its array, is undefined in the source.
\<close>

definition emitTriangle :: "int list \<Rightarrow> int \<Rightarrow> int \<Rightarrow> int \<Rightarrow> int \<Rightarrow> Retriangulation
                             \<Rightarrow> error + Retriangulation" where
  "emitTriangle faceAvailableList faceMarker a b c st =
     (if faceAvailableIndex st \<ge> length faceAvailableList then Inl Uninitialised
      else let faceIndex = faceAvailableList ! faceAvailableIndex st in
        if \<not> inRange (length (rface st)) faceIndex then Inl OutOfBounds
        else if \<not> (inRange (length (rneighbourList st)) a \<and> inRange (length (rneighbourList st)) b
                  \<and> inRange (length (rneighbourList st)) c) then Inl OutOfBounds
        else Inr (st\<lparr>rface := (rface st)[nat faceIndex :=
                            (rface st ! nat faceIndex)\<lparr>v1 := a, v2 := b, v3 := c, tmarker := faceMarker\<rparr>],
                      faceAvailableIndex := faceAvailableIndex st + 1,
                      rneighbourList := push (nat c) (a, b, faceIndex)
                                          (push (nat b) (c, a, faceIndex)
                                             (push (nat a) (b, c, faceIndex) (rneighbourList st))),
                      emitted := emitted st @ [(faceIndex, a, b, c)]\<rparr>))"

definition splitCycle :: "NPNT3 list \<Rightarrow> nat \<Rightarrow> nat \<Rightarrow> NPNT3 list \<times> NPNT3 list" where
  "splitCycle cyc firstNeighbour secondNeighbour =
     (let k = length cyc;
          cyc = cyc[firstNeighbour := bump (cyc ! firstNeighbour)];
          cyc = cyc[secondNeighbour := bump (cyc ! secondNeighbour)];
          firstCopyNeighbour = copyCell (cyc ! firstNeighbour);
          secondCopyNeighbour = copyCell (cyc ! secondNeighbour);
          r = rotate firstNeighbour cyc;
          j = (secondNeighbour + k - firstNeighbour) mod k
      in (take (j + 1) r, firstCopyNeighbour # secondCopyNeighbour # drop (j + 1) r))"

lemma fold_firstIndex_lt:
  "fst st < k \<Longrightarrow> \<forall>i \<in> set ns. i < k \<Longrightarrow>
   fst (fold (\<lambda>i (f, mn). if degree (cyc ! i) < mn then (i, degree (cyc ! i)) else (f, mn)) ns st) < k"
  by (induction ns arbitrary: st) (auto split: prod.splits)

lemma firstIndex_lt: "cyc \<noteq> [] \<Longrightarrow> firstIndex cyc < length cyc"
  unfolding firstIndex_def by (rule fold_firstIndex_lt) auto

lemma fold_secondIndex:
  assumes "fst (fold (\<lambda>i (sn, mn). if candidate k f i \<and> degree (cyc ! i) < mn
                              then (Some i, degree (cyc ! i)) else (sn, mn)) ns (sn, mn)) = Some s"
      and "\<forall>i \<in> set ns. i < k"
      and "\<forall>t. sn = Some t \<longrightarrow> t < k \<and> candidate k f t"
  shows "s < k \<and> candidate k f s"
  using assms
proof (induction ns arbitrary: sn mn)
  case Nil
  then show ?case by simp
next
  case (Cons i ns)
  show ?case
  proof (cases "candidate k f i \<and> degree (cyc ! i) < mn")
    case True
    with Cons.prems(1) have
      "fst (fold (\<lambda>i (sn, mn). if candidate k f i \<and> degree (cyc ! i) < mn
                              then (Some i, degree (cyc ! i)) else (sn, mn)) ns
              (Some i, degree (cyc ! i))) = Some s" by simp
    moreover have "\<forall>t. Some i = Some t \<longrightarrow> t < k \<and> candidate k f t"
      using True Cons.prems(2) by simp
    ultimately show ?thesis using Cons.IH Cons.prems(2) by simp
  next
    case False
    with Cons.prems(1) have
      "fst (fold (\<lambda>i (sn, mn). if candidate k f i \<and> degree (cyc ! i) < mn
                              then (Some i, degree (cyc ! i)) else (sn, mn)) ns
              (sn, mn)) = Some s" by auto
    thus ?thesis using Cons.IH Cons.prems(2,3) by simp
  qed
qed

lemma secondIndex_candidate:
  assumes "secondIndex cyc f = Some s" "cyc \<noteq> []"
  shows "s < length cyc \<and> candidate (length cyc) f s"
proof (cases "candidate (length cyc) f 0")
  case True
  show ?thesis
  proof (rule fold_secondIndex [where ns = "[1..<length cyc]" and cyc = cyc
            and sn = "Some 0" and mn = "degree (cyc ! 0)"])
    show "fst (fold (\<lambda>i (sn, mn). if candidate (length cyc) f i \<and> degree (cyc ! i) < mn
                              then (Some i, degree (cyc ! i)) else (sn, mn)) [1..<length cyc]
            (Some 0, degree (cyc ! 0))) = Some s"
      using assms(1) True by (simp add: secondIndex_def)
    show "\<forall>i \<in> set [1..<length cyc]. i < length cyc" by simp
    show "\<forall>t. Some 0 = Some t \<longrightarrow> t < length cyc \<and> candidate (length cyc) f t"
      using True assms(2) by auto
  qed
next
  case False
  show ?thesis
  proof (rule fold_secondIndex [where ns = "[1..<length cyc]" and cyc = cyc
            and sn = None and mn = 99999])
    show "fst (fold (\<lambda>i (sn, mn). if candidate (length cyc) f i \<and> degree (cyc ! i) < mn
                              then (Some i, degree (cyc ! i)) else (sn, mn)) [1..<length cyc]
            (None, 99999)) = Some s"
      using assms(1) False by (simp add: secondIndex_def)
    show "\<forall>i \<in> set [1..<length cyc]. i < length cyc" by simp
    show "\<forall>t. None = Some t \<longrightarrow> t < length cyc \<and> candidate (length cyc) f t" by simp
  qed
qed

lemma candidate_offset:
  assumes "candidate k f s" "f < k" "s < k"
  shows "2 \<le> (s + k - f) mod k \<and> (s + k - f) mod k + 2 \<le> k"
proof -
  let ?j = "(s + k - f) mod k"
  from assms have ne: "s \<noteq> f" "s \<noteq> (f + 1) mod k" "(s + 1) mod k \<noteq> f"
    by (simp_all add: candidate_def)
  have j: "?j = (if f \<le> s then s - f else s + k - f)"
    using assms(2,3) by (auto simp: mod_if)
  have k2: "2 \<le> k" using assms(2,3) ne(1) by linarith
  have a: "?j \<noteq> 0" using j ne(1) assms(2,3) by (auto split: if_splits)
  have b: "?j \<noteq> 1"
  proof
    assume "?j = 1"
    with j have "s = f + 1 \<or> (s = 0 \<and> f = k - 1)"
      using assms(2,3) by (auto split: if_splits)
    thus False using ne(2) assms(2,3) k2 by (auto simp: mod_if)
  qed
  have c: "?j \<noteq> k - 1"
  proof
    assume "?j = k - 1"
    with j have "(f = 0 \<and> s = k - 1) \<or> f = s + 1"
      using assms(2,3) by (auto split: if_splits)
    thus False using ne(3) assms(2,3) k2 by (auto simp: mod_if)
  qed
  have "?j < k" using assms(2) by simp
  with a b c show ?thesis by linarith
qed

lemma splitCycle_lengths:
  assumes "candidate (length cyc) f s" "f < length cyc" "s < length cyc"
      and "splitCycle cyc f s = (c1, c2)"
  shows "length c1 = (s + length cyc - f) mod length cyc + 1
       \<and> length c2 = length cyc + 1 - (s + length cyc - f) mod length cyc
       \<and> 3 \<le> length c1 \<and> length c1 < length cyc \<and> 3 \<le> length c2 \<and> length c2 < length cyc"
proof -
  note o = candidate_offset [OF assms(1-3)]
  from assms(4) have "length c1 = (s + length cyc - f) mod length cyc + 1"
    "length c2 = length cyc + 1 - (s + length cyc - f) mod length cyc"
    using o by (auto simp: splitCycle_def Let_def)
  with o show ?thesis by (intro conjI) linarith+
qed

text \<open>
  \<^verbatim>\<open>subdividePolygon\<close> itself. Fewer than three cells: an error message and return.
  It terminates because both parts of a split are shorter than the cycle.
\<close>

function subdividePolygon :: "int list \<Rightarrow> int \<Rightarrow> NPNT3 list \<Rightarrow> Retriangulation
                               \<Rightarrow> error + Retriangulation" where
  "subdividePolygon faceAvailableList faceMarker cyc st =
     (let numberIterations = length cyc in
      if numberIterations < 3 then Inr st
      else if numberIterations = 3
      then emitTriangle faceAvailableList faceMarker
             (fst (cyc ! 0)) (fst (cyc ! 1)) (fst (cyc ! 2)) st
      else let firstNeighbour = firstIndex cyc in
           case secondIndex cyc firstNeighbour of
             None \<Rightarrow> Inl Uninitialised
           | Some secondNeighbour \<Rightarrow>
               (case subdividePolygon faceAvailableList faceMarker
                       (fst (splitCycle cyc firstNeighbour secondNeighbour)) st of
                  Inl e \<Rightarrow> Inl e
                | Inr st \<Rightarrow>
                    subdividePolygon faceAvailableList faceMarker
                      (snd (splitCycle cyc firstNeighbour secondNeighbour)) st))"
  by pat_completeness auto
termination
proof (relation "measure (\<lambda>(fal, mk, cyc, st). length cyc)", goal_cases)
  case 1
  show ?case by simp
next
  case (2 fal mk cyc st k f s)
  hence ne: "cyc \<noteq> []" by auto
  from 2 have s: "secondIndex cyc (firstIndex cyc) = Some s" by simp
  note c = secondIndex_candidate [OF s ne]
  obtain c1 c2 where sp: "splitCycle cyc (firstIndex cyc) s = (c1, c2)" by fastforce
  from splitCycle_lengths [OF _ firstIndex_lt [OF ne] _ sp] c 2 show ?case
    by (simp add: sp)
next
  case (3 fal mk cyc st k f s x)
  hence ne: "cyc \<noteq> []" by auto
  from 3 have s: "secondIndex cyc (firstIndex cyc) = Some s" by simp
  note c = secondIndex_candidate [OF s ne]
  obtain c1 c2 where sp: "splitCycle cyc (firstIndex cyc) s = (c1, c2)" by fastforce
  from splitCycle_lengths [OF _ firstIndex_lt [OF ne] _ sp] c 3 show ?case
    by (simp add: sp)
qed

declare subdividePolygon.simps [simp del]

section \<open>Properties of the polygon retriangulation\<close>

text \<open>
  The conditions under which the retriangulation is defined: the degrees stay below the
  sentinel \<open>99999\<close> through all levels of the recursion (each level raises a degree by
  at most one and shortens the cycle by at least one); the boundary vertices index the
  neighbour table; the face slots from \<open>i\<close> up to \<open>j\<close> exist and index the face array.
\<close>

definition boundedDegrees :: "NPNT3 list \<Rightarrow> bool" where
  "boundedDegrees cyc = (\<forall>cell \<in> set cyc. degree cell + int (length cyc) < 100003)"

definition cellsInRange :: "nat \<Rightarrow> NPNT3 list \<Rightarrow> bool" where
  "cellsInRange n cyc = (\<forall>cell \<in> set cyc. inRange n (fst cell))"

definition slotsInRange :: "int list \<Rightarrow> nat \<Rightarrow> nat \<Rightarrow> nat \<Rightarrow> bool" where
  "slotsInRange faceAvailableList n i j =
     (j \<le> length faceAvailableList \<and> (\<forall>l. i \<le> l \<and> l < j \<longrightarrow> inRange n (faceAvailableList ! l)))"

text \<open>A cell of a part of a split comes from a cell of the cycle: same vertex, degree
  at most one higher.\<close>

definition derived :: "NPNT3 list \<Rightarrow> NPNT3 \<Rightarrow> bool" where
  "derived cyc cell = (\<exists>old \<in> set cyc. fst cell = fst old \<and> degree cell \<le> degree old + 1)"

lemma derived_self: "cell \<in> set cyc \<Longrightarrow> derived cyc cell"
  unfolding derived_def by force

lemma derived_bump: "cell \<in> set cyc \<Longrightarrow> derived cyc (bump cell)"
  unfolding derived_def bump_def degree_def by (cases cell) force

lemma derived_copy: "derived cyc cell \<Longrightarrow> derived cyc (copyCell cell)"
  unfolding derived_def copyCell_def degree_def by (cases cell) auto

lemma derived_update:
  assumes "\<forall>cell \<in> set xs. derived cyc cell" "derived cyc y"
  shows "\<forall>cell \<in> set (xs[i := y]). derived cyc cell"
  using assms set_update_subset_insert [of xs i y] by auto

lemma splitCycle_derived:
  assumes "f < length cyc" "s < length cyc" "s \<noteq> f" "splitCycle cyc f s = (c1, c2)"
  shows "(\<forall>cell \<in> set c1. derived cyc cell) \<and> (\<forall>cell \<in> set c2. derived cyc cell)"
proof -
  let ?c1 = "cyc[f := bump (cyc ! f)]"
  let ?c2 = "?c1[s := bump (?c1 ! s)]"
  let ?j = "(s + length cyc - f) mod length cyc"
  have d1: "\<forall>cell \<in> set ?c1. derived cyc cell"
  proof (rule derived_update)
    show "\<forall>cell \<in> set cyc. derived cyc cell" by (simp add: derived_self)
    show "derived cyc (bump (cyc ! f))" using assms(1) by (simp add: derived_bump)
  qed
  have "?c1 ! s = cyc ! s" using assms(3) by simp
  hence "derived cyc (bump (?c1 ! s))" using assms(2) by (simp add: derived_bump)
  with d1 have d2: "\<forall>cell \<in> set ?c2. derived cyc cell" by (rule derived_update)
  have l2: "length ?c2 = length cyc" by simp
  have n: "derived cyc (?c2 ! i)" if "i < length cyc" for i
    using d2 that l2 nth_mem by metis
  from assms(4) have c1: "c1 = take (?j + 1) (rotate f ?c2)"
    and c2: "c2 = copyCell (?c2 ! f) # copyCell (?c2 ! s) # drop (?j + 1) (rotate f ?c2)"
    by (simp_all add: splitCycle_def Let_def)
  have "set c1 \<subseteq> set ?c2" unfolding c1 using set_take_subset [of "?j + 1" "rotate f ?c2"] by simp
  hence a: "\<forall>cell \<in> set c1. derived cyc cell" using d2 by blast
  have "set (drop (?j + 1) (rotate f ?c2)) \<subseteq> set ?c2"
    using set_drop_subset [of "?j + 1" "rotate f ?c2"] by simp
  hence "\<forall>cell \<in> set (drop (?j + 1) (rotate f ?c2)). derived cyc cell" using d2 by blast
  hence b: "\<forall>cell \<in> set c2. derived cyc cell"
    unfolding c2 using n [OF assms(1)] n [OF assms(2)] by (simp add: derived_copy)
  from a b show ?thesis by blast
qed

lemma derived_bounded:
  assumes "boundedDegrees cyc" "\<forall>cell \<in> set c. derived cyc cell" "length c < length cyc"
  shows "boundedDegrees c"
  unfolding boundedDegrees_def
proof
  fix cell assume "cell \<in> set c"
  with assms(2) obtain old where o: "old \<in> set cyc" "degree cell \<le> degree old + 1"
    unfolding derived_def by blast
  from assms(1) o(1) have "degree old + int (length cyc) < 100003"
    by (simp add: boundedDegrees_def)
  with o(2) assms(3) show "degree cell + int (length c) < 100003" by linarith
qed

lemma derived_inRange:
  assumes "cellsInRange n cyc" "\<forall>cell \<in> set c. derived cyc cell"
  shows "cellsInRange n c"
  using assms unfolding cellsInRange_def derived_def by metis

lemma fold_secondIndex_found:
  assumes "\<exists>i \<in> set ns. candidate k f i" "\<forall>i \<in> set ns. degree (cyc ! i) < 99999"
      and "sn = None \<longrightarrow> mn = 99999"
  shows "fst (fold (\<lambda>i (sn, mn). if candidate k f i \<and> degree (cyc ! i) < mn
                              then (Some i, degree (cyc ! i)) else (sn, mn)) ns (sn, mn)) \<noteq> None"
  using assms
proof (induction ns arbitrary: sn mn)
  case Nil
  then show ?case by simp
next
  case (Cons i ns)
  let ?step = "\<lambda>i (sn, mn). if candidate k f i \<and> degree (cyc ! i) < mn
                              then (Some i, degree (cyc ! i)) else (sn, mn)"
  have keep: "fst (fold ?step ns (Some t, d)) \<noteq> None" for t d
    by (induction ns arbitrary: t d) auto
  show ?case
  proof (cases "candidate k f i \<and> degree (cyc ! i) < mn")
    case True
    then show ?thesis using keep by simp
  next
    case False
    show ?thesis
    proof (cases sn)
      case None
      with Cons.prems(3) have mn: "mn = 99999" by simp
      with False Cons.prems(2) have nc: "\<not> candidate k f i" by simp
      with Cons.prems(1) have ex: "\<exists>i \<in> set ns. candidate k f i" by auto
      have al: "\<forall>i \<in> set ns. degree (cyc ! i) < 99999" using Cons.prems(2) by simp
      have "fold ?step (i # ns) (sn, mn) = fold ?step ns (sn, mn)" using False by auto
      with Cons.IH [OF ex al Cons.prems(3)] show ?thesis by simp
    next
      case (Some t)
      with False keep show ?thesis by simp
    qed
  qed
qed

lemma candidate_exists:
  assumes "4 \<le> k" "f < k"
  shows "candidate k f ((f + 2) mod k) \<and> (f + 2) mod k < k"
proof -
  have "(f + 2) mod k = (if f + 2 < k then f + 2 else f + 2 - k)"
    using assms by (auto simp: mod_if)
  moreover have "(f + 1) mod k = (if f + 1 < k then f + 1 else 0)"
    using assms by (auto simp: mod_if)
  ultimately show ?thesis using assms
    by (auto simp: candidate_def mod_if split: if_splits)
qed

lemma secondIndex_found:
  assumes "4 \<le> length cyc" "f < length cyc" "\<forall>cell \<in> set cyc. degree cell < 99999"
  shows "secondIndex cyc f \<noteq> None"
proof (cases "candidate (length cyc) f 0")
  case True
  have "fst (fold (\<lambda>i (sn, mn). if candidate (length cyc) f i \<and> degree (cyc ! i) < mn
                              then (Some i, degree (cyc ! i)) else (sn, mn)) ns (Some t, d)) \<noteq> None"
    for ns t d by (induction ns arbitrary: t d) auto
  with True show ?thesis by (simp add: secondIndex_def)
next
  case False
  obtain i where i: "candidate (length cyc) f i" "i < length cyc"
    using candidate_exists [OF assms(1,2)] by blast
  with False have "i \<noteq> 0" by metis
  with i have "\<exists>i \<in> set [1..<length cyc]. candidate (length cyc) f i" by auto
  moreover have "\<forall>i \<in> set [1..<length cyc]. degree (cyc ! i) < 99999"
    using assms(3) by simp
  ultimately have "fst (fold (\<lambda>i (sn, mn). if candidate (length cyc) f i \<and> degree (cyc ! i) < mn
                              then (Some i, degree (cyc ! i)) else (sn, mn)) [1..<length cyc]
                         (None, 99999)) \<noteq> None"
    by (intro fold_secondIndex_found) simp_all
  with False show ?thesis by (simp add: secondIndex_def)
qed

lemma slotsInRange_mono:
  "slotsInRange fal n i j \<Longrightarrow> i \<le> i' \<Longrightarrow> j' \<le> j \<Longrightarrow> slotsInRange fal n i' j'"
  unfolding slotsInRange_def by auto

lemma emitTriangle_ok:
  assumes "slotsInRange fal (length (rface st)) (faceAvailableIndex st) (faceAvailableIndex st + 1)"
      and "inRange (length (rneighbourList st)) a" "inRange (length (rneighbourList st)) b"
          "inRange (length (rneighbourList st)) c"
  shows "\<exists>st'. emitTriangle fal mk a b c st = Inr st'
           \<and> faceAvailableIndex st' = faceAvailableIndex st + 1
           \<and> emitted st' = emitted st @ [(fal ! faceAvailableIndex st, a, b, c)]
           \<and> length (rface st') = length (rface st)
           \<and> length (rneighbourList st') = length (rneighbourList st)"
proof -
  from assms(1) have "faceAvailableIndex st < length fal"
    "inRange (length (rface st)) (fal ! faceAvailableIndex st)"
    by (auto simp: slotsInRange_def)
  with assms(2-4) show ?thesis by (simp add: emitTriangle_def Let_def)
qed

lemma subdividePolygon_ok:
  assumes "3 \<le> length cyc" "boundedDegrees cyc"
      and "cellsInRange (length (rneighbourList st)) cyc"
      and "slotsInRange fal (length (rface st)) (faceAvailableIndex st)
             (faceAvailableIndex st + (length cyc - 2))"
  shows "\<exists>st'. subdividePolygon fal mk cyc st = Inr st'
           \<and> faceAvailableIndex st' = faceAvailableIndex st + (length cyc - 2)
           \<and> map fst (emitted st') = map fst (emitted st)
                @ map ((!) fal) [faceAvailableIndex st..<faceAvailableIndex st + (length cyc - 2)]
           \<and> length (rface st') = length (rface st)
           \<and> length (rneighbourList st') = length (rneighbourList st)"
  using assms
proof (induction "length cyc" arbitrary: cyc st rule: less_induct)
  case less
  let ?k = "length cyc"
  let ?i = "faceAvailableIndex st"
  show ?case
  proof (cases "?k = 3")
    case True
    have cells: "inRange (length (rneighbourList st)) (fst (cyc ! 0))"
      "inRange (length (rneighbourList st)) (fst (cyc ! 1))"
      "inRange (length (rneighbourList st)) (fst (cyc ! 2))"
      using less.prems(3) True by (simp_all add: cellsInRange_def)
    have sl: "slotsInRange fal (length (rface st)) ?i (?i + 1)"
      using less.prems(4) True by simp
    from emitTriangle_ok [OF sl cells, of mk] obtain st' where
      e: "emitTriangle fal mk (fst (cyc ! 0)) (fst (cyc ! 1)) (fst (cyc ! 2)) st = Inr st'"
         "faceAvailableIndex st' = ?i + 1"
         "emitted st' = emitted st @ [(fal ! ?i, fst (cyc ! 0), fst (cyc ! 1), fst (cyc ! 2))]"
         "length (rface st') = length (rface st)"
         "length (rneighbourList st') = length (rneighbourList st)" by blast
    have "subdividePolygon fal mk cyc st = Inr st'"
      using True e(1) by (subst subdividePolygon.simps) (simp add: Let_def)
    with e True show ?thesis by simp
  next
    case False
    with less.prems(1) have k4: "4 \<le> ?k" by simp
    hence ne: "cyc \<noteq> []" by auto
    let ?f = "firstIndex cyc"
    have f: "?f < ?k" by (rule firstIndex_lt [OF ne])
    have "\<forall>cell \<in> set cyc. degree cell < 99999"
      using less.prems(2) k4 unfolding boundedDegrees_def by fastforce
    from secondIndex_found [OF k4 f this] obtain s where s: "secondIndex cyc ?f = Some s" by auto
    note c = secondIndex_candidate [OF s ne]
    hence sf: "s \<noteq> ?f" by (simp add: candidate_def)
    obtain c1 c2 where sp: "splitCycle cyc ?f s = (c1, c2)" by fastforce
    from splitCycle_lengths [OF _ f _ sp] c have
      l1: "length c1 = (s + ?k - ?f) mod ?k + 1" and
      l2: "length c2 = ?k + 1 - (s + ?k - ?f) mod ?k" and
      b1: "3 \<le> length c1" "length c1 < ?k" and b2: "3 \<le> length c2" "length c2 < ?k"
      by simp_all
    have total: "(length c1 - 2) + (length c2 - 2) = ?k - 2"
      using l1 l2 b1 b2 by linarith
    from splitCycle_derived [OF f _ sf sp] c have
      d1: "\<forall>cell \<in> set c1. derived cyc cell" and d2: "\<forall>cell \<in> set c2. derived cyc cell"
      by simp_all
    have unfold: "subdividePolygon fal mk cyc st =
        (case subdividePolygon fal mk c1 st of Inl e \<Rightarrow> Inl e
         | Inr st1 \<Rightarrow> subdividePolygon fal mk c2 st1)"
      using k4 False s sp by (subst subdividePolygon.simps) (simp add: Let_def split: sum.splits)
    have "slotsInRange fal (length (rface st)) ?i (?i + (length c1 - 2))"
      by (rule slotsInRange_mono [OF less.prems(4)]) (use total in linarith)+
    from less.hyps [OF b1(2) b1(1) derived_bounded [OF less.prems(2) d1 b1(2)]
                       derived_inRange [OF less.prems(3) d1] this]
    obtain st1 where
      r1: "subdividePolygon fal mk c1 st = Inr st1"
          "faceAvailableIndex st1 = ?i + (length c1 - 2)"
          "map fst (emitted st1) = map fst (emitted st)
             @ map ((!) fal) [?i..<?i + (length c1 - 2)]"
          "length (rface st1) = length (rface st)"
          "length (rneighbourList st1) = length (rneighbourList st)" by blast
    have sl2: "slotsInRange fal (length (rface st1)) (faceAvailableIndex st1)
                 (faceAvailableIndex st1 + (length c2 - 2))"
      unfolding r1(2) r1(4)
      by (rule slotsInRange_mono [OF less.prems(4)]) (use total in linarith)+
    have cr2: "cellsInRange (length (rneighbourList st1)) c2"
      unfolding r1(5) by (rule derived_inRange [OF less.prems(3) d2])
    from less.hyps [OF b2(2) b2(1) derived_bounded [OF less.prems(2) d2 b2(2)] cr2 sl2]
    obtain st2 where
      r2: "subdividePolygon fal mk c2 st1 = Inr st2"
          "faceAvailableIndex st2 = faceAvailableIndex st1 + (length c2 - 2)"
          "map fst (emitted st2) = map fst (emitted st1)
             @ map ((!) fal) [faceAvailableIndex st1..<faceAvailableIndex st1 + (length c2 - 2)]"
          "length (rface st2) = length (rface st1)"
          "length (rneighbourList st2) = length (rneighbourList st1)" by blast
    have idx: "faceAvailableIndex st2 = ?i + (?k - 2)" using r2(2) r1(2) total by simp
    have "[?i..<?i + (?k - 2)]
          = [?i..<?i + (length c1 - 2)] @ [?i + (length c1 - 2)..<?i + (length c1 - 2) + (length c2 - 2)]"
      using total upt_add_eq_append [of ?i "?i + (length c1 - 2)" "length c2 - 2"]
      by (simp add: add.assoc)
    hence em: "map fst (emitted st2) = map fst (emitted st) @ map ((!) fal) [?i..<?i + (?k - 2)]"
      using r2(3) r1(3) r1(2) by simp
    show ?thesis
      unfolding unfold using r1(1) r2(1) idx em r2(4,5) r1(4,5) by simp
  qed
qed

text \<open>A hexagonal hole, as \<^verbatim>\<open>coarse\<close> passes it on, and a pool of six face slots.\<close>

definition hexagon :: "NPNT3 list" where
  "hexagon = [(1, 5, 10), (2, 5, 11), (3, 4, 12), (4, 5, 13), (5, 6, 14), (6, 5, 15)]"

definition pool :: "int list" where
  "pool = [10, 11, 12, 13, 14, 15]"

definition hole :: Retriangulation where
  "hole = \<lparr>rface = replicate 16 \<lparr>v1 = - 1, v2 = - 1, v3 = - 1, tmarker = - 1, tselected = True\<rparr>,
            rneighbourList = replicate 7 [], faceAvailableIndex = 0, emitted = []\<rparr>"

text \<open>
  Cycles whose degrees stay below the sentinel. For a cycle of \<open>k \<ge> 3\<close> cells whose
  degrees \<open>b\<close> satisfy
  \<open>b + k < 100003\<close>, whose vertices index the neighbour table, and a pool with \<open>k - 2\<close>
  slots from \<^verbatim>\<open>*faceAvailableIndex\<close> on that index the face array, \<^verbatim>\<open>subdividePolygon\<close>
  returns, writes exactly \<open>k - 2\<close> triangles, into the slots
  \<^verbatim>\<open>faceAvailableList[*faceAvailableIndex], faceAvailableList[*faceAvailableIndex + 1], ...\<close>
  in this order, and leaves \<^verbatim>\<open>*faceAvailableIndex\<close> raised by \<open>k - 2\<close>.
\<close>

theorem subdividePolygon_bounded:
  assumes "3 \<le> length cyc" "boundedDegrees cyc"
      and "cellsInRange (length (rneighbourList st)) cyc"
      and "slotsInRange faceAvailableList (length (rface st)) (faceAvailableIndex st)
             (faceAvailableIndex st + (length cyc - 2))"
  shows "\<exists>st'. subdividePolygon faceAvailableList faceMarker cyc st = Inr st'
           \<and> faceAvailableIndex st' = faceAvailableIndex st + (length cyc - 2)
           \<and> length (emitted st') = length (emitted st) + (length cyc - 2)
           \<and> map fst (emitted st') = map fst (emitted st)
                @ map ((!) faceAvailableList)
                    [faceAvailableIndex st..<faceAvailableIndex st + (length cyc - 2)]"
proof -
  from subdividePolygon_ok [OF assms, of faceMarker] obtain st' where
    r: "subdividePolygon faceAvailableList faceMarker cyc st = Inr st'"
       "faceAvailableIndex st' = faceAvailableIndex st + (length cyc - 2)"
       "map fst (emitted st') = map fst (emitted st)
                @ map ((!) faceAvailableList)
                    [faceAvailableIndex st..<faceAvailableIndex st + (length cyc - 2)]"
    by blast
  from r(3) have "length (map fst (emitted st')) = length (map fst (emitted st)
                @ map ((!) faceAvailableList)
                    [faceAvailableIndex st..<faceAvailableIndex st + (length cyc - 2)])"
    by simp
  hence "length (emitted st') = length (emitted st) + (length cyc - 2)" by simp
  with r show ?thesis by blast
qed

lemma hexagon_result:
  "subdividePolygon pool 7 hexagon hole =
     Inr \<lparr>rface = [\<lparr>v1 = - 1, v2 = - 1, v3 = - 1, tmarker = - 1, tselected = True\<rparr>,
                   \<lparr>v1 = - 1, v2 = - 1, v3 = - 1, tmarker = - 1, tselected = True\<rparr>,
                   \<lparr>v1 = - 1, v2 = - 1, v3 = - 1, tmarker = - 1, tselected = True\<rparr>,
                   \<lparr>v1 = - 1, v2 = - 1, v3 = - 1, tmarker = - 1, tselected = True\<rparr>,
                   \<lparr>v1 = - 1, v2 = - 1, v3 = - 1, tmarker = - 1, tselected = True\<rparr>,
                   \<lparr>v1 = - 1, v2 = - 1, v3 = - 1, tmarker = - 1, tselected = True\<rparr>,
                   \<lparr>v1 = - 1, v2 = - 1, v3 = - 1, tmarker = - 1, tselected = True\<rparr>,
                   \<lparr>v1 = - 1, v2 = - 1, v3 = - 1, tmarker = - 1, tselected = True\<rparr>,
                   \<lparr>v1 = - 1, v2 = - 1, v3 = - 1, tmarker = - 1, tselected = True\<rparr>,
                   \<lparr>v1 = - 1, v2 = - 1, v3 = - 1, tmarker = - 1, tselected = True\<rparr>,
                   \<lparr>v1 = 4, v2 = 5, v3 = 6, tmarker = 7, tselected = True\<rparr>,
                   \<lparr>v1 = 4, v2 = 6, v3 = 3, tmarker = 7, tselected = True\<rparr>,
                   \<lparr>v1 = 3, v2 = 6, v3 = 1, tmarker = 7, tselected = True\<rparr>,
                   \<lparr>v1 = 3, v2 = 1, v3 = 2, tmarker = 7, tselected = True\<rparr>,
                   \<lparr>v1 = - 1, v2 = - 1, v3 = - 1, tmarker = - 1, tselected = True\<rparr>,
                   \<lparr>v1 = - 1, v2 = - 1, v3 = - 1, tmarker = - 1, tselected = True\<rparr>],
           rneighbourList =
             [[], [(2, 3, 13), (3, 6, 12)], [(3, 1, 13)],
              [(1, 2, 13), (6, 1, 12), (4, 6, 11)], [(6, 3, 11), (5, 6, 10)],
              [(6, 4, 10)], [(1, 3, 12), (3, 4, 11), (4, 5, 10)]],
           faceAvailableIndex = 4,
           emitted = [(10, 4, 5, 6), (11, 4, 6, 3), (12, 3, 6, 1), (13, 3, 1, 2)]\<rparr>"
  by code_simp

lemma hexagon_length: "3 \<le> length hexagon"
  by (simp add: hexagon_def)

lemma hexagon_degrees: "boundedDegrees hexagon"
  by (simp add: boundedDegrees_def hexagon_def degree_def)

lemma hexagon_cells: "cellsInRange (length (rneighbourList hole)) hexagon"
  by (simp add: cellsInRange_def hexagon_def hole_def inRange_def)

lemma pool_slot: "l < 4 \<Longrightarrow> inRange 16 (pool ! l)"
proof -
  assume "l < 4"
  hence "l = 0 \<or> l = 1 \<or> l = 2 \<or> l = 3" by linarith
  thus ?thesis by (auto simp: pool_def inRange_def)
qed

lemma hexagon_slots:
  "slotsInRange pool (length (rface hole)) (faceAvailableIndex hole)
     (faceAvailableIndex hole + (length hexagon - 2))"
  using pool_slot by (simp add: slotsInRange_def hexagon_def hole_def) (simp add: pool_def)

lemma hole_index: "faceAvailableIndex hole = 0"
  by (simp add: hole_def)

lemma hole_emitted: "emitted hole = []"
  by (simp add: hole_def)

lemma hexagon_triangles: "length hexagon - 2 = 4"
  by (simp add: hexagon_def)

lemma four_slots: "[0..<0 + 4] = [0, 1, 2, 3::nat]"
  by code_simp

lemma pool_slots: "map ((!) pool) [0, 1, 2, 3] = [10, 11, 12, 13]"
  by (simp add: pool_def)

text \<open>The hexagon gives four triangles, in the slots 10, 11, 12, 13.\<close>

theorem subdividePolygon_hexagon:
  "3 \<le> length hexagon \<and> boundedDegrees hexagon
   \<and> cellsInRange (length (rneighbourList hole)) hexagon
   \<and> slotsInRange pool (length (rface hole)) (faceAvailableIndex hole)
        (faceAvailableIndex hole + (length hexagon - 2))
   \<and> (\<exists>st'. subdividePolygon pool 7 hexagon hole = Inr st'
          \<and> faceAvailableIndex st' = 4 \<and> length (emitted st') = 4
          \<and> map fst (emitted st') = [10, 11, 12, 13])"
proof -
  have "\<exists>st'. subdividePolygon pool 7 hexagon hole = Inr st'
          \<and> faceAvailableIndex st' = 4 \<and> length (emitted st') = 4
          \<and> map fst (emitted st') = [10, 11, 12, 13]"
    using subdividePolygon_bounded [OF hexagon_length hexagon_degrees hexagon_cells hexagon_slots, of 7]
    unfolding hole_index hole_emitted hexagon_triangles four_slots pool_slots by simp
  thus ?thesis
    using hexagon_length hexagon_degrees hexagon_cells hexagon_slots by (intro conjI)
qed

text \<open>
  Claim C5 (for every cycle of \<open>k \<ge> 3\<close> cells and a pool with \<open>k - 2\<close> free slots,
  \<^verbatim>\<open>subdividePolygon\<close> returns and writes exactly \<open>k - 2\<close> triangles) at a cycle of four
  cells with the degrees \<open>99999, 5, 0, 5\<close>. The cell of smallest degree is the one of
  vertex \<open>0\<close>; the only cell that is neither this cell nor next to it is the one of
  vertex \<open>2\<close>, with degree \<open>99999\<close>. When the cycle is entered at that cell, the test
  before the loop (lines 1623 to 1629) takes it whatever its degree, and the two
  triangles are written. When the cycle is entered one cell later, the cell is met
  inside the loop (lines 1632 to 1645), which takes a cell only if its degree is
  below \<^verbatim>\<open>minNumber = 99999\<close>: \<^verbatim>\<open>secondNeighbour\<close> is never assigned and the source goes
  on to write through it. The same holds for the cycle with the degrees
  \<open>0, 0, 99999, 0\<close> entered at the cell of vertex \<open>0\<close>.
\<close>

theorem subdividePolygon_start_cell:
  "map_sum id emitted
     (subdividePolygon pool 7 [(2, 99999, 0), (3, 5, 0), (0, 0, 0), (1, 5, 0)] hole)
     = Inr [(10, 0, 1, 2), (11, 0, 2, 3)]
   \<and> subdividePolygon pool 7 [(3, 5, 0), (0, 0, 0), (1, 5, 0), (2, 99999, 0)] hole
     = Inl Uninitialised
   \<and> subdividePolygon pool 7 [(0, 0, 0), (1, 0, 0), (2, 99999, 0), (3, 0, 0)] hole
     = Inl Uninitialised"
  by code_simp

section \<open>Normals, the structure tensor and the relocation step\<close>

text \<open>
  \<^verbatim>\<open>OptimizationMesh::getVertexPositionAlongSurface\<close>: the point \<open>(x, y, z)\<close> is
  projected on the bisector of the arms \<open>a \<rightarrow> b\<close> and \<open>a \<rightarrow> c\<close> through \<open>a\<close>, and the
  component along the normal of the two arms is added back. Only the coordinates of the
  returned \<^verbatim>\<open>Vertex\<close> are written.
\<close>

definition getVertexPositionAlongSurface ::
    "Vertex list \<Rightarrow> real \<Rightarrow> real \<Rightarrow> real \<Rightarrow> nat \<Rightarrow> nat \<Rightarrow> nat \<Rightarrow> real \<times> real \<times> real" where
  "getVertexPositionAlongSurface vs x y z a b c =
     (let ax = vx (vs ! a); ay = vy (vs ! a); az = vz (vs ! a);
          (bx, by, bz) = hat (vx (vs ! b) - ax, vy (vs ! b) - ay, vz (vs ! b) - az);
          (cx, cy, cz) = hat (vx (vs ! c) - ax, vy (vs ! c) - ay, vz (vs ! c) - az);
          (tx, ty, tz) = hat (0.5 * (cx + bx), 0.5 * (cy + by), 0.5 * (cz + bz));
          (bx, by, bz) = hat (by * cz - bz * cy, bz * cx - bx * cz, bx * cy - by * cx);
          distance = tx * (x - ax) + ty * (y - ay) + tz * (z - az);
          xx = distance * tx + ax;
          yy = distance * ty + ay;
          zz = distance * tz + az;
          distance = bx * (x - xx) + by * (y - yy) + bz * (z - zz)
      in (distance * bx + xx, distance * by + yy, distance * bz + zz))"

text \<open>
  \<^verbatim>\<open>OptimizationMesh::getVertexNormal\<close>: the unit normals of the ring's wedges, each
  turned to the side of the running sum, are added up; the sum is divided by the number
  of wedges and normalised. A vertex with an empty ring has the zero normal.
\<close>

definition wedgeNormal :: "Vertex list \<Rightarrow> real \<Rightarrow> real \<Rightarrow> real \<Rightarrow> NPNT3 \<Rightarrow> Normal \<Rightarrow> Normal" where
  "wedgeNormal vs x y z firstNeighbour normal =
     (let a = nat (fst firstNeighbour); b = nat (fst (snd firstNeighbour));
          (ax, ay, az) = hat (vx (vs ! a) - x, vy (vs ! a) - y, vz (vs ! a) - z);
          (bx, by, bz) = hat (vx (vs ! b) - x, vy (vs ! b) - y, vz (vs ! b) - z);
          (gx, gy, gz) = hat (ay * bz - az * by, az * bx - ax * bz, ax * by - ay * bx);
          length = dot3 normal (gx, gy, gz);
          (gx, gy, gz) = (if length < 0 then (- gx, - gy, - gz) else (gx, gy, gz))
      in case normal of (p, q, r) \<Rightarrow> (p + gx, q + gy, r + gz))"

definition getVertexNormal :: "Vertex list \<Rightarrow> NPNT3 list list \<Rightarrow> nat \<Rightarrow> Normal" where
  "getVertexNormal vs neighbourList n =
     (let x = vx (vs ! n); y = vy (vs ! n); z = vz (vs ! n);
          normal = fold (wedgeNormal vs x y z) (neighbourList ! n) (0, 0, 0);
          numberIterations = length (neighbourList ! n)
      in if numberIterations > 0
         then (case normal of (p, q, r) \<Rightarrow>
                 hat (p / real numberIterations, q / real numberIterations,
                      r / real numberIterations))
         else (0, 0, 0))"

subsection \<open>The breadth-first collection of normals\<close>

text \<open>
  The upper triangle of the symmetric matrix \<^verbatim>\<open>A\<close>, in the order
  \<^verbatim>\<open>A[0][0], A[0][1], A[0][2], A[1][1], A[1][2], A[2][2]\<close>.
\<close>

type_synonym Tensor = "real \<times> real \<times> real \<times> real \<times> real \<times> real"

definition outer :: "Normal \<Rightarrow> Tensor" where
  "outer vertexNormal = (case vertexNormal of (x, y, z) \<Rightarrow>
     (x * x, x * y, x * z, y * y, y * z, z * z))"

definition accumulate :: "Normal \<Rightarrow> Tensor \<Rightarrow> Tensor" where
  "accumulate vertexNormal A =
     (case outer vertexNormal of (n00, n01, n02, n11, n12, n22) \<Rightarrow>
      case A of (a00, a01, a02, a11, a12, a22) \<Rightarrow>
        (a00 + n00, a01 + n01, a02 + n02, a11 + n11, a12 + n12, a22 + n22))"

text \<open>
  Modelled from the spec: the macro \<^verbatim>\<open>DIM_SCALE\<close> belongs to the absent \<^verbatim>\<open>Common.hh\<close>;
  the search goes on from a vertex at distance below \<^verbatim>\<open>(DIM_SCALE > 2) ? 3 : 2\<close>, and
  section 4.3 gives the radius \<open>R = 2\<close> of the default build.
\<close>

definition searchRadius :: nat where
  "searchRadius = 2"

text \<open>
  The state of the search: the filled parts of \<^verbatim>\<open>indexArray\<close> and \<^verbatim>\<open>distArray\<close>
  (\<^verbatim>\<open>endPointer\<close> is their length), \<^verbatim>\<open>startPointer\<close>, the matrix and \<^verbatim>\<open>maxAngle\<close>;
  \<open>distance\<close> stands for the local \<^verbatim>\<open>dist\<close>.
  Both arrays have 333 places; writing a 334th entry is out of bounds. The normal of a
  vertex is computed from its ring, whose indices must be inside the vertex array.
\<close>

record Search =
  indexArray :: "nat list"
  distArray :: "nat list"
  startPointer :: nat
  tensor :: Tensor
  maxAngle :: real

definition ringInRange :: "nat \<Rightarrow> NPNT3 list \<Rightarrow> bool" where
  "ringInRange k ring = list_all (\<lambda>cell. inRange k (fst cell) \<and> inRange k (fst (snd cell))) ring"

definition visit :: "Vertex list \<Rightarrow> NPNT3 list list \<Rightarrow> Normal \<Rightarrow> nat \<Rightarrow> NPNT3 \<Rightarrow> Search
                     \<Rightarrow> error + Search" where
  "visit vs neighbourList currentNormal distance firstNeighbour st =
     (let m = fst firstNeighbour in
      if 0 \<le> m \<and> nat m \<in> set (indexArray st) then Inr st
      else if \<not> inRange (length neighbourList) m \<or> \<not> inRange (length vs) m then Inl OutOfBounds
      else if \<not> ringInRange (length vs) (neighbourList ! nat m) then Inl OutOfBounds
      else if 333 \<le> length (indexArray st) then Inl OutOfBounds
      else let vertexNormal = getVertexNormal vs neighbourList (nat m);
               angle = \<bar>dot3 currentNormal vertexNormal\<bar>
           in Inr (st\<lparr>indexArray := indexArray st @ [nat m],
                       distArray := distArray st @ [distance + 1],
                       tensor := accumulate vertexNormal (tensor st),
                       maxAngle := (if angle < maxAngle st then angle else maxAngle st)\<rparr>))"

text \<open>A loop over the cells of a ring that may run into undefined behaviour.\<close>

fun forEach :: "('a \<Rightarrow> 's \<Rightarrow> error + 's) \<Rightarrow> 'a list \<Rightarrow> 's \<Rightarrow> error + 's" where
  "forEach f [] s = Inr s"
| "forEach f (x # xs) s = (case f x s of Inl e \<Rightarrow> Inl e | Inr s' \<Rightarrow> forEach f xs s')"

lemma visit_measure:
  assumes "visit vs neighbourList currentNormal d cell st = Inr st'"
  shows "startPointer st' = startPointer st
       \<and> max 333 (length (indexArray st')) = max 333 (length (indexArray st))"
  using assms by (auto simp: visit_def Let_def split: if_splits)

lemma forEach_visit_measure:
  assumes "forEach (visit vs neighbourList currentNormal d) ring st = Inr st'"
  shows "startPointer st' = startPointer st
       \<and> max 333 (length (indexArray st')) = max 333 (length (indexArray st))"
  using assms
proof (induction ring arbitrary: st)
  case Nil
  then show ?case by simp
next
  case (Cons cell ring)
  from Cons.prems obtain st1 where
    s1: "visit vs neighbourList currentNormal d cell st = Inr st1"
    and s2: "forEach (visit vs neighbourList currentNormal d) ring st1 = Inr st'"
    by (auto split: sum.splits)
  from Cons.IH [OF s2] visit_measure [OF s1] show ?case by simp
qed

function search :: "Vertex list \<Rightarrow> NPNT3 list list \<Rightarrow> Normal \<Rightarrow> Search \<Rightarrow> error + Search" where
  "search vs neighbourList currentNormal st =
     (if startPointer st < length (indexArray st)
      then let index = indexArray st ! startPointer st;
               distance = distArray st ! startPointer st;
               st = st\<lparr>startPointer := startPointer st + 1\<rparr>
           in if distance < searchRadius
              then (case forEach (visit vs neighbourList currentNormal distance)
                                 (neighbourList ! index) st of
                      Inl e \<Rightarrow> Inl e
                    | Inr st \<Rightarrow> search vs neighbourList currentNormal st)
              else search vs neighbourList currentNormal st
      else Inr st)"
  by pat_completeness auto
termination
proof (relation "measure (\<lambda>(vs, neighbourList, currentNormal, st).
                   max 333 (length (indexArray st)) - startPointer st)", goal_cases)
  case 1
  show ?case by simp
next
  case (2 vs neighbourList currentNormal st index d st1 st2)
  from 2(6) have "forEach (visit vs neighbourList currentNormal d) (neighbourList ! index) st1
                  = Inr st2" by simp
  from forEach_visit_measure [OF this] 2(1,4)
  show ?case by auto
next
  case (3 vs neighbourList currentNormal st index d st1)
  then show ?case by auto
qed

declare search.simps [simp del]

subsection \<open>Eigenvalues and eigenvectors\<close>

text \<open>
  \<^verbatim>\<open>std::atan2\<close> on reals; the signed zeros of the floating-point function are not
  represented.
\<close>

definition atan2 :: "real \<Rightarrow> real \<Rightarrow> real" where
  "atan2 y x =
     (if 0 < x then arctan (y / x)
      else if x < 0 \<and> 0 \<le> y then arctan (y / x) + pi
      else if x < 0 then arctan (y / x) - pi
      else if 0 < y then pi / 2
      else if y < 0 then - pi / 2
      else 0)"

text \<open>
  The three roots \<^verbatim>\<open>x1, x2, x3\<close> of the characteristic polynomial by the trigonometric
  formula. In the source a root is NaN when a square root is taken of a negative
  number; that is the only source of NaN the real-valued embedding can represent, and
  the result is then \<^term>\<open>None\<close>.
\<close>

definition characteristicRoots :: "Tensor \<Rightarrow> (real \<times> real \<times> real) option" where
  "characteristicRoots A = (case A of (a00, a01, a02, a11, a12, a22) \<Rightarrow>
     let c0 = a00 * a11 * a22 + 2 * a01 * a02 * a12 - a00 * a12 * a12
              - a11 * a02 * a02 - a22 * a01 * a01;
         c1 = a00 * a11 - a01 * a01 + a00 * a22 - a02 * a02 + a11 * a22 - a12 * a12;
         c2 = a00 + a11 + a22;
         a = (3 * c1 - c2 * c2) / 3;
         b = (- 2 * c2 * c2 * c2 + 9 * c1 * c2 - 27 * c0) / 27;
         q = b * b / 4 + a * a * a / 27
     in if - q < 0 \<or> 0.25 * b * b - q < 0 then None
        else let theta = atan2 (sqrt (- q)) (- 0.5 * b);
                 p = sqrt (0.25 * b * b - q);
                 x1 = c2 / 3 + 2 * (p powr (1 / 3)) * cos (theta / 3);
                 x2 = c2 / 3 - (p powr (1 / 3)) * (cos (theta / 3) + sqrt 3 * sin (theta / 3));
                 x3 = c2 / 3 - (p powr (1 / 3)) * (cos (theta / 3) - sqrt 3 * sin (theta / 3))
             in Some (x1, x2, x3))"

text \<open>The sort of the three roots into \<^verbatim>\<open>tx \<ge> ty \<ge> tz\<close>.\<close>

definition sortRoots :: "real \<times> real \<times> real \<Rightarrow> real \<times> real \<times> real" where
  "sortRoots r = (case r of (x1, x2, x3) \<Rightarrow>
     let tx = max x1 (max x2 x3) in
     if tx = x1 then (if x2 \<ge> x3 then (tx, x2, x3) else (tx, x3, x2))
     else if tx = x2 then (if x1 \<ge> x3 then (tx, x1, x3) else (tx, x3, x1))
     else if tx = x3 then (if x1 \<ge> x2 then (tx, x1, x2) else (tx, x2, x1))
     else (tx, 0, 0))"

text \<open>
  The eigenvector for the root \<open>x\<close>: \<open>x\<close> is subtracted from the diagonal, the six
  cofactors \<^verbatim>\<open>B[0..5]\<close> are formed, and the row of cofactors with the largest norm is
  normalised. \<open>t\<close> is the value of \<^verbatim>\<open>(tx, ty, tz)\<close> before the selection.
\<close>

definition cofactorRow :: "Tensor \<Rightarrow> real \<Rightarrow> real \<times> real \<times> real \<Rightarrow> real \<times> real \<times> real" where
  "cofactorRow A x t = (case A of (a00, a01, a02, a11, a12, a22) \<Rightarrow>
     let a00 = a00 - x; a11 = a11 - x; a22 = a22 - x;
         B0 = a11 * a22 - a12 * a12;
         B1 = a02 * a12 - a01 * a22;
         B2 = a00 * a22 - a02 * a02;
         B3 = a01 * a12 - a02 * a11;
         B4 = a01 * a02 - a12 * a00;
         B5 = a00 * a11 - a01 * a01;
         c0 = B0 * B0 + B1 * B1 + B3 * B3;
         c1 = B1 * B1 + B2 * B2 + B4 * B4;
         c2 = B3 * B3 + B4 * B4 + B5 * B5
     in hat (if c0 \<ge> c1 \<and> c0 \<ge> c2 then (B0, B1, B3)
             else if c1 \<ge> c0 \<and> c1 \<ge> c2 then (B1, B2, B4)
             else if c2 \<ge> c0 \<and> c2 \<ge> c1 then (B3, B4, B5)
             else t))"

text \<open>
  \<^verbatim>\<open>OptimizationMesh::getEigenVector\<close>. The result is the eigenvector triple, the
  eigenvalue triple written to \<^verbatim>\<open>*eigenValue\<close> and the value written to
  \<^verbatim>\<open>*computedMaxAngle\<close>. \<^verbatim>\<open>EigenVector\<close> (\<^verbatim>\<open>EigenVector.hpp\<close>) has the nine fields
  \<^verbatim>\<open>x1, y1, z1, x2, y2, z2, x3, y3, z3\<close>: three vectors.

  Modelled from the spec: \<^verbatim>\<open>EigenValue.hpp\<close> is not part of the sources; the source
  uses its fields \<^verbatim>\<open>x, y, z\<close>.
\<close>

type_synonym EigenVector = "Normal \<times> Normal \<times> Normal"

type_synonym EigenValue = "real \<times> real \<times> real"

definition getEigenVector :: "Vertex list \<Rightarrow> NPNT3 list list \<Rightarrow> nat
                              \<Rightarrow> error + EigenVector \<times> EigenValue \<times> real" where
  "getEigenVector vs neighbourList vertexIndex =
     (if \<not> (vertexIndex < length vs \<and> vertexIndex < length neighbourList) then Inl OutOfBounds
      else if \<not> ringInRange (length vs) (neighbourList ! vertexIndex) then Inl OutOfBounds
      else
        let vertexNormal = getVertexNormal vs neighbourList vertexIndex;
            st = \<lparr>indexArray = [vertexIndex], distArray = [0], startPointer = 0,
                  tensor = outer vertexNormal, maxAngle = 99999\<rparr>
        in case search vs neighbourList vertexNormal st of
             Inl e \<Rightarrow> Inl e
           | Inr st \<Rightarrow>
               (case characteristicRoots (tensor st) of
                  None \<Rightarrow>
                    (case tensor st of (a00, a01, a02, a11, a12, a22) \<Rightarrow>
                       Inr (((1, 0, 0), (0, 1, 0), (0, 0, 1)), (a00 + a11 + a22, 0, 0),
                            maxAngle st))
                | Some roots \<Rightarrow>
                    (case sortRoots roots of (x1, x2, x3) \<Rightarrow>
                       let e1 = cofactorRow (tensor st) x1 (x1, x2, x3);
                           e2 = cofactorRow (tensor st) x2 e1
                       in case e1 of (ex1, ey1, ez1) \<Rightarrow> case e2 of (tx, ty, tz) \<Rightarrow>
                          Inr ((e1, e2, (ey1 * tz - ez1 * ty, ez1 * tx - ex1 * tz,
                                         ex1 * ty - ey1 * tx)),
                               (x1, x2, x3), maxAngle st))))"

subsection \<open>moveVerticesAlongSurface\<close>

text \<open>
  \<^verbatim>\<open>OptimizationMesh::moveVerticesAlongSurface\<close>. For each cell of the ring, with
  \<open>a\<close> and \<open>b\<close> its fields and \<open>c\<close> the field \<open>b\<close> of the next cell (the first one after
  the last), the position along the surface and the weight \<open>1 + cos\<close> are added up.
  Then the mean replaces the vertex, damped along the eigenvectors unless one of them
  is the zero vector. The same statements stand inline in \<^verbatim>\<open>coarse\<close> (lines 2400 to
  2468) for the neighbour \<^verbatim>\<open>auxNumber2\<close>.
\<close>

definition weigh :: "Vertex list \<Rightarrow> real \<Rightarrow> real \<Rightarrow> real \<Rightarrow> NPNT3 \<times> NPNT3
                     \<Rightarrow> real \<times> real \<times> real \<times> real \<Rightarrow> real \<times> real \<times> real \<times> real" where
  "weigh vs x y z cells acc = (case cells of (firstNeighbour, secondNeighbour) \<Rightarrow>
     case acc of (nx, ny, nz, weight) \<Rightarrow>
       let a = nat (fst firstNeighbour); b = nat (fst (snd firstNeighbour));
           c = nat (fst (snd secondNeighbour));
           (px, py, pz) = getVertexPositionAlongSurface vs x y z b a c;
           angle = computeDotProduct vs b a c + 1
       in (nx + angle * px, ny + angle * py, nz + angle * pz, weight + angle))"

definition isZero :: "Normal \<Rightarrow> bool" where
  "isZero v = (case v of (p, q, r) \<Rightarrow> p = 0 \<and> q = 0 \<and> r = 0)"

definition moveVerticesAlongSurface :: "Vertex list \<Rightarrow> NPNT3 list list \<Rightarrow> nat
                                        \<Rightarrow> error + Vertex list" where
  "moveVerticesAlongSurface vs neighbourList n =
     (if \<not> (n < length vs \<and> n < length neighbourList) then Inl OutOfBounds
      else if \<not> ringInRange (length vs) (neighbourList ! n) then Inl OutOfBounds
      else
        let x = vx (vs ! n); y = vy (vs ! n); z = vz (vs ! n);
            ring = neighbourList ! n;
            (nx, ny, nz, weight) = fold (weigh vs x y z) (zip ring (rotate1 ring)) (0, 0, 0, 0)
        in if weight > 0
           then let nx = nx / weight; ny = ny / weight; nz = nz / weight in
             (case getEigenVector vs neighbourList n of
                Inl e \<Rightarrow> Inl e
              | Inr ((e1, e2, e3), (ex, ey, ez), computedMaxAngle) \<Rightarrow>
                  if isZero e1 \<or> isZero e2 \<or> isZero e3
                  then Inr (vs[n := (vs ! n)\<lparr>vx := nx, vy := ny, vz := nz\<rparr>])
                  else let nx = nx - x; ny = ny - y; nz = nz - z;
                           w1 = dot3 (nx, ny, nz) e1 / (1 + ex);
                           w2 = dot3 (nx, ny, nz) e2 / (1 + ey);
                           w3 = dot3 (nx, ny, nz) e3 / (1 + ez)
                       in case e1 of (x1, y1, z1) \<Rightarrow> case e2 of (x2, y2, z2) \<Rightarrow>
                          case e3 of (x3, y3, z3) \<Rightarrow>
                            Inr (vs[n := (vs ! n)\<lparr>vx := w1 * x1 + w2 * x2 + w3 * x3 + x,
                                                  vy := w1 * y1 + w2 * y2 + w3 * y3 + y,
                                                  vz := w1 * z1 + w2 * z2 + w3 * z3 + z\<rparr>]))
           else Inr vs)"

section \<open>Coarsening\<close>

text \<open>
  \<^verbatim>\<open>OptimizationMesh::coarse\<close>. During a pass the vertex array, the face array and
  the ring table are changed in place; the three of them are the state of the pass.
\<close>

type_synonym Pass = "Vertex list \<times> Triangle list \<times> NPNT3 list list"

subsection \<open>The eligibility flags\<close>

text \<open>
  The first loop fills \<^verbatim>\<open>deleteFlags\<close>. For every neighbour \<open>a\<close> of a selected vertex
  \<open>n\<close>, \<^verbatim>\<open>auxNumber1\<close> is the number of cells in the ring of \<open>a\<close> and \<^verbatim>\<open>auxNumber2\<close>
  counts the pairs of a cell of that ring and a cell of the ring of \<open>n\<close> with the same
  field \<open>a\<close>; the flag drops when \<^verbatim>\<open>auxNumber1 <= 3\<close> or \<^verbatim>\<open>auxNumber2 > 2\<close>. For a
  vertex that is not selected the loop body is skipped by \<^verbatim>\<open>continue\<close>, so its place
  in the array \<^verbatim>\<open>new bool[numberVertices]\<close> is never written: the flag read later is
  whatever the allocation held, given here by the parameter \<open>garbage\<close>.
\<close>

definition common :: "NPNT3 list \<Rightarrow> NPNT3 list \<Rightarrow> nat" where
  "common ringA ringN =
     sum_list (map (\<lambda>secondNeighbour.
                      length (filter (\<lambda>auxNeighbour1. fst auxNeighbour1 = fst secondNeighbour) ringN))
                   ringA)"

definition deleteFlag :: "NPNT3 list list \<Rightarrow> nat \<Rightarrow> error + bool" where
  "deleteFlag neighbourList n =
     forEach (\<lambda>firstNeighbour deleteFlag.
                let a = fst firstNeighbour in
                if \<not> inRange (length neighbourList) a then Inl OutOfBounds
                else let auxNumber1 = length (neighbourList ! nat a);
                         auxNumber2 = common (neighbourList ! nat a) (neighbourList ! n)
                     in Inr (if auxNumber1 \<le> 3 \<or> auxNumber2 > 2 then False else deleteFlag))
             (neighbourList ! n) True"

fun deleteFlags :: "(nat \<Rightarrow> bool) \<Rightarrow> Vertex list \<Rightarrow> NPNT3 list list \<Rightarrow> nat list
                    \<Rightarrow> error + bool list" where
  "deleteFlags garbage vs neighbourList [] = Inr []"
| "deleteFlags garbage vs neighbourList (n # ns) =
     (case (if \<not> vselected (vs ! n) then Inr (garbage n) else deleteFlag neighbourList n) of
        Inl e \<Rightarrow> Inl e
      | Inr flag \<Rightarrow>
          (case deleteFlags garbage vs neighbourList ns of
             Inl e \<Rightarrow> Inl e
           | Inr flags \<Rightarrow> Inr (flag # flags)))"

subsection \<open>The two criteria\<close>

text \<open>
  The sparseness ratio of vertex \<open>n\<close>. \<^verbatim>\<open>maxLength\<close> is an \<^verbatim>\<open>int\<close>: a longer edge is
  stored truncated. \<^verbatim>\<open>averageLengthNN\<close> is the largest mean of a wedge's three edge
  lengths. The quotient of zero by zero is NaN in the source, and every comparison
  with NaN is false: the ratio is \<^term>\<open>None\<close> then.
\<close>

definition edgeLength :: "Vertex \<Rightarrow> Vertex \<Rightarrow> real" where
  "edgeLength p q = sqrt (sqlen p q)"

definition measureWedge :: "Vertex list \<Rightarrow> nat \<Rightarrow> NPNT3 \<Rightarrow> int \<times> real \<Rightarrow> int \<times> real" where
  "measureWedge vs n firstNeighbour acc = (case acc of (maxLength, averageLengthNN) \<Rightarrow>
     let a = nat (fst firstNeighbour); b = nat (fst (snd firstNeighbour));
         nx = edgeLength (vs ! n) (vs ! a);
         ny = edgeLength (vs ! n) (vs ! b);
         nn = edgeLength (vs ! a) (vs ! b);
         maxLength = (if nx > real_of_int maxLength then \<lfloor>nx\<rfloor> else maxLength);
         maxLength = (if ny > real_of_int maxLength then \<lfloor>ny\<rfloor> else maxLength);
         averageLengthNN = (if (nx + ny + nn) / 3 > averageLengthNN then (nx + ny + nn) / 3
                            else averageLengthNN)
     in (maxLength, averageLengthNN))"

definition sparseness :: "Vertex list \<Rightarrow> NPNT3 list list \<Rightarrow> nat \<Rightarrow> real \<Rightarrow> real option" where
  "sparseness vs neighbourList n densenessWeight =
     (case fold (measureWedge vs n) (neighbourList ! n) (- 1, - 1) of
        (maxLength, averageLengthNN) \<Rightarrow>
          if averageLengthNN = 0 then None
          else Some ((real_of_int maxLength / averageLengthNN) powr densenessWeight))"

subsection \<open>Removing a vertex\<close>

text \<open>
  The loop over the ring of the removed vertex \<open>n\<close>. For the cell \<open>(a, b, c)\<close>: the
  face \<open>c\<close> and the neighbour \<open>a\<close> go to the next place of \<^verbatim>\<open>faceAvailableList\<close> and
  \<^verbatim>\<open>neighborAuxList\<close> (64 places each), \<^verbatim>\<open>face_marker\<close> takes the marker of the face,
  the face is overwritten with \<open>-1\<close>, the cells that mention \<open>n\<close> are unlinked from the
  ring of \<open>a\<close> and released, and the cell's field \<open>b\<close> is overwritten with the number of
  cells left in the ring of \<open>a\<close>. When \<open>a = n\<close> the ring walked is the ring being
  pruned, and the walk goes on from a released cell.
\<close>

record Detach =
  dface :: "Triangle list"
  dneighbourList :: "NPNT3 list list"
  cycle :: "NPNT3 list"
  faceAvailableList :: "int list"
  neighborAuxList :: "int list"
  face_marker :: "int option"

definition mentions :: "nat \<Rightarrow> NPNT3 \<Rightarrow> bool" where
  "mentions n secondNeighbour =
     (fst secondNeighbour = int n \<or> fst (snd secondNeighbour) = int n)"

definition detach :: "nat \<Rightarrow> NPNT3 \<Rightarrow> Detach \<Rightarrow> error + Detach" where
  "detach n firstNeighbour st =
     (case firstNeighbour of (a, b, c) \<Rightarrow>
        if 64 \<le> length (faceAvailableList st) then Inl OutOfBounds
        else if \<not> inRange (length (dface st)) c then Inl OutOfBounds
        else if \<not> inRange (length (dneighbourList st)) a then Inl OutOfBounds
        else if a = int n then Inl UseAfterFree
        else let ring = filter (\<lambda>secondNeighbour. \<not> mentions n secondNeighbour)
                               (dneighbourList st ! nat a);
                 auxNumber1 = int (length ring)
             in Inr (st\<lparr>faceAvailableList := faceAvailableList st @ [c],
                         neighborAuxList := neighborAuxList st @ [a],
                         face_marker := Some (tmarker (dface st ! nat c)),
                         dface := (dface st)[nat c := (dface st ! nat c)
                                     \<lparr>v1 := - 1, v2 := - 1, v3 := - 1, tmarker := - 1\<rparr>],
                         dneighbourList := (dneighbourList st)[nat a := ring],
                         cycle := cycle st @ [(a, auxNumber1, c)]\<rparr>))"

text \<open>
  After the retriangulation the ring of every former neighbour is put in order again
  with the loop of \<^verbatim>\<open>createNeighborlist\<close> (\<^term>\<open>orderRing\<close>); here an open ring is only
  reported. The first cell of the ring is read before the loop, so an empty ring is a
  null dereference.
\<close>

definition reorder :: "int \<Rightarrow> NPNT3 list list \<Rightarrow> error + NPNT3 list list" where
  "reorder a neighbourList =
     (if \<not> inRange (length neighbourList) a then Inl OutOfBounds
      else if neighbourList ! nat a = [] then Inl NullPointer
      else Inr (neighbourList[nat a := fst (orderRing (neighbourList ! nat a) (- 1, - 1))]))"

text \<open>
  The loop headed \<^verbatim>\<open>// Smooth the neighbors\<close> (lines 2391 to 2469):

  \<^verbatim>\<open>int auxNumber2 = 0;\<close>
  \<^verbatim>\<open>for (int m = 0; m < neighborNumber; ++m) {\<close>
  \<^verbatim>\<open>  if (!vertex[auxNumber2].selected) continue;\<close>
  \<^verbatim>\<open>  auxNumber2 = neighborAuxList[m]; ...\<close>

  The flag tested is the one of the vertex held by \<^verbatim>\<open>auxNumber2\<close> before it takes
  the \<open>m\<close>-th neighbour: vertex \<open>0\<close> in the first round, afterwards the neighbour moved
  last. The rest of the body is the body of \<^verbatim>\<open>moveVerticesAlongSurface\<close>.
\<close>

fun smoothNeighbours :: "nat \<Rightarrow> int list \<Rightarrow> Vertex list \<Rightarrow> NPNT3 list list
                         \<Rightarrow> error + Vertex list" where
  "smoothNeighbours auxNumber2 [] vs neighbourList = Inr vs"
| "smoothNeighbours auxNumber2 (a # rest) vs neighbourList =
     (if \<not> auxNumber2 < length vs then Inl OutOfBounds
      else if \<not> vselected (vs ! auxNumber2)
      then smoothNeighbours auxNumber2 rest vs neighbourList
      else if a < 0 then Inl OutOfBounds
      else (case moveVerticesAlongSurface vs neighbourList (nat a) of
              Inl e \<Rightarrow> Inl e
            | Inr vs \<Rightarrow> smoothNeighbours (nat a) rest vs neighbourList))"

text \<open>
  The removal of vertex \<open>n\<close> (lines 2256 to 2470): the sentinel coordinates, the loop
  over the ring, \<^verbatim>\<open>subdividePolygon\<close> on the ring closed into a cycle, the reordering
  and the smoothing of the neighbours. Closing the cycle reads the first cell, so an
  empty ring is a null dereference. The table entry of \<open>n\<close> keeps pointing at the cells
  of the cycle, which \<^verbatim>\<open>subdividePolygon\<close> has released; it keeps its cells here.
\<close>

definition removeVertex :: "nat \<Rightarrow> Pass \<Rightarrow> error + Pass" where
  "removeVertex n pass = (case pass of (vs, fs, neighbourList) \<Rightarrow>
     let vs = vs[n := (vs ! n)\<lparr>vx := - 99999, vy := - 99999, vz := - 99999\<rparr>] in
     case forEach (detach n) (neighbourList ! n)
            \<lparr>dface = fs, dneighbourList = neighbourList, cycle = [],
             faceAvailableList = [], neighborAuxList = [], face_marker = None\<rparr> of
       Inl e \<Rightarrow> Inl e
     | Inr d \<Rightarrow>
         (case face_marker d of
            None \<Rightarrow> Inl NullPointer
          | Some marker \<Rightarrow>
              (case subdividePolygon (faceAvailableList d) marker (cycle d)
                      \<lparr>rface = dface d,
                       rneighbourList = (dneighbourList d)[n := cycle d],
                       faceAvailableIndex = 0, emitted = []\<rparr> of
                 Inl e \<Rightarrow> Inl e
               | Inr r \<Rightarrow>
                   (case forEach reorder (neighborAuxList d) (rneighbourList r) of
                      Inl e \<Rightarrow> Inl e
                    | Inr neighbourList \<Rightarrow>
                        (case smoothNeighbours 0 (neighborAuxList d) vs neighbourList of
                           Inl e \<Rightarrow> Inl e
                         | Inr vs \<Rightarrow> Inr (vs, rface r, neighbourList))))))"

subsection \<open>The main loop\<close>

text \<open>
  One round of the main loop for a flagged vertex. \<^verbatim>\<open>ratio1\<close> and \<^verbatim>\<open>ratio2\<close> are
  declared before the loop with the value \<open>1\<close> and are written only under
  \<^verbatim>\<open>flatnessRate > 0\<close> and \<^verbatim>\<open>densenessWeight > 0\<close>. \<^verbatim>\<open>maxAngle\<close> is declared in the round
  and written only by \<^verbatim>\<open>getEigenVector\<close>; reading it without \<^verbatim>\<open>flatnessRate > 0\<close> reads
  an uninitialised variable. The result \<^term>\<open>None\<close> is the \<^verbatim>\<open>return 0\<close> at a top
  eigenvalue equal to zero.
\<close>

definition processVertex :: "real \<Rightarrow> real \<Rightarrow> real \<Rightarrow> real \<Rightarrow> nat \<Rightarrow> Pass
                             \<Rightarrow> error + Pass option" where
  "processVertex coarsenessRate flatnessRate densenessWeight maxNormalAngle n pass =
     (case pass of (vs, fs, neighbourList) \<Rightarrow>
      if \<not> (n < length vs \<and> n < length neighbourList) then Inl OutOfBounds
      else if densenessWeight > 0 \<and> \<not> ringInRange (length vs) (neighbourList ! n)
      then Inl OutOfBounds
      else
        let ratio2 = (if densenessWeight > 0 then sparseness vs neighbourList n densenessWeight
                      else Some 1)
        in case (if flatnessRate > 0 then map_sum id Some (getEigenVector vs neighbourList n)
                 else Inr None) of
             Inl e \<Rightarrow> Inl e
           | Inr eigen \<Rightarrow>
               if (case eigen of Some (eigenVector, (ex, ey, ez), computedMaxAngle) \<Rightarrow> ex = 0
                   | None \<Rightarrow> False)
               then Inr None
               else
                 let ratio1 = (case eigen of
                                 Some (eigenVector, (ex, ey, ez), computedMaxAngle) \<Rightarrow>
                                   \<bar>ey / ex\<bar> powr flatnessRate
                               | None \<Rightarrow> 1);
                     deleteVertex = (case ratio2 of None \<Rightarrow> False
                                     | Some ratio2 \<Rightarrow> ratio1 * ratio2 < coarsenessRate)
                 in if maxNormalAngle > 0 \<and> deleteVertex \<and> eigen = None then Inl Uninitialised
                    else
                      let deleteVertex =
                            (if maxNormalAngle > 0
                             then deleteVertex \<and>
                                  (case eigen of
                                     Some (eigenVector, eigenValue, computedMaxAngle) \<Rightarrow>
                                       computedMaxAngle > maxNormalAngle
                                   | None \<Rightarrow> False)
                             else deleteVertex)
                      in if deleteVertex then map_sum id Some (removeVertex n pass)
                         else Inr (Some pass))"

text \<open>
  The main loop over the vertices \<open>ns\<close> still to come. The result says whether the
  pass was left by \<^verbatim>\<open>return 0\<close> (\<^term>\<open>True\<close>) or ran to its end.
\<close>

fun mainLoop :: "real \<Rightarrow> real \<Rightarrow> real \<Rightarrow> real \<Rightarrow> bool list \<Rightarrow> nat list \<Rightarrow> Pass
                 \<Rightarrow> error + bool \<times> Pass" where
  "mainLoop coarsenessRate flatnessRate densenessWeight maxNormalAngle flags [] pass =
     Inr (False, pass)"
| "mainLoop coarsenessRate flatnessRate densenessWeight maxNormalAngle flags (n # ns) pass =
     (if flags ! n
      then (case processVertex coarsenessRate flatnessRate densenessWeight maxNormalAngle n pass of
              Inl e \<Rightarrow> Inl e
            | Inr None \<Rightarrow> Inr (True, pass)
            | Inr (Some pass) \<Rightarrow>
                mainLoop coarsenessRate flatnessRate densenessWeight maxNormalAngle flags ns pass)
      else mainLoop coarsenessRate flatnessRate densenessWeight maxNormalAngle flags ns pass)"

subsection \<open>Cleaning the lists\<close>

text \<open>
  A vertex is kept when none of its coordinates is \<open>-99999\<close>; the kept vertices move
  to the front with their rings, and \<^verbatim>\<open>vertexIndexArray\<close> holds the new index of a kept
  vertex and \<open>-1\<close> for the others.
\<close>

definition kept :: "Vertex \<Rightarrow> bool" where
  "kept v = (vx v \<noteq> - 99999 \<and> vy v \<noteq> - 99999 \<and> vz v \<noteq> - 99999)"

fun vertexIndexArray :: "int \<Rightarrow> Vertex list \<Rightarrow> int list" where
  "vertexIndexArray startIndex [] = []"
| "vertexIndexArray startIndex (v # vs) =
     (if kept v then startIndex # vertexIndexArray (startIndex + 1) vs
      else - 1 # vertexIndexArray startIndex vs)"

text \<open>
  A face is kept when its three indices are not negative. The three further tests
  \<^verbatim>\<open>vertexIndexArray[a] >= 0\<close> compare a \<^verbatim>\<open>size_t\<close> with zero and always hold. The kept
  faces move to the front: a slot gets the indices and the marker, not the flag
  \<^verbatim>\<open>selected\<close>. The state of the loop is the face array, \<^verbatim>\<open>faceIndexArray\<close> and
  \<^verbatim>\<open>startIndex\<close>.
\<close>

definition cleanFace :: "int list \<Rightarrow> nat \<Rightarrow> Triangle list \<times> int list \<times> nat
                         \<Rightarrow> error + Triangle list \<times> int list \<times> nat" where
  "cleanFace via n st = (case st of (fs, faceIndexArray, startIndex) \<Rightarrow>
     let a = v1 (fs ! n); b = v2 (fs ! n); c = v3 (fs ! n); marker = tmarker (fs ! n) in
     if a \<ge> 0 \<and> b \<ge> 0 \<and> c \<ge> 0
     then if \<not> (inRange (length via) a \<and> inRange (length via) b \<and> inRange (length via) c)
          then Inl OutOfBounds
          else Inr (fs[startIndex := (fs ! startIndex)
                         \<lparr>v1 := via ! nat a, v2 := via ! nat b, v3 := via ! nat c,
                          tmarker := marker\<rparr>],
                    faceIndexArray @ [int startIndex], startIndex + 1)
     else Inr (fs, faceIndexArray @ [- 1], startIndex))"

definition cleanCell :: "int list \<Rightarrow> int list \<Rightarrow> NPNT3 \<Rightarrow> error + NPNT3" where
  "cleanCell via fia firstNeighbour = (case firstNeighbour of (a, b, c) \<Rightarrow>
     if \<not> (inRange (length via) a \<and> inRange (length via) b \<and> inRange (length fia) c)
     then Inl OutOfBounds
     else Inr (via ! nat a, via ! nat b, fia ! nat c))"

fun mapE :: "('a \<Rightarrow> error + 'b) \<Rightarrow> 'a list \<Rightarrow> error + 'b list" where
  "mapE f [] = Inr []"
| "mapE f (x # xs) =
     (case f x of Inl e \<Rightarrow> Inl e
      | Inr y \<Rightarrow> (case mapE f xs of Inl e \<Rightarrow> Inl e | Inr ys \<Rightarrow> Inr (y # ys)))"

definition clean :: "Pass \<Rightarrow> error + OptimizationMesh" where
  "clean pass = (case pass of (vs, fs, neighbourList) \<Rightarrow>
     let via = vertexIndexArray 0 vs;
         vs' = filter kept vs;
         rings = map snd (filter (\<lambda>p. kept (fst p)) (zip vs neighbourList))
     in case forEach (cleanFace via) [0..<length fs] (fs, [], 0) of
          Inl e \<Rightarrow> Inl e
        | Inr (fs', fia, startIndex) \<Rightarrow>
            (case mapE (mapE (cleanCell via fia)) rings of
               Inl e \<Rightarrow> Inl e
             | Inr rings' \<Rightarrow>
                 Inr \<lparr>vertex = vs', face = take startIndex fs',
                      neighborList = Some rings'\<rparr>))"

subsection \<open>coarse and its two callers\<close>

text \<open>
  \<^verbatim>\<open>coarse\<close> returns a \<^verbatim>\<open>char\<close> and leaves the mesh changed. \<^verbatim>\<open>stop\<close> is set to \<open>0\<close>
  at its declaration; the only statement that would set it is commented out. With
  \<^verbatim>\<open>densenessWeight > 0\<close> the mean edge length of every face is computed first (and
  not used), which reads the three vertices of every face.
\<close>

definition coarse :: "(nat \<Rightarrow> bool) \<Rightarrow> real \<Rightarrow> real \<Rightarrow> real \<Rightarrow> real \<Rightarrow> OptimizationMesh
                      \<Rightarrow> error + int \<times> OptimizationMesh" where
  "coarse garbage coarsenessRate flatnessRate densenessWeight maxNormalAngle m =
     (case (if neighborList m = None then createNeighborlist m else Inr m) of
        Inl e \<Rightarrow> Inl e
      | Inr m \<Rightarrow>
          (case neighborList m of
             None \<Rightarrow> Inr (0, m)
           | Some neighbourList \<Rightarrow>
               let stop = 0 in
               if densenessWeight > 0 \<and> \<not> list_all (faceInRange (numberVertices m)) (face m)
               then Inl OutOfBounds
               else if densenessWeight > 0 \<and> numberFaces m = 0 then Inr (0, m)
               else if length neighbourList \<noteq> numberVertices m then Inl OutOfBounds
               else
                 (case deleteFlags garbage (vertex m) neighbourList [0..<numberVertices m] of
                    Inl e \<Rightarrow> Inl e
                  | Inr flags \<Rightarrow>
                      (case mainLoop coarsenessRate flatnessRate densenessWeight maxNormalAngle
                              flags [0..<numberVertices m] (vertex m, face m, neighbourList) of
                         Inl e \<Rightarrow> Inl e
                       | Inr (True, vs, fs, neighbourList) \<Rightarrow>
                           Inr (0, \<lparr>vertex = vs, face = fs, neighborList = Some neighbourList\<rparr>)
                       | Inr (False, pass) \<Rightarrow>
                           (case clean pass of
                              Inl e \<Rightarrow> Inl e
                            | Inr m \<Rightarrow> Inr (stop, m))))))"

text \<open>
  \<^verbatim>\<open>coarseDense\<close> and \<^verbatim>\<open>coarseFlat\<close>:
  \<^verbatim>\<open>for (size_t i = 0; i < iterations; ++i) if (!coarse(...)) break;\<close>
  The loop is written once, for the four fixed arguments of the call. The second
  component of the result counts the calls of \<^verbatim>\<open>coarse\<close>; it is not a variable of
  the source. Every call allocates its own \<^verbatim>\<open>deleteFlags\<close>: \<open>garbage i\<close> is what the
  allocation of round \<open>i\<close> holds.
\<close>

function coarseLoop :: "(nat \<Rightarrow> nat \<Rightarrow> bool) \<Rightarrow> real \<Rightarrow> real \<Rightarrow> real \<Rightarrow> real \<Rightarrow> nat \<Rightarrow> nat
                        \<Rightarrow> OptimizationMesh \<times> nat \<Rightarrow> error + OptimizationMesh \<times> nat" where
  "coarseLoop garbage coarsenessRate flatnessRate densenessWeight maxNormalAngle iterations i st =
     (case st of (m, calls) \<Rightarrow>
        if i < iterations
        then (case coarse (garbage i) coarsenessRate flatnessRate densenessWeight
                     maxNormalAngle m of
                Inl e \<Rightarrow> Inl e
              | Inr (r, m) \<Rightarrow>
                  if r = 0 then Inr (m, calls + 1)
                  else coarseLoop garbage coarsenessRate flatnessRate densenessWeight
                         maxNormalAngle iterations (i + 1) (m, calls + 1))
        else Inr (m, calls))"
  by pat_completeness auto
termination
  by (relation "measure (\<lambda>(garbage, coarsenessRate, flatnessRate, densenessWeight,
                            maxNormalAngle, iterations, i, st). iterations - i)") auto

declare coarseLoop.simps [simp del]

definition coarseDense :: "(nat \<Rightarrow> nat \<Rightarrow> bool) \<Rightarrow> real \<Rightarrow> nat \<Rightarrow> OptimizationMesh
                           \<Rightarrow> error + OptimizationMesh \<times> nat" where
  "coarseDense garbage denseRate iterations m =
     coarseLoop garbage denseRate 0 10 (- 1) iterations 0 (m, 0)"

definition coarseFlat :: "(nat \<Rightarrow> nat \<Rightarrow> bool) \<Rightarrow> real \<Rightarrow> nat \<Rightarrow> OptimizationMesh
                          \<Rightarrow> error + OptimizationMesh \<times> nat" where
  "coarseFlat garbage flatnessRate iterations m =
     coarseLoop garbage flatnessRate 1 0 (- 1) iterations 0 (m, 0)"

subsection \<open>The return value of coarse and the number of passes\<close>

lemma coarse_stop:
  assumes "coarse garbage coarsenessRate flatnessRate densenessWeight maxNormalAngle m = Inr (r, m')"
  shows "r = 0"
  using assms unfolding coarse_def
  by (auto simp: Let_def split: sum.splits option.splits if_splits prod.splits bool.splits)

lemma coarseLoop_once:
  "coarseLoop garbage coarsenessRate flatnessRate densenessWeight maxNormalAngle iterations i
     (m, calls) =
   (if i < iterations
    then (case coarse (garbage i) coarsenessRate flatnessRate densenessWeight maxNormalAngle m of
            Inl e \<Rightarrow> Inl e
          | Inr (r, m') \<Rightarrow> Inr (m', calls + 1))
    else Inr (m, calls))"
  by (subst coarseLoop.simps) (auto split: sum.splits dest: coarse_stop)

text \<open>
  A regular corner of the unit cube as a closed mesh of four faces. Every vertex has
  three neighbours, so no vertex is eligible and a pass changes nothing but the ring
  table, which it builds.
\<close>

definition tetrahedron :: OptimizationMesh where
  "tetrahedron =
     \<lparr>vertex = [\<lparr>vx = 0, vy = 0, vz = 0, vmarker = 0, vselected = True\<rparr>,
                \<lparr>vx = 1, vy = 0, vz = 0, vmarker = 0, vselected = True\<rparr>,
                \<lparr>vx = 0, vy = 1, vz = 0, vmarker = 0, vselected = True\<rparr>,
                \<lparr>vx = 0, vy = 0, vz = 1, vmarker = 0, vselected = True\<rparr>],
      face = [\<lparr>v1 = 0, v2 = 2, v3 = 1, tmarker = 0, tselected = True\<rparr>,
              \<lparr>v1 = 0, v2 = 1, v3 = 3, tmarker = 0, tselected = True\<rparr>,
              \<lparr>v1 = 0, v2 = 3, v3 = 2, tmarker = 0, tselected = True\<rparr>,
              \<lparr>v1 = 1, v2 = 2, v3 = 3, tmarker = 0, tselected = True\<rparr>],
      neighborList = None\<rparr>"

definition tetrahedronRings :: "NPNT3 list list" where
  "tetrahedronRings = [[(3, 2, 2), (2, 1, 0), (1, 3, 1)],
                       [(2, 3, 3), (3, 0, 1), (0, 2, 0)],
                       [(3, 1, 3), (1, 0, 0), (0, 3, 2)],
                       [(1, 2, 3), (2, 0, 2), (0, 1, 1)]]"

lemma tetrahedron_adjacency:
  "createNeighborlist tetrahedron = Inr (tetrahedron\<lparr>neighborList := Some tetrahedronRings\<rparr>)"
  by code_simp

lemma tetrahedron_flags:
  "deleteFlags g (vertex tetrahedron) tetrahedronRings [0..<4] = Inr [False, False, False, False]"
  by code_simp

lemma tetrahedron_loop:
  "mainLoop cr fr dw mna [False, False, False, False] [0..<4] pass = Inr (False, pass)"
proof -
  have "[0..<4] = [0, 1, 2, 3::nat]" by code_simp
  thus ?thesis by simp
qed

lemma tetrahedron_clean:
  "clean (vertex tetrahedron, face tetrahedron, tetrahedronRings)
   = Inr (tetrahedron\<lparr>neighborList := Some tetrahedronRings\<rparr>)"
  by code_simp

lemma tetrahedron_coarse:
  "coarse g cr fr dw mna tetrahedron
   = Inr (0, tetrahedron\<lparr>neighborList := Some tetrahedronRings\<rparr>)"
proof -
  have n: "numberVertices (tetrahedron\<lparr>neighborList := x\<rparr>) = 4" for x
    by (simp add: numberVertices_def tetrahedron_def)
  have f: "numberFaces (tetrahedron\<lparr>neighborList := x\<rparr>) = 4" for x
    by (simp add: numberFaces_def tetrahedron_def)
  have r: "list_all (faceInRange 4) (face tetrahedron)"
    by (simp add: tetrahedron_def faceInRange_def inRange_def)
  have l: "length tetrahedronRings = 4" by (simp add: tetrahedronRings_def)
  have v: "neighborList tetrahedron = None" by (simp add: tetrahedron_def)
  show ?thesis
    unfolding coarse_def
    by (simp add: v tetrahedron_adjacency n f r l tetrahedron_flags tetrahedron_loop
          tetrahedron_clean)
qed

text \<open>
  Claim C10, as it holds. Whenever \<^verbatim>\<open>coarse\<close> returns, by its full pass or by one of
  its early exits, it returns \<open>0\<close>. So \<^verbatim>\<open>coarseDense\<close> and \<^verbatim>\<open>coarseFlat\<close> call it
  exactly once when \<open>iterations\<close> is at least one, whatever its value, and stop; with
  \<open>iterations = 0\<close> they do not call it at all and leave the mesh as it is.
\<close>

theorem coarse_callers_spec:
  "(\<forall>r m'. coarse g coarsenessRate flatnessRate densenessWeight maxNormalAngle m = Inr (r, m')
           \<longrightarrow> r = 0)
   \<and> coarseDense garbage rate iterations m =
       (if iterations = 0 then Inr (m, 0)
        else case coarse (garbage 0) rate 0 10 (- 1) m of
               Inl e \<Rightarrow> Inl e
             | Inr (r, m') \<Rightarrow> Inr (m', 1))
   \<and> coarseFlat garbage rate iterations m =
       (if iterations = 0 then Inr (m, 0)
        else case coarse (garbage 0) rate 1 0 (- 1) m of
               Inl e \<Rightarrow> Inl e
             | Inr (r, m') \<Rightarrow> Inr (m', 1))"
proof (intro conjI allI impI)
  fix r m'
  assume "coarse g coarsenessRate flatnessRate densenessWeight maxNormalAngle m = Inr (r, m')"
  thus "r = 0" by (rule coarse_stop)
next
  show "coarseDense garbage rate iterations m =
          (if iterations = 0 then Inr (m, 0)
           else case coarse (garbage 0) rate 0 10 (- 1) m of
                  Inl e \<Rightarrow> Inl e
                | Inr (r, m') \<Rightarrow> Inr (m', 1))"
    unfolding coarseDense_def coarseLoop_once by (simp split: sum.splits)
next
  show "coarseFlat garbage rate iterations m =
          (if iterations = 0 then Inr (m, 0)
           else case coarse (garbage 0) rate 1 0 (- 1) m of
                  Inl e \<Rightarrow> Inl e
                | Inr (r, m') \<Rightarrow> Inr (m', 1))"
    unfolding coarseFlat_def coarseLoop_once by (simp split: sum.splits)
qed

theorem coarse_callers_witness:
  "coarse (\<lambda>n. False) (1 / 20) 1 0 (- 1) tetrahedron
     = Inr (0, tetrahedron\<lparr>neighborList := Some tetrahedronRings\<rparr>)
   \<and> coarseDense (\<lambda>i n. False) (1 / 20) 3 tetrahedron
     = Inr (tetrahedron\<lparr>neighborList := Some tetrahedronRings\<rparr>, 1)
   \<and> coarseFlat (\<lambda>i n. False) (1 / 20) 3 tetrahedron
     = Inr (tetrahedron\<lparr>neighborList := Some tetrahedronRings\<rparr>, 1)"
  using coarse_callers_spec [of "\<lambda>n. False" "1 / 20" 1 0 "- 1" tetrahedron
                                "\<lambda>i n. False" "1 / 20" 3]
  by (simp add: tetrahedron_coarse)

text \<open>
  With \<open>iterations = 0\<close> neither caller runs a pass: the call counter stays at zero and
  the mesh does not even get its ring table.
\<close>

theorem coarse_callers_counterexample:
  "coarseFlat (\<lambda>i n. False) (1 / 20) 0 tetrahedron = Inr (tetrahedron, 0)
   \<and> coarseDense (\<lambda>i n. False) (1 / 20) 0 tetrahedron = Inr (tetrahedron, 0)"
  unfolding coarseFlat_def coarseDense_def by (simp add: coarseLoop.simps)

section \<open>A pass that stops at a zero eigenvalue\<close>

text \<open>
  Evaluation rules for the numerical kernel on concrete data: the square roots and the
  cube root that occur, and the definitions to unfold.
\<close>

lemma sqrt25: "sqrt 25 = 5" by (rule real_sqrt_unique) simp_all
lemma sqrt64: "sqrt 64 = 8" by (rule real_sqrt_unique) simp_all
lemma sqrt16: "sqrt 16 = 4" by (rule real_sqrt_unique) simp_all
lemma sqrt9: "sqrt 9 = 3" by (rule real_sqrt_unique) simp_all
lemma sqrt576: "sqrt 576 = 24" by (rule real_sqrt_unique) simp_all
lemma sqrt625: "sqrt 625 = 25" by (rule real_sqrt_unique) simp_all

lemmas roots = sqrt25 sqrt64 sqrt16 sqrt9 sqrt576 sqrt625 real_sqrt_divide

lemmas geo = getVertexNormal_def wedgeNormal_def hat_def dot3_def roots

lemma cube_root:
  assumes "0 < x"
  shows "(x * x * x) powr (1 / 3) = (x::real)"
proof -
  have "x * x * x = x powr 3" using assms by (simp add: powr_numeral power3_eq_cube)
  hence "(x * x * x) powr (1 / 3) = (x powr 3) powr (1 / 3)" by simp
  also have "\<dots> = x powr 1" by (simp add: powr_powr)
  finally show ?thesis using assms by simp
qed

lemma r125: "(125 / 27) powr (1 / 3) = (5 / 3 :: real)"
  using cube_root [of "5 / 3"] by simp

lemma roots_flat: "characteristicRoots (0, 0, 0, 0, 0, 5) = Some (5, 0, 0)"
  by (simp add: characteristicRoots_def Let_def atan2_def r125 roots)

lemma roots_zero: "characteristicRoots (0, 0, 0, 0, 0, 0) = Some (0, 0, 0)"
  by (simp add: characteristicRoots_def Let_def atan2_def)

text \<open>
  The test mesh: an octahedron whose equator \<open>1, 2, 3, 4\<close> and lower apex \<open>5\<close> lie on
  the \<open>x\<close> axis, with the upper apex \<open>0\<close> off the axis. All its vertices are selected
  and have four neighbours, so all are eligible. The four faces at the apex \<open>0\<close> span
  one plane, the other faces are collinear triples. \<open>spindleRings\<close> is the ring table
  that \<^verbatim>\<open>createNeighborlist\<close> builds for it. The second triple of constants is the
  state of the pass after the removal of vertex \<open>0\<close>.
\<close>

definition spindleVertices :: "Vertex list" where
  "spindleVertices =
     [\<lparr>vx = 0, vy = 3, vz = 0, vmarker = 0, vselected = True\<rparr>,
      \<lparr>vx = 4, vy = 0, vz = 0, vmarker = 0, vselected = True\<rparr>,
      \<lparr>vx = - 4, vy = 0, vz = 0, vmarker = 0, vselected = True\<rparr>,
      \<lparr>vx = 4, vy = 0, vz = 0, vmarker = 0, vselected = True\<rparr>,
      \<lparr>vx = - 4, vy = 0, vz = 0, vmarker = 0, vselected = True\<rparr>,
      \<lparr>vx = 0, vy = 0, vz = 0, vmarker = 0, vselected = True\<rparr>]"

definition spindleFaces :: "Triangle list" where
  "spindleFaces =
     [\<lparr>v1 = 0, v2 = 1, v3 = 2, tmarker = 7, tselected = True\<rparr>,
      \<lparr>v1 = 0, v2 = 2, v3 = 3, tmarker = 7, tselected = True\<rparr>,
      \<lparr>v1 = 0, v2 = 3, v3 = 4, tmarker = 7, tselected = True\<rparr>,
      \<lparr>v1 = 0, v2 = 4, v3 = 1, tmarker = 7, tselected = True\<rparr>,
      \<lparr>v1 = 5, v2 = 2, v3 = 1, tmarker = 7, tselected = True\<rparr>,
      \<lparr>v1 = 5, v2 = 3, v3 = 2, tmarker = 7, tselected = True\<rparr>,
      \<lparr>v1 = 5, v2 = 4, v3 = 3, tmarker = 7, tselected = True\<rparr>,
      \<lparr>v1 = 5, v2 = 1, v3 = 4, tmarker = 7, tselected = True\<rparr>]"

definition spindleRings :: "NPNT3 list list" where
  "spindleRings =
     [[(4, 1, 3), (1, 2, 0), (2, 3, 1), (3, 4, 2)],
      [(4, 5, 7), (5, 2, 4), (2, 0, 0), (0, 4, 3)],
      [(5, 3, 5), (3, 0, 1), (0, 1, 0), (1, 5, 4)],
      [(5, 4, 6), (4, 0, 2), (0, 2, 1), (2, 5, 5)],
      [(5, 1, 7), (1, 0, 3), (0, 3, 2), (3, 5, 6)],
      [(1, 4, 7), (4, 3, 6), (3, 2, 5), (2, 1, 4)]]"

definition spindle :: OptimizationMesh where
  "spindle = \<lparr>vertex = spindleVertices, face = spindleFaces, neighborList = None\<rparr>"

definition leftVertices :: "Vertex list" where
  "leftVertices =
     [\<lparr>vx = - 99999, vy = - 99999, vz = - 99999, vmarker = 0, vselected = True\<rparr>,
      \<lparr>vx = 4, vy = 0, vz = 0, vmarker = 0, vselected = True\<rparr>,
      \<lparr>vx = - 4, vy = 0, vz = 0, vmarker = 0, vselected = True\<rparr>,
      \<lparr>vx = 4, vy = 0, vz = 0, vmarker = 0, vselected = True\<rparr>,
      \<lparr>vx = - 4, vy = 0, vz = 0, vmarker = 0, vselected = True\<rparr>,
      \<lparr>vx = 0, vy = 0, vz = 0, vmarker = 0, vselected = True\<rparr>]"

definition leftFaces :: "Triangle list" where
  "leftFaces =
     [\<lparr>v1 = 4, v2 = 2, v3 = 3, tmarker = 7, tselected = True\<rparr>,
      \<lparr>v1 = - 1, v2 = - 1, v3 = - 1, tmarker = - 1, tselected = True\<rparr>,
      \<lparr>v1 = - 1, v2 = - 1, v3 = - 1, tmarker = - 1, tselected = True\<rparr>,
      \<lparr>v1 = 4, v2 = 1, v3 = 2, tmarker = 7, tselected = True\<rparr>,
      \<lparr>v1 = 5, v2 = 2, v3 = 1, tmarker = 7, tselected = True\<rparr>,
      \<lparr>v1 = 5, v2 = 3, v3 = 2, tmarker = 7, tselected = True\<rparr>,
      \<lparr>v1 = 5, v2 = 4, v3 = 3, tmarker = 7, tselected = True\<rparr>,
      \<lparr>v1 = 5, v2 = 1, v3 = 4, tmarker = 7, tselected = True\<rparr>]"

definition leftRings :: "NPNT3 list list" where
  "leftRings =
     [[(4, 2, 3), (1, 2, 0), (2, 2, 1), (3, 2, 2)],
      [(2, 4, 3), (4, 5, 7), (5, 2, 4)],
      [(3, 4, 0), (4, 1, 3), (1, 5, 4), (5, 3, 5)],
      [(4, 2, 0), (2, 5, 5), (5, 4, 6)],
      [(2, 3, 0), (3, 5, 6), (5, 1, 7), (1, 2, 3)],
      [(1, 4, 7), (4, 3, 6), (3, 2, 5), (2, 1, 4)]]"

lemma spindle_adjacency:
  "createNeighborlist spindle = Inr (spindle\<lparr>neighborList := Some spindleRings\<rparr>)"
  by code_simp

lemma spindle_flags:
  "deleteFlags g spindleVertices spindleRings [0..<6] = Inr [True, True, True, True, True, True]"
  by code_simp

lemma spindle_length: "length spindleVertices = 6" "length spindleRings = 6"
  by (simp_all add: spindleVertices_def spindleRings_def)

lemma spindle_ring:
  "spindleRings ! 0 = [(4, 1, 3), (1, 2, 0), (2, 3, 1), (3, 4, 2)]"
  "spindleRings ! Suc 0 = [(4, 5, 7), (5, 2, 4), (2, 0, 0), (0, 4, 3)]"
  "spindleRings ! 2 = [(5, 3, 5), (3, 0, 1), (0, 1, 0), (1, 5, 4)]"
  "spindleRings ! 3 = [(5, 4, 6), (4, 0, 2), (0, 2, 1), (2, 5, 5)]"
  "spindleRings ! 4 = [(5, 1, 7), (1, 0, 3), (0, 3, 2), (3, 5, 6)]"
  "spindleRings ! 5 = [(1, 4, 7), (4, 3, 6), (3, 2, 5), (2, 1, 4)]"
  by (simp_all add: spindleRings_def)

lemma spindle_normal:
  "getVertexNormal spindleVertices spindleRings 0 = (0, 0, 1)"
  "getVertexNormal spindleVertices spindleRings (Suc 0) = (0, 0, - 1)"
  "getVertexNormal spindleVertices spindleRings 2 = (0, 0, 1)"
  "getVertexNormal spindleVertices spindleRings 3 = (0, 0, - 1)"
  "getVertexNormal spindleVertices spindleRings 4 = (0, 0, 1)"
  "getVertexNormal spindleVertices spindleRings 5 = (0, 0, 0)"
  by (simp_all add: spindleVertices_def spindleRings_def geo)

lemmas bfs = search.simps visit_def ringInRange_def inRange_def accumulate_def outer_def
  dot3_def searchRadius_def Let_def

lemma spindle_search:
  "search spindleVertices spindleRings (0, 0, 1)
     \<lparr>indexArray = [0], distArray = [0], startPointer = 0,
      tensor = (0, 0, 0, 0, 0, 1), maxAngle = 99999\<rparr>
   = Inr \<lparr>indexArray = [0, 4, 1, 2, 3, 5], distArray = [0, 1, 1, 1, 1, 2],
          startPointer = 6, tensor = (0, 0, 0, 0, 0, 5), maxAngle = 0\<rparr>"
  by (simp add: bfs spindle_length spindle_ring spindle_normal)


lemma spindle_eigen:
  "getEigenVector spindleVertices spindleRings 0
   = Inr (((0, 0, 1), (0, 0, 0), (0, 0, 0)), (5, 0, 0), 0)"
  unfolding getEigenVector_def
  by (simp add: spindle_length spindle_ring spindle_normal ringInRange_def inRange_def
        outer_def spindle_search roots_flat sortRoots_def cofactorRow_def hat_def Let_def)

lemma spindle_detach:
  "forEach (detach 0) (spindleRings ! 0)
     \<lparr>dface = spindleFaces, dneighbourList = spindleRings, cycle = [],
      faceAvailableList = [], neighborAuxList = [], face_marker = None\<rparr>
   = Inr \<lparr>dface = [\<lparr>v1 = - 1, v2 = - 1, v3 = - 1, tmarker = - 1, tselected = True\<rparr>,
                  \<lparr>v1 = - 1, v2 = - 1, v3 = - 1, tmarker = - 1, tselected = True\<rparr>,
                  \<lparr>v1 = - 1, v2 = - 1, v3 = - 1, tmarker = - 1, tselected = True\<rparr>,
                  \<lparr>v1 = - 1, v2 = - 1, v3 = - 1, tmarker = - 1, tselected = True\<rparr>,
                  \<lparr>v1 = 5, v2 = 2, v3 = 1, tmarker = 7, tselected = True\<rparr>,
                  \<lparr>v1 = 5, v2 = 3, v3 = 2, tmarker = 7, tselected = True\<rparr>,
                  \<lparr>v1 = 5, v2 = 4, v3 = 3, tmarker = 7, tselected = True\<rparr>,
                  \<lparr>v1 = 5, v2 = 1, v3 = 4, tmarker = 7, tselected = True\<rparr>],
          dneighbourList = [[(4, 1, 3), (1, 2, 0), (2, 3, 1), (3, 4, 2)],
                            [(4, 5, 7), (5, 2, 4)], [(5, 3, 5), (1, 5, 4)],
                            [(5, 4, 6), (2, 5, 5)], [(5, 1, 7), (3, 5, 6)],
                            [(1, 4, 7), (4, 3, 6), (3, 2, 5), (2, 1, 4)]],
          cycle = [(4, 2, 3), (1, 2, 0), (2, 2, 1), (3, 2, 2)],
          faceAvailableList = [3, 0, 1, 2], neighborAuxList = [4, 1, 2, 3],
          face_marker = Some 7\<rparr>"
  by code_simp

lemma spindle_subdivide:
  "subdividePolygon [3, 0, 1, 2] 7 [(4, 2, 3), (1, 2, 0), (2, 2, 1), (3, 2, 2)]
     \<lparr>rface = [\<lparr>v1 = - 1, v2 = - 1, v3 = - 1, tmarker = - 1, tselected = True\<rparr>,
                  \<lparr>v1 = - 1, v2 = - 1, v3 = - 1, tmarker = - 1, tselected = True\<rparr>,
                  \<lparr>v1 = - 1, v2 = - 1, v3 = - 1, tmarker = - 1, tselected = True\<rparr>,
                  \<lparr>v1 = - 1, v2 = - 1, v3 = - 1, tmarker = - 1, tselected = True\<rparr>,
                  \<lparr>v1 = 5, v2 = 2, v3 = 1, tmarker = 7, tselected = True\<rparr>,
                  \<lparr>v1 = 5, v2 = 3, v3 = 2, tmarker = 7, tselected = True\<rparr>,
                  \<lparr>v1 = 5, v2 = 4, v3 = 3, tmarker = 7, tselected = True\<rparr>,
                  \<lparr>v1 = 5, v2 = 1, v3 = 4, tmarker = 7, tselected = True\<rparr>],
      rneighbourList = [[(4, 2, 3), (1, 2, 0), (2, 2, 1), (3, 2, 2)],
                        [(4, 5, 7), (5, 2, 4)], [(5, 3, 5), (1, 5, 4)],
                        [(5, 4, 6), (2, 5, 5)], [(5, 1, 7), (3, 5, 6)],
                        [(1, 4, 7), (4, 3, 6), (3, 2, 5), (2, 1, 4)]],
      faceAvailableIndex = 0, emitted = []\<rparr>
   = Inr \<lparr>rface = leftFaces,
          rneighbourList = [[(4, 2, 3), (1, 2, 0), (2, 2, 1), (3, 2, 2)],
                            [(2, 4, 3), (4, 5, 7), (5, 2, 4)],
                            [(3, 4, 0), (4, 1, 3), (5, 3, 5), (1, 5, 4)],
                            [(4, 2, 0), (5, 4, 6), (2, 5, 5)],
                            [(2, 3, 0), (1, 2, 3), (5, 1, 7), (3, 5, 6)],
                            [(1, 4, 7), (4, 3, 6), (3, 2, 5), (2, 1, 4)]],
          faceAvailableIndex = 2, emitted = [(3, 4, 1, 2), (0, 4, 2, 3)]\<rparr>"
  by code_simp

lemma spindle_reorder:
  "forEach reorder [4, 1, 2, 3]
     [[(4, 2, 3), (1, 2, 0), (2, 2, 1), (3, 2, 2)],
      [(2, 4, 3), (4, 5, 7), (5, 2, 4)],
      [(3, 4, 0), (4, 1, 3), (5, 3, 5), (1, 5, 4)],
      [(4, 2, 0), (5, 4, 6), (2, 5, 5)],
      [(2, 3, 0), (1, 2, 3), (5, 1, 7), (3, 5, 6)],
      [(1, 4, 7), (4, 3, 6), (3, 2, 5), (2, 1, 4)]]
   = Inr leftRings"
  by code_simp

lemma left_length: "length leftVertices = 6" "length leftRings = 6"
  by (simp_all add: leftVertices_def leftRings_def)

lemma left_ring:
  "leftRings ! Suc 0 = [(2, 4, 3), (4, 5, 7), (5, 2, 4)]"
  "leftRings ! 2 = [(3, 4, 0), (4, 1, 3), (1, 5, 4), (5, 3, 5)]"
  "leftRings ! 3 = [(4, 2, 0), (2, 5, 5), (5, 4, 6)]"
  "leftRings ! 4 = [(2, 3, 0), (3, 5, 6), (5, 1, 7), (1, 2, 3)]"
  "leftRings ! 5 = [(1, 4, 7), (4, 3, 6), (3, 2, 5), (2, 1, 4)]"
  by (simp_all add: leftRings_def)

lemma left_normal:
  "getVertexNormal leftVertices leftRings (Suc 0) = (0, 0, 0)"
  "getVertexNormal leftVertices leftRings 2 = (0, 0, 0)"
  "getVertexNormal leftVertices leftRings 3 = (0, 0, 0)"
  "getVertexNormal leftVertices leftRings 4 = (0, 0, 0)"
  "getVertexNormal leftVertices leftRings 5 = (0, 0, 0)"
  by (simp_all add: leftVertices_def leftRings_def geo)

lemmas eig = getEigenVector_def ringInRange_def inRange_def outer_def roots_zero sortRoots_def
  cofactorRow_def hat_def Let_def

lemma left_eigen:
  "getEigenVector leftVertices leftRings (Suc 0)
   = Inr (((0, 0, 0), (0, 0, 0), (0, 0, 0)), (0, 0, 0), 0)"
  "getEigenVector leftVertices leftRings 2
   = Inr (((0, 0, 0), (0, 0, 0), (0, 0, 0)), (0, 0, 0), 0)"
  "getEigenVector leftVertices leftRings 3
   = Inr (((0, 0, 0), (0, 0, 0), (0, 0, 0)), (0, 0, 0), 0)"
  "getEigenVector leftVertices leftRings 4
   = Inr (((0, 0, 0), (0, 0, 0), (0, 0, 0)), (0, 0, 0), 0)"
  by (simp_all add: eig bfs left_length left_ring left_normal)

lemmas reloc = moveVerticesAlongSurface_def weigh_def getVertexPositionAlongSurface_def
  computeDotProduct_def hat_def ringInRange_def inRange_def isZero_def Let_def roots

lemma left_coord:
  "vx (leftVertices ! Suc 0) = 4" "vy (leftVertices ! Suc 0) = 0" "vz (leftVertices ! Suc 0) = 0"
  "vx (leftVertices ! 2) = - 4" "vy (leftVertices ! 2) = 0" "vz (leftVertices ! 2) = 0"
  "vx (leftVertices ! 3) = 4" "vy (leftVertices ! 3) = 0" "vz (leftVertices ! 3) = 0"
  "vx (leftVertices ! 4) = - 4" "vy (leftVertices ! 4) = 0" "vz (leftVertices ! 4) = 0"
  "vx (leftVertices ! 5) = 0" "vy (leftVertices ! 5) = 0" "vz (leftVertices ! 5) = 0"
  by (simp_all add: leftVertices_def)

lemma left_move:
  "moveVerticesAlongSurface leftVertices leftRings 4 = Inr leftVertices"
  "moveVerticesAlongSurface leftVertices leftRings (Suc 0) = Inr leftVertices"
  "moveVerticesAlongSurface leftVertices leftRings 2 = Inr leftVertices"
  "moveVerticesAlongSurface leftVertices leftRings 3 = Inr leftVertices"
  by (simp_all add: reloc left_length left_ring left_eigen left_coord)
     (simp_all add: leftVertices_def)

lemma left_selected:
  "vselected (leftVertices ! 0)" "vselected (leftVertices ! Suc 0)"
  "vselected (leftVertices ! 2)" "vselected (leftVertices ! 3)" "vselected (leftVertices ! 4)"
  by (simp_all add: leftVertices_def)

lemma left_smooth:
  "smoothNeighbours 0 [4, 1, 2, 3] leftVertices leftRings = Inr leftVertices"
  by (simp add: left_length left_selected left_move)

lemma spindle_remove:
  "removeVertex 0 (spindleVertices, spindleFaces, spindleRings)
   = Inr (leftVertices, leftFaces, leftRings)"
proof -
  have v: "spindleVertices[0 := (spindleVertices ! 0)\<lparr>vx := - 99999, vy := - 99999, vz := - 99999\<rparr>]
           = leftVertices"
    by (simp add: spindleVertices_def leftVertices_def)
  show ?thesis
    unfolding removeVertex_def
    by (simp add: v spindle_detach spindle_subdivide spindle_reorder left_smooth
          del: forEach.simps smoothNeighbours.simps)
qed

lemma spindle_nonempty: "spindleVertices \<noteq> []" "spindleRings \<noteq> []"
  by (simp_all add: spindleVertices_def spindleRings_def)

lemma spindle_first:
  "processVertex (1 / 20) 1 0 (- 1) 0 (spindleVertices, spindleFaces, spindleRings)
   = Inr (Some (leftVertices, leftFaces, leftRings))"
  unfolding processVertex_def
  by (simp add: spindle_nonempty spindle_eigen spindle_remove)

lemma spindle_second:
  "processVertex (1 / 20) 1 0 (- 1) (Suc 0) (leftVertices, leftFaces, leftRings) = Inr None"
  unfolding processVertex_def
  by (simp add: left_length left_eigen)

lemma spindle_loop:
  "mainLoop (1 / 20) 1 0 (- 1) [True, True, True, True, True, True] [0..<6]
     (spindleVertices, spindleFaces, spindleRings)
   = Inr (True, leftVertices, leftFaces, leftRings)"
proof -
  have "[0..<6] = [0, 1, 2, 3, 4, 5::nat]" by code_simp
  thus ?thesis by (simp add: spindle_first spindle_second)
qed

text \<open>
  The pass \<^verbatim>\<open>coarse(0.05, 1, 0, -1)\<close>, which is the call made by
  \<^verbatim>\<open>coarseFlat(0.05, ...)\<close>: vertex \<open>0\<close> is flat (eigenvalues \<open>5, 0, 0\<close>) and is
  removed; its four neighbours are smoothed and stay where they are; at vertex \<open>1\<close>
  all normals within reach are zero, the top eigenvalue is \<open>0\<close> and the pass returns.
\<close>

lemma spindle_coarse:
  "coarse g (1 / 20) 1 0 (- 1) spindle
   = Inr (0, \<lparr>vertex = leftVertices, face = leftFaces, neighborList = Some leftRings\<rparr>)"
proof -
  have a: "createNeighborlist spindle
           = Inr \<lparr>vertex = spindleVertices, face = spindleFaces, neighborList = Some spindleRings\<rparr>"
    using spindle_adjacency by (simp add: spindle_def)
  have n: "neighborList spindle = None" by (simp add: spindle_def)
  show ?thesis
    unfolding coarse_def
    by (simp add: n a numberVertices_def spindle_length spindle_flags spindle_loop)
qed

text \<open>
  Claim C4 (a pass that meets a zero top eigenvalue leaves a consistent mesh) at the
  spindle. The pass returns \<open>0\<close> from inside the main loop, before the lists are
  cleaned: the mesh it leaves still has its six vertex slots and eight face slots,
  vertex \<open>0\<close> holds the sentinel coordinates and the face slots \<open>1\<close> and \<open>2\<close> hold
  \<open>-1\<close> in their indices and marker. \<^verbatim>\<open>coarseFlat\<close> stops after this one pass.
\<close>

theorem coarse_abort_spindle:
  "coarse g (1 / 20) 1 0 (- 1) spindle
     = Inr (0, \<lparr>vertex = leftVertices, face = leftFaces, neighborList = Some leftRings\<rparr>)
   \<and> coarseFlat garbage (1 / 20) 1 spindle
     = Inr (\<lparr>vertex = leftVertices, face = leftFaces, neighborList = Some leftRings\<rparr>, 1)
   \<and> length leftVertices = 6 \<and> length leftFaces = 8
   \<and> (vx (leftVertices ! 0), vy (leftVertices ! 0), vz (leftVertices ! 0))
       = (- 99999, - 99999, - 99999)
   \<and> (v1 (leftFaces ! 1), v2 (leftFaces ! 1), v3 (leftFaces ! 1), tmarker (leftFaces ! 1))
       = (- 1, - 1, - 1, - 1)
   \<and> (v1 (leftFaces ! 2), v2 (leftFaces ! 2), v3 (leftFaces ! 2), tmarker (leftFaces ! 2))
       = (- 1, - 1, - 1, - 1)"
proof -
  have "coarseFlat garbage (1 / 20) 1 spindle
        = Inr (\<lparr>vertex = leftVertices, face = leftFaces, neighborList = Some leftRings\<rparr>, 1)"
    unfolding coarseFlat_def coarseLoop_once by (simp add: spindle_coarse)
  thus ?thesis
    by (simp add: spindle_coarse) (simp add: leftVertices_def leftFaces_def)
qed

section \<open>Which neighbours a removal smooths\<close>

text \<open>
  A second mesh with the faces and rings of the spindle: the equator vertices \<open>1\<close>
  and \<open>3\<close> and the lower apex \<open>5\<close> at the origin, vertex \<open>2\<close> at \<open>(20, 0, 0)\<close>,
  vertex \<open>4\<close>, the only one with \<^verbatim>\<open>selected = false\<close>, at \<open>(-20, 0, 0)\<close> and the
  upper apex \<open>0\<close> at \<open>(0, 15, 0)\<close>. All coordinates that occur are integers. \<open>kinkMid\<close> is
  the vertex array once vertex \<open>0\<close> carries the sentinel, \<open>kinkLeft\<close> the array at the
  end of the round.
\<close>

definition kinkVertices :: "Vertex list" where
  "kinkVertices =
     [\<lparr>vx = 0, vy = 15, vz = 0, vmarker = 0, vselected = True\<rparr>,
      \<lparr>vx = 0, vy = 0, vz = 0, vmarker = 0, vselected = True\<rparr>,
      \<lparr>vx = 20, vy = 0, vz = 0, vmarker = 0, vselected = True\<rparr>,
      \<lparr>vx = 0, vy = 0, vz = 0, vmarker = 0, vselected = True\<rparr>,
      \<lparr>vx = - 20, vy = 0, vz = 0, vmarker = 0, vselected = False\<rparr>,
      \<lparr>vx = 0, vy = 0, vz = 0, vmarker = 0, vselected = True\<rparr>]"

definition kinkMid :: "Vertex list" where
  "kinkMid =
     [\<lparr>vx = - 99999, vy = - 99999, vz = - 99999, vmarker = 0, vselected = True\<rparr>,
      \<lparr>vx = 0, vy = 0, vz = 0, vmarker = 0, vselected = True\<rparr>,
      \<lparr>vx = 20, vy = 0, vz = 0, vmarker = 0, vselected = True\<rparr>,
      \<lparr>vx = 0, vy = 0, vz = 0, vmarker = 0, vselected = True\<rparr>,
      \<lparr>vx = - 20, vy = 0, vz = 0, vmarker = 0, vselected = False\<rparr>,
      \<lparr>vx = 0, vy = 0, vz = 0, vmarker = 0, vselected = True\<rparr>]"

definition kinkLeft :: "Vertex list" where
  "kinkLeft =
     [\<lparr>vx = - 99999, vy = - 99999, vz = - 99999, vmarker = 0, vselected = True\<rparr>,
      \<lparr>vx = 0, vy = 0, vz = 0, vmarker = 0, vselected = True\<rparr>,
      \<lparr>vx = 20, vy = 0, vz = 0, vmarker = 0, vselected = True\<rparr>,
      \<lparr>vx = 0, vy = 0, vz = 0, vmarker = 0, vselected = True\<rparr>,
      \<lparr>vx = - 16, vy = 0, vz = 0, vmarker = 0, vselected = False\<rparr>,
      \<lparr>vx = 0, vy = 0, vz = 0, vmarker = 0, vselected = True\<rparr>]"

definition kink :: OptimizationMesh where
  "kink = \<lparr>vertex = kinkVertices, face = spindleFaces, neighborList = None\<rparr>"

text \<open>
  As long as the vertex held by \<^verbatim>\<open>auxNumber2\<close> is not selected, the loop skips every
  neighbour, whatever the flags of the neighbours are.
\<close>

lemma smoothNeighbours_skips:
  assumes "auxNumber2 < length vs" "\<not> vselected (vs ! auxNumber2)"
  shows "smoothNeighbours auxNumber2 N vs neighbourList = Inr vs"
  using assms by (induction N) simp_all

lemma sqrt256: "sqrt 256 = 16" by (rule real_sqrt_unique) simp_all
lemma sqrt225: "sqrt 225 = 15" by (rule real_sqrt_unique) simp_all
lemma sqrt400: "sqrt 400 = 20" by (rule real_sqrt_unique) simp_all
lemma sqrt1296: "sqrt 1296 = 36" by (rule real_sqrt_unique) simp_all
lemma sqrt1600: "sqrt 1600 = 40" by (rule real_sqrt_unique) simp_all

lemmas kinkRoots = sqrt256 sqrt225 sqrt400 sqrt1296 sqrt1600

lemma kink_length: "length kinkVertices = 6" "length kinkMid = 6" "length kinkLeft = 6"
  by (simp_all add: kinkVertices_def kinkMid_def kinkLeft_def)

lemma kink_normal:
  "getVertexNormal kinkVertices spindleRings 0 = (0, 0, 1)"
  "getVertexNormal kinkVertices spindleRings (Suc 0) = (0, 0, 1)"
  "getVertexNormal kinkVertices spindleRings 2 = (0, 0, - 1)"
  "getVertexNormal kinkVertices spindleRings 3 = (0, 0, - 1)"
  "getVertexNormal kinkVertices spindleRings 4 = (0, 0, 1)"
  "getVertexNormal kinkVertices spindleRings 5 = (0, 0, 0)"
  by (simp_all add: kinkVertices_def spindleRings_def geo kinkRoots)

lemma kink_search:
  "search kinkVertices spindleRings (0, 0, 1)
     \<lparr>indexArray = [0], distArray = [0], startPointer = 0,
      tensor = (0, 0, 0, 0, 0, 1), maxAngle = 99999\<rparr>
   = Inr \<lparr>indexArray = [0, 4, 1, 2, 3, 5], distArray = [0, 1, 1, 1, 1, 2],
          startPointer = 6, tensor = (0, 0, 0, 0, 0, 5), maxAngle = 0\<rparr>"
  by (simp add: bfs kink_length spindle_length spindle_ring kink_normal)

lemma kink_eigen:
  "getEigenVector kinkVertices spindleRings 0
   = Inr (((0, 0, 1), (0, 0, 0), (0, 0, 0)), (5, 0, 0), 0)"
  unfolding getEigenVector_def
  by (simp add: kink_length spindle_length spindle_ring kink_normal ringInRange_def inRange_def
        outer_def kink_search roots_flat sortRoots_def cofactorRow_def hat_def Let_def)

lemma mid_normal:
  "getVertexNormal kinkMid leftRings (Suc 0) = (0, 0, 0)"
  "getVertexNormal kinkMid leftRings 2 = (0, 0, 0)"
  "getVertexNormal kinkMid leftRings 3 = (0, 0, 0)"
  "getVertexNormal kinkMid leftRings 4 = (0, 0, 0)"
  "getVertexNormal kinkMid leftRings 5 = (0, 0, 0)"
  by (simp_all add: kinkMid_def leftRings_def geo kinkRoots)

lemma mid_eigen:
  "getEigenVector kinkMid leftRings 4
   = Inr (((0, 0, 0), (0, 0, 0), (0, 0, 0)), (0, 0, 0), 0)"
  by (simp add: eig bfs kink_length left_length left_ring mid_normal)

lemma mid_coord:
  "vx (kinkMid ! Suc 0) = 0" "vy (kinkMid ! Suc 0) = 0" "vz (kinkMid ! Suc 0) = 0"
  "vx (kinkMid ! 2) = 20" "vy (kinkMid ! 2) = 0" "vz (kinkMid ! 2) = 0"
  "vx (kinkMid ! 3) = 0" "vy (kinkMid ! 3) = 0" "vz (kinkMid ! 3) = 0"
  "vx (kinkMid ! 4) = - 20" "vy (kinkMid ! 4) = 0" "vz (kinkMid ! 4) = 0"
  "vx (kinkMid ! 5) = 0" "vy (kinkMid ! 5) = 0" "vz (kinkMid ! 5) = 0"
  by (simp_all add: kinkMid_def)

lemma mid_move:
  "moveVerticesAlongSurface kinkMid leftRings 4 = Inr kinkLeft"
  by (simp add: reloc kinkRoots kink_length left_length left_ring mid_eigen mid_coord)
     (simp add: kinkMid_def kinkLeft_def)

lemma kink_selected:
  "vselected (kinkMid ! 0)" "\<not> vselected (kinkLeft ! 4)"
  by (simp_all add: kinkMid_def kinkLeft_def)

lemma kink_smooth:
  "smoothNeighbours 0 [4, 1, 2, 3] kinkMid leftRings = Inr kinkLeft"
  by (simp add: kink_length kink_selected mid_move)

lemma kink_remove:
  "removeVertex 0 (kinkVertices, spindleFaces, spindleRings) = Inr (kinkLeft, leftFaces, leftRings)"
proof -
  have v: "kinkVertices[0 := (kinkVertices ! 0)\<lparr>vx := - 99999, vy := - 99999, vz := - 99999\<rparr>]
           = kinkMid"
    by (simp add: kinkVertices_def kinkMid_def)
  show ?thesis
    unfolding removeVertex_def
    by (simp add: v spindle_detach spindle_subdivide spindle_reorder kink_smooth
          del: forEach.simps smoothNeighbours.simps)
qed

lemma kink_nonempty: "kinkVertices \<noteq> []"
  by (simp add: kinkVertices_def)

lemma kink_round:
  "processVertex (1 / 20) 1 0 (- 1) 0 (kinkVertices, spindleFaces, spindleRings)
   = Inr (Some (kinkLeft, leftFaces, leftRings))"
  unfolding processVertex_def
  by (simp add: kink_nonempty spindle_nonempty kink_eigen kink_remove)

lemma kinkLeft_normal:
  "getVertexNormal kinkLeft leftRings (Suc 0) = (0, 0, 0)"
  "getVertexNormal kinkLeft leftRings 2 = (0, 0, 0)"
  "getVertexNormal kinkLeft leftRings 3 = (0, 0, 0)"
  "getVertexNormal kinkLeft leftRings 4 = (0, 0, 0)"
  "getVertexNormal kinkLeft leftRings 5 = (0, 0, 0)"
  by (simp_all add: kinkLeft_def leftRings_def geo kinkRoots)

lemma kinkLeft_eigen:
  "getEigenVector kinkLeft leftRings (Suc 0)
   = Inr (((0, 0, 0), (0, 0, 0), (0, 0, 0)), (0, 0, 0), 0)"
  "getEigenVector kinkLeft leftRings 2
   = Inr (((0, 0, 0), (0, 0, 0), (0, 0, 0)), (0, 0, 0), 0)"
  by (simp_all add: eig bfs kink_length left_length left_ring kinkLeft_normal)

lemma kinkLeft_coord:
  "vx (kinkLeft ! Suc 0) = 0" "vy (kinkLeft ! Suc 0) = 0" "vz (kinkLeft ! Suc 0) = 0"
  "vx (kinkLeft ! 2) = 20" "vy (kinkLeft ! 2) = 0" "vz (kinkLeft ! 2) = 0"
  "vx (kinkLeft ! 3) = 0" "vy (kinkLeft ! 3) = 0" "vz (kinkLeft ! 3) = 0"
  "vx (kinkLeft ! 4) = - 16" "vy (kinkLeft ! 4) = 0" "vz (kinkLeft ! 4) = 0"
  "vx (kinkLeft ! 5) = 0" "vy (kinkLeft ! 5) = 0" "vz (kinkLeft ! 5) = 0"
  by (simp_all add: kinkLeft_def)

lemma kinkLeft_move:
  "moveVerticesAlongSurface kinkLeft leftRings 2
   = Inr (kinkLeft[2 := (kinkLeft ! 2)\<lparr>vx := 16, vy := 0, vz := 0\<rparr>])"
  by (simp add: reloc kinkRoots kink_length left_length left_ring kinkLeft_eigen kinkLeft_coord)

lemma kink_adjacency:
  "createNeighborlist kink = Inr (kink\<lparr>neighborList := Some spindleRings\<rparr>)"
  by code_simp

lemma kink_flags:
  "deleteFlags g kinkVertices spindleRings [0..<6] = Inr [True, True, True, True, g 4, True]"
  by code_simp

lemma kinkLeft_abort:
  "processVertex (1 / 20) 1 0 (- 1) (Suc 0) (kinkLeft, leftFaces, leftRings) = Inr None"
  unfolding processVertex_def
  by (simp add: kink_length left_length kinkLeft_eigen)

lemma kink_loop:
  "mainLoop (1 / 20) 1 0 (- 1) [True, True, True, True, flag, True] [0..<6]
     (kinkVertices, spindleFaces, spindleRings)
   = Inr (True, kinkLeft, leftFaces, leftRings)"
proof -
  have "[0..<6] = [0, 1, 2, 3, 4, 5::nat]" by code_simp
  thus ?thesis by (simp add: kink_round kinkLeft_abort)
qed

lemma kink_coarse:
  "coarse g (1 / 20) 1 0 (- 1) kink
   = Inr (0, \<lparr>vertex = kinkLeft, face = leftFaces, neighborList = Some leftRings\<rparr>)"
proof -
  have a: "createNeighborlist kink
           = Inr \<lparr>vertex = kinkVertices, face = spindleFaces, neighborList = Some spindleRings\<rparr>"
    using kink_adjacency by (simp add: kink_def)
  have n: "neighborList kink = None" by (simp add: kink_def)
  show ?thesis
    unfolding coarse_def
    by (simp add: n a numberVertices_def kink_length spindle_length kink_flags kink_loop)
qed

text \<open>
  Claim C8 (after a removal, the relocation step is applied to exactly the selected
  former neighbours) at the kink, in the pass \<^verbatim>\<open>coarse(0.05, 1, 0, -1)\<close>. Vertex \<open>0\<close> is
  removed; the list of its former neighbours is \<open>4, 1, 2, 3\<close>. Vertex \<open>4\<close> is not
  selected and is moved, from \<open>x = -20\<close> to \<open>x = -16\<close>. The vertices \<open>1\<close>, \<open>2\<close> and \<open>3\<close>
  are selected and keep their places, although the relocation step applied to vertex
  \<open>2\<close> would take it from \<open>x = 20\<close> to \<open>x = 16\<close>. The pass then stops at vertex \<open>1\<close>
  and leaves this state as the mesh.
\<close>

theorem coarse_smooths_neighbours_kink:
  "processVertex (1 / 20) 1 0 (- 1) 0 (kinkVertices, spindleFaces, spindleRings)
     = Inr (Some (kinkLeft, leftFaces, leftRings))
   \<and> coarse g (1 / 20) 1 0 (- 1) kink
     = Inr (0, \<lparr>vertex = kinkLeft, face = leftFaces, neighborList = Some leftRings\<rparr>)
   \<and> map fst (spindleRings ! 0) = [4, 1, 2, 3]
   \<and> \<not> vselected (kinkVertices ! 4)
   \<and> vx (kinkVertices ! 4) = - 20 \<and> vx (kinkLeft ! 4) = - 16
   \<and> vselected (kinkVertices ! 1) \<and> kinkLeft ! 1 = kinkVertices ! 1
   \<and> vselected (kinkVertices ! 2) \<and> kinkLeft ! 2 = kinkVertices ! 2
   \<and> vselected (kinkVertices ! 3) \<and> kinkLeft ! 3 = kinkVertices ! 3
   \<and> moveVerticesAlongSurface kinkLeft leftRings 2
     = Inr (kinkLeft[2 := (kinkLeft ! 2)\<lparr>vx := 16, vy := 0, vz := 0\<rparr>])"
  by (simp add: kink_round kink_coarse kinkLeft_move)
     (simp add: kinkVertices_def kinkLeft_def spindleRings_def)

section \<open>Refinement\<close>

text \<open>
  \<^verbatim>\<open>OptimizationMesh::refine\<close> builds a second object, \<^verbatim>\<open>refinedOptimizationMesh\<close>, and
  then takes over its arrays. The building (lines 1821 to 1967) is embedded on values;
  the taking over (lines 1969 to 1984) depends on which object owns which array and is
  embedded over a store of arrays further down.
\<close>

subsection \<open>The refined mesh\<close>

text \<open>
  An edge \<open>(n, a)\<close> is counted at the vertex \<open>n\<close> with \<^verbatim>\<open>int(n) < ngr->a\<close>. The first
  loop fills \<^verbatim>\<open>offsets\<close> and \<^verbatim>\<open>numberEdges\<close> and counts \<^verbatim>\<open>totalNumberEdges\<close>.
\<close>

definition isEdge :: "nat \<Rightarrow> NPNT3 \<Rightarrow> bool" where
  "isEdge n ngr = (int n < fst ngr)"

fun countEdges :: "nat \<Rightarrow> NPNT3 list list \<Rightarrow> nat \<Rightarrow> nat list \<times> nat list \<times> nat" where
  "countEdges n [] totalNumberEdges = ([], [], totalNumberEdges)"
| "countEdges n (ring # rings) totalNumberEdges =
     (let localNumberEdges = length (filter (isEdge n) ring);
          (offsets, numberEdges, total) =
             countEdges (n + 1) rings (totalNumberEdges + localNumberEdges)
      in (totalNumberEdges # offsets, localNumberEdges # numberEdges, total))"

text \<open>
  The constructor \<^verbatim>\<open>OptimizationMesh(nVertices, nFaces)\<close> fills the new arrays with
  zero coordinates, zero indices, marker \<open>0\<close> and \<^verbatim>\<open>selected = true\<close>. Of an old vertex
  only the coordinates are copied, of an old face only the three indices.
\<close>

definition blankVertex :: Vertex where
  "blankVertex = \<lparr>vx = 0, vy = 0, vz = 0, vmarker = 0, vselected = True\<rparr>"

definition blankFace :: Triangle where
  "blankFace = \<lparr>v1 = 0, v2 = 0, v3 = 0, tmarker = 0, tselected = True\<rparr>"

definition copyVertex :: "Vertex \<Rightarrow> Vertex" where
  "copyVertex v = blankVertex\<lparr>vx := vx v, vy := vy v, vz := vz v\<rparr>"

definition copyFace :: "Triangle \<Rightarrow> Triangle" where
  "copyFace f = blankFace\<lparr>v1 := v1 f, v2 := v2 f, v3 := v3 f\<rparr>"

text \<open>
  The second loop: for every edge \<open>(n, a)\<close>, in the order of the first loop,
  \<^verbatim>\<open>vertex2edge[edgeNumber] = a\<close> and the new vertex
  \<^verbatim>\<open>initialNumberVertices + edgeNumber\<close> gets the coordinates \<open>0.5 * (a + n)\<close>, both read
  from the refined array. The state is the refined vertex array, the filled part of
  \<^verbatim>\<open>vertex2edge\<close> and \<^verbatim>\<open>edgeNumber\<close>.
\<close>

definition splitEdge :: "nat \<Rightarrow> nat \<Rightarrow> NPNT3 \<Rightarrow> Vertex list \<times> nat list \<times> nat
                         \<Rightarrow> error + Vertex list \<times> nat list \<times> nat" where
  "splitEdge initialNumberVertices n ngr st = (case st of (vs, vertex2edge, edgeNumber) \<Rightarrow>
     if isEdge n ngr
     then if \<not> inRange (length vs) (fst ngr) then Inl OutOfBounds
          else let a = nat (fst ngr);
                   nx = vx (vs ! n); ny = vy (vs ! n); nz = vz (vs ! n);
                   ax = vx (vs ! a); ay = vy (vs ! a); az = vz (vs ! a)
               in Inr (vs[initialNumberVertices + edgeNumber :=
                            (vs ! (initialNumberVertices + edgeNumber))
                              \<lparr>vx := 0.5 * (ax + nx), vy := 0.5 * (ay + ny),
                               vz := 0.5 * (az + nz)\<rparr>],
                       vertex2edge @ [a], edgeNumber + 1)
     else Inr st)"

fun splitEdges :: "nat \<Rightarrow> nat \<Rightarrow> NPNT3 list list \<Rightarrow> Vertex list \<times> nat list \<times> nat
                   \<Rightarrow> error + Vertex list \<times> nat list \<times> nat" where
  "splitEdges initialNumberVertices n [] st = Inr st"
| "splitEdges initialNumberVertices n (ring # rings) st =
     (case forEach (splitEdge initialNumberVertices n) ring st of
        Inl e \<Rightarrow> Inl e
      | Inr st \<Rightarrow> splitEdges initialNumberVertices (n + 1) rings st)"

text \<open>
  The third loop replaces every face by four. For the side \<open>m\<close> of the face the search
  \<^verbatim>\<open>for (k = 0; k < numberEdges[min]; ++k) if (vertex2edge[offsets[min] + k] == max) break;\<close>
  gives the index of the edge; when nothing is found \<open>k\<close> ends as \<^verbatim>\<open>numberEdges[min]\<close>.
  The middle face goes to the slot of the old face and the three corner faces to the
  next three free slots.
\<close>

definition findEdge :: "nat list \<Rightarrow> nat \<Rightarrow> nat \<Rightarrow> nat \<Rightarrow> nat" where
  "findEdge vertex2edge offset bound max_vertex_num =
     length (takeWhile (\<lambda>k. vertex2edge ! (offset + k) \<noteq> max_vertex_num) [0..<bound])"

definition additionalVertex :: "nat \<Rightarrow> nat list \<Rightarrow> nat list \<Rightarrow> nat list \<Rightarrow> nat \<Rightarrow> nat
                                \<Rightarrow> error + nat" where
  "additionalVertex initialNumberVertices numberEdges offsets vertex2edge p q =
     (let min_vertex_num = min p q; max_vertex_num = max p q in
      if \<not> min_vertex_num < length numberEdges then Inl OutOfBounds
      else Inr (initialNumberVertices + offsets ! min_vertex_num
                + findEdge vertex2edge (offsets ! min_vertex_num)
                    (numberEdges ! min_vertex_num) max_vertex_num))"

definition refineFace :: "nat \<Rightarrow> nat list \<Rightarrow> nat list \<Rightarrow> nat list \<Rightarrow> nat
                          \<Rightarrow> Triangle list \<times> nat \<Rightarrow> error + Triangle list \<times> nat" where
  "refineFace initialNumberVertices numberEdges offsets vertex2edge n st =
     (case st of (fs, faceNumber) \<Rightarrow>
        if v1 (fs ! n) < 0 \<or> v2 (fs ! n) < 0 \<or> v3 (fs ! n) < 0 then Inl OutOfBounds
        else
          let l0 = nat (v1 (fs ! n)); l1 = nat (v2 (fs ! n)); l2 = nat (v3 (fs ! n));
              find = additionalVertex initialNumberVertices numberEdges offsets vertex2edge
          in case find l0 l1 of Inl e \<Rightarrow> Inl e | Inr a0 \<Rightarrow>
             case find l1 l2 of Inl e \<Rightarrow> Inl e | Inr a1 \<Rightarrow>
             case find l2 l0 of Inl e \<Rightarrow> Inl e | Inr a2 \<Rightarrow>
               let fs = fs[n := (fs ! n)\<lparr>v1 := int a0, v2 := int a1, v3 := int a2\<rparr>];
                   fs = fs[faceNumber := (fs ! faceNumber)
                             \<lparr>v1 := int l0, v2 := int a0, v3 := int a2\<rparr>];
                   fs = fs[faceNumber + 1 := (fs ! (faceNumber + 1))
                             \<lparr>v1 := int l1, v2 := int a1, v3 := int a0\<rparr>];
                   fs = fs[faceNumber + 2 := (fs ! (faceNumber + 2))
                             \<lparr>v1 := int l2, v2 := int a2, v3 := int a1\<rparr>]
               in Inr (fs, faceNumber + 3))"

text \<open>
  The refined mesh as it stands at line 1967, for a mesh that has its ring table. It
  has no ring table of its own.
\<close>

definition refinedOptimizationMesh :: "OptimizationMesh \<Rightarrow> error + OptimizationMesh" where
  "refinedOptimizationMesh m =
     (case neighborList m of
        None \<Rightarrow> Inl NullPointer
      | Some neighbourList \<Rightarrow>
          if length neighbourList \<noteq> numberVertices m then Inl OutOfBounds
          else
            let initialNumberVertices = numberVertices m;
                (offsets, numberEdges, totalNumberEdges) = countEdges 0 neighbourList 0;
                vs = map copyVertex (vertex m) @ replicate totalNumberEdges blankVertex;
                fs = map copyFace (face m) @ replicate (3 * numberFaces m) blankFace
            in case splitEdges initialNumberVertices 0 neighbourList (vs, [], 0) of
                 Inl e \<Rightarrow> Inl e
               | Inr (vs, vertex2edge, edgeNumber) \<Rightarrow>
                   (case forEach (refineFace initialNumberVertices numberEdges offsets vertex2edge)
                           [0..<numberFaces m] (fs, numberFaces m) of
                      Inl e \<Rightarrow> Inl e
                    | Inr (fs, faceNumber) \<Rightarrow>
                        Inr \<lparr>vertex = vs, face = fs, neighborList = None\<rparr>))"

subsection \<open>Taking over the arrays\<close>

text \<open>
  An object of the class holds two array pointers. The store maps an address to the
  array allocated there; an address whose array has been released maps to \<^term>\<open>None\<close>.
  \<open>fresh\<close> is the next address that \<^verbatim>\<open>new[]\<close> hands out. The constructor allocates an
  array only for a positive count and leaves the pointer null otherwise.
\<close>

record Store =
  vertexArrays :: "nat \<Rightarrow> Vertex list option"
  faceArrays :: "nat \<Rightarrow> Triangle list option"
  fresh :: nat

record Object =
  vertexPointer :: "nat option"
  facePointer :: "nat option"
  numbers :: "nat \<times> nat"
  ringTable :: "NPNT3 list list option"

text \<open>
  Reading the mesh of an object: an array of positive length is read through its
  pointer, and reading through a pointer whose array has been released is a use after
  free.
\<close>

definition fetch :: "Object \<Rightarrow> Store \<Rightarrow> error + OptimizationMesh" where
  "fetch this store =
     (case (if fst (numbers this) = 0 then Inr []
            else case vertexPointer this of
                   None \<Rightarrow> Inl NullPointer
                 | Some p \<Rightarrow> (case vertexArrays store p of
                               None \<Rightarrow> Inl UseAfterFree
                             | Some vs \<Rightarrow> Inr vs)) of
        Inl e \<Rightarrow> Inl e
      | Inr vs \<Rightarrow>
          (case (if snd (numbers this) = 0 then Inr []
                 else case facePointer this of
                        None \<Rightarrow> Inl NullPointer
                      | Some p \<Rightarrow> (case faceArrays store p of
                                    None \<Rightarrow> Inl UseAfterFree
                                  | Some fs \<Rightarrow> Inr fs)) of
             Inl e \<Rightarrow> Inl e
           | Inr fs \<Rightarrow> Inr \<lparr>vertex = vs, face = fs, neighborList = ringTable this\<rparr>))"

text \<open>
  \<^verbatim>\<open>new OptimizationMesh(nVertices, nFaces)\<close> with the arrays filled as the given mesh.
\<close>

definition construct :: "OptimizationMesh \<Rightarrow> Store \<Rightarrow> Object \<times> Store" where
  "construct m store =
     (let (pv, store) =
            (if numberVertices m > 0
             then (Some (fresh store),
                   store\<lparr>vertexArrays := (vertexArrays store)(fresh store := Some (vertex m)),
                         fresh := fresh store + 1\<rparr>)
             else (None, store));
          (pf, store) =
            (if numberFaces m > 0
             then (Some (fresh store),
                   store\<lparr>faceArrays := (faceArrays store)(fresh store := Some (face m)),
                         fresh := fresh store + 1\<rparr>)
             else (None, store))
      in (\<lparr>vertexPointer = pv, facePointer = pf, numbers = (numberVertices m, numberFaces m),
           ringTable = neighborList m\<rparr>, store))"

text \<open>
  \<^verbatim>\<open>releaseOptimizationMeshData\<close>: \<^verbatim>\<open>if (vertex) delete [] vertex;\<close>
  \<^verbatim>\<open>if (face) delete [] face;\<close> and \<^verbatim>\<open>destroyNeighborlist()\<close>. The two pointers keep
  their values. The destructor \<^verbatim>\<open>~OptimizationMesh\<close> consists of this call.
\<close>

definition releaseOptimizationMeshData :: "Object \<Rightarrow> Store \<Rightarrow> Object \<times> Store" where
  "releaseOptimizationMeshData this store =
     (let store = (case vertexPointer this of
                     None \<Rightarrow> store
                   | Some p \<Rightarrow> store\<lparr>vertexArrays := (vertexArrays store)(p := None)\<rparr>);
          store = (case facePointer this of
                     None \<Rightarrow> store
                   | Some p \<Rightarrow> store\<lparr>faceArrays := (faceArrays store)(p := None)\<rparr>)
      in (this\<lparr>ringTable := None\<rparr>, store))"

text \<open>Writing the mesh of an object back after an operation that works in place.\<close>

definition put :: "OptimizationMesh \<Rightarrow> Object \<Rightarrow> Store \<Rightarrow> Object \<times> Store" where
  "put m this store =
     (let store = (case vertexPointer this of
                     None \<Rightarrow> store
                   | Some p \<Rightarrow> store\<lparr>vertexArrays := (vertexArrays store)(p := Some (vertex m))\<rparr>);
          store = (case facePointer this of
                     None \<Rightarrow> store
                   | Some p \<Rightarrow> store\<lparr>faceArrays := (faceArrays store)(p := Some (face m))\<rparr>)
      in (this\<lparr>numbers := (numberVertices m, numberFaces m), ringTable := neighborList m\<rparr>,
          store))"

text \<open>
  \<^verbatim>\<open>refine\<close>. After the refined mesh is built, the object releases its own arrays and
  copies the counts and the two pointers of \<^verbatim>\<open>refinedOptimizationMesh\<close>; then
  \<^verbatim>\<open>delete refinedOptimizationMesh\<close> runs the destructor of that object, which releases
  the arrays behind these very pointers; then \<^verbatim>\<open>createNeighborlist()\<close> works on the
  arrays of the object. The result is the object and the store.
\<close>

definition refine :: "Object \<Rightarrow> Store \<Rightarrow> error + Object \<times> Store" where
  "refine this store =
     (case fetch this store of
        Inl e \<Rightarrow> Inl e
      | Inr m \<Rightarrow>
          (case (if neighborList m = None then createNeighborlist m else Inr m) of
             Inl e \<Rightarrow> Inl e
           | Inr m \<Rightarrow>
               (case refinedOptimizationMesh m of
                  Inl e \<Rightarrow> Inl e
                | Inr r \<Rightarrow>
                    let (refined, store) = construct r store;
                        (this, store) = releaseOptimizationMeshData this store;
                        this = this\<lparr>numbers := numbers refined,
                                    vertexPointer := vertexPointer refined,
                                    facePointer := facePointer refined\<rparr>;
                        (refined, store) = releaseOptimizationMeshData refined store
                    in case fetch this store of
                         Inl e \<Rightarrow> Inl e
                       | Inr m \<Rightarrow>
                           (case createNeighborlist m of
                              Inl e \<Rightarrow> Inl e
                            | Inr m \<Rightarrow> Inr (put m this store)))))"

subsection \<open>What refine leaves behind\<close>

text \<open>
  Whenever the refined mesh has a vertex, the vertex array that the object holds after
  \<^verbatim>\<open>delete refinedOptimizationMesh\<close> has been released, and the call of
  \<^verbatim>\<open>createNeighborlist\<close> that follows reads it.
\<close>

lemma construct_vertexPointer:
  assumes "vertex r \<noteq> []" "construct r store = (refined, store')"
  shows "vertexPointer refined = Some (fresh store) \<and> fst (numbers refined) = length (vertex r)"
  using assms by (auto simp: construct_def numberVertices_def Let_def split: if_splits)

lemma release_vertexArrays:
  assumes "vertexPointer obj = Some p" "releaseOptimizationMeshData obj store = (obj', store')"
  shows "vertexArrays store' p = None"
  using assms by (auto simp: releaseOptimizationMeshData_def Let_def split: option.splits)

lemma fetch_released:
  assumes "vertexPointer obj = Some p" "vertexArrays store p = None" "0 < fst (numbers obj)"
  shows "fetch obj store = Inl UseAfterFree"
  using assms by (simp add: fetch_def)

lemma refine_use_after_free:
  assumes f: "fetch this store = Inr m"
      and c: "(if neighborList m = None then createNeighborlist m else Inr m) = Inr m1"
      and r: "refinedOptimizationMesh m1 = Inr r"
      and v: "vertex r \<noteq> []"
  shows "refine this store = Inl UseAfterFree"
proof -
  obtain refined s1 where c1: "construct r store = (refined, s1)" by fastforce
  obtain this1 s2 where r1: "releaseOptimizationMeshData this s1 = (this1, s2)" by fastforce
  obtain refined' s3 where r2: "releaseOptimizationMeshData refined s2 = (refined', s3)"
    by fastforce
  note p = construct_vertexPointer [OF v c1]
  have gone: "vertexArrays s3 (fresh store) = None"
    using release_vertexArrays [OF _ r2] p by simp
  let ?obj = "this1\<lparr>numbers := numbers refined, vertexPointer := vertexPointer refined,
                      facePointer := facePointer refined\<rparr>"
  have "fetch ?obj s3 = Inl UseAfterFree"
  proof (rule fetch_released)
    show "vertexPointer ?obj = Some (fresh store)" using p by simp
    show "vertexArrays s3 (fresh store) = None" by (rule gone)
    show "0 < fst (numbers ?obj)" using p v by simp
  qed
  thus ?thesis
    unfolding refine_def using f c r c1 r1 r2 by (simp add: Let_def)
qed

text \<open>
  The tetrahedron as an object: its two arrays at the address \<open>0\<close> of the store, no ring
  table. \<open>refinedTetrahedron\<close> is the refined mesh that \<^verbatim>\<open>refine\<close> builds for it.
\<close>

definition tetrahedronObject :: Object where
  "tetrahedronObject =
     \<lparr>vertexPointer = Some 0, facePointer = Some 0, numbers = (4, 4), ringTable = None\<rparr>"

definition tetrahedronStore :: Store where
  "tetrahedronStore =
     \<lparr>vertexArrays = (\<lambda>p. if p = 0 then Some (vertex tetrahedron) else None),
      faceArrays = (\<lambda>p. if p = 0 then Some (face tetrahedron) else None),
      fresh = 1\<rparr>"

definition refinedTetrahedron :: OptimizationMesh where
  "refinedTetrahedron =
     \<lparr>vertex = [\<lparr>vx = 0, vy = 0, vz = 0, vmarker = 0, vselected = True\<rparr>,
                \<lparr>vx = 1, vy = 0, vz = 0, vmarker = 0, vselected = True\<rparr>,
                \<lparr>vx = 0, vy = 1, vz = 0, vmarker = 0, vselected = True\<rparr>,
                \<lparr>vx = 0, vy = 0, vz = 1, vmarker = 0, vselected = True\<rparr>,
                \<lparr>vx = 0, vy = 0, vz = 1 / 2, vmarker = 0, vselected = True\<rparr>,
                \<lparr>vx = 0, vy = 1 / 2, vz = 0, vmarker = 0, vselected = True\<rparr>,
                \<lparr>vx = 1 / 2, vy = 0, vz = 0, vmarker = 0, vselected = True\<rparr>,
                \<lparr>vx = 1 / 2, vy = 1 / 2, vz = 0, vmarker = 0, vselected = True\<rparr>,
                \<lparr>vx = 1 / 2, vy = 0, vz = 1 / 2, vmarker = 0, vselected = True\<rparr>,
                \<lparr>vx = 0, vy = 1 / 2, vz = 1 / 2, vmarker = 0, vselected = True\<rparr>],
      face = [\<lparr>v1 = 5, v2 = 7, v3 = 6, tmarker = 0, tselected = True\<rparr>,
              \<lparr>v1 = 6, v2 = 8, v3 = 4, tmarker = 0, tselected = True\<rparr>,
              \<lparr>v1 = 4, v2 = 9, v3 = 5, tmarker = 0, tselected = True\<rparr>,
              \<lparr>v1 = 7, v2 = 9, v3 = 8, tmarker = 0, tselected = True\<rparr>,
              \<lparr>v1 = 0, v2 = 5, v3 = 6, tmarker = 0, tselected = True\<rparr>,
              \<lparr>v1 = 2, v2 = 7, v3 = 5, tmarker = 0, tselected = True\<rparr>,
              \<lparr>v1 = 1, v2 = 6, v3 = 7, tmarker = 0, tselected = True\<rparr>,
              \<lparr>v1 = 0, v2 = 6, v3 = 4, tmarker = 0, tselected = True\<rparr>,
              \<lparr>v1 = 1, v2 = 8, v3 = 6, tmarker = 0, tselected = True\<rparr>,
              \<lparr>v1 = 3, v2 = 4, v3 = 8, tmarker = 0, tselected = True\<rparr>,
              \<lparr>v1 = 0, v2 = 4, v3 = 5, tmarker = 0, tselected = True\<rparr>,
              \<lparr>v1 = 3, v2 = 9, v3 = 4, tmarker = 0, tselected = True\<rparr>,
              \<lparr>v1 = 2, v2 = 5, v3 = 9, tmarker = 0, tselected = True\<rparr>,
              \<lparr>v1 = 1, v2 = 7, v3 = 8, tmarker = 0, tselected = True\<rparr>,
              \<lparr>v1 = 2, v2 = 9, v3 = 7, tmarker = 0, tselected = True\<rparr>,
              \<lparr>v1 = 3, v2 = 8, v3 = 9, tmarker = 0, tselected = True\<rparr>],
      neighborList = None\<rparr>"

lemma tetrahedron_fetch: "fetch tetrahedronObject tetrahedronStore = Inr tetrahedron"
  by (simp add: fetch_def tetrahedronObject_def tetrahedronStore_def tetrahedron_def)

lemma tetrahedron_refined:
  "refinedOptimizationMesh (tetrahedron\<lparr>neighborList := Some tetrahedronRings\<rparr>)
   = Inr refinedTetrahedron"
  by code_simp

text \<open>
  Claim C3 (after \<^verbatim>\<open>refine()\<close> the mesh has \<open>V + E\<close> vertices and \<open>4F\<close> faces and every
  new vertex lies at the midpoint of its edge) at the tetrahedron. The refined mesh
  that \<^verbatim>\<open>refine\<close> builds is as the claim says: ten vertices, the six new ones at the
  midpoints of the edges \<open>(0,3), (0,2), (0,1), (1,2), (1,3), (2,3)\<close>, and sixteen faces.
  But the object is left with the pointers of arrays that the destructor of
  \<^verbatim>\<open>refinedOptimizationMesh\<close> has released, and \<^verbatim>\<open>createNeighborlist()\<close>, the last
  statement of \<^verbatim>\<open>refine\<close>, reads them.
\<close>

theorem refine_tetrahedron:
  "refinedOptimizationMesh (tetrahedron\<lparr>neighborList := Some tetrahedronRings\<rparr>)
     = Inr refinedTetrahedron
   \<and> length (vertex refinedTetrahedron) = 4 + 6
   \<and> length (face refinedTetrahedron) = 4 * 4
   \<and> refine tetrahedronObject tetrahedronStore = Inl UseAfterFree"
proof -
  have v: "vertex refinedTetrahedron \<noteq> []" by (simp add: refinedTetrahedron_def)
  have n: "neighborList tetrahedron = None" by (simp add: tetrahedron_def)
  have c: "(if neighborList tetrahedron = None then createNeighborlist tetrahedron
            else Inr tetrahedron) = Inr (tetrahedron\<lparr>neighborList := Some tetrahedronRings\<rparr>)"
    by (simp add: n tetrahedron_adjacency)
  have "refine tetrahedronObject tetrahedronStore = Inl UseAfterFree"
    by (rule refine_use_after_free [OF tetrahedron_fetch c tetrahedron_refined v])
  thus ?thesis
    by (simp add: tetrahedron_refined) (simp add: refinedTetrahedron_def)
qed

section \<open>Floating-point arithmetic\<close>

text \<open>
  The angle test and the flip test compare \<^verbatim>\<open>float\<close> values, so their outcome depends on
  every rounding. They are embedded over IEEE 754 values: \<^verbatim>\<open>float\<close> is binary32 and
  \<^verbatim>\<open>double\<close> is binary64, every operation is rounded once, to nearest with ties to even,
  in the type that C++ gives the expression (\<^verbatim>\<open>FLT_EVAL_METHOD\<close> 0, no contraction).

  A value is a finite number, an infinity or NaN. The sign of a zero is not represented:
  comparisons do not see it, and the only divisions whose divisor can be zero divide by
  the square root of a product of two positive numbers, which is \<open>+0\<close>.
\<close>

datatype ieee = Finite real | PlusInfinity | MinusInfinity | NaN

text \<open>
  Rounding to precision \<open>p\<close> with least exponent \<open>emin\<close> and greatest exponent \<open>emax\<close>.
  The exponent of \<open>x\<close> is \<open>\<lfloor>log\<^sub>2 |x|\<rfloor>\<close>, but at least \<open>emin\<close> (the subnormal range); the
  representable numbers next to \<open>x\<close> are the multiples of \<^term>\<open>quantum p emin x\<close>, and \<open>x\<close>
  goes to the nearest one, at a tie to the even multiple. A result of magnitude
  \<open>2\<^bsup>emax + 1\<^esup>\<close> or more is an infinity.
\<close>

definition roundEven :: "real \<Rightarrow> int" where
  "roundEven x =
     (let n = \<lfloor>x\<rfloor>; r = x - of_int n
      in if r < 1 / 2 then n else if 1 / 2 < r then n + 1
         else if even n then n else n + 1)"

definition quantum :: "nat \<Rightarrow> int \<Rightarrow> real \<Rightarrow> real" where
  "quantum p emin x = 2 powi (max emin \<lfloor>log 2 \<bar>x\<bar>\<rfloor> - int p + 1)"

definition rnd :: "nat \<Rightarrow> int \<Rightarrow> int \<Rightarrow> real \<Rightarrow> ieee" where
  "rnd p emin emax x =
     (let q = quantum p emin x; y = of_int (roundEven (x / q)) * q
      in if 2 powi (emax + 1) \<le> y then PlusInfinity
         else if y \<le> - (2 powi (emax + 1)) then MinusInfinity
         else Finite y)"

definition rnd32 :: "real \<Rightarrow> ieee" where
  "rnd32 = rnd 24 (- 126) 127"

definition rnd64 :: "real \<Rightarrow> ieee" where
  "rnd64 = rnd 53 (- 1022) 1023"

text \<open>The operations, for a rounding \<open>r\<close> of the exact result.\<close>

definition negative :: "ieee \<Rightarrow> bool" where
  "negative x = (case x of Finite a \<Rightarrow> a < 0 | MinusInfinity \<Rightarrow> True | _ \<Rightarrow> False)"

definition infinity :: "bool \<Rightarrow> ieee" where
  "infinity s = (if s then MinusInfinity else PlusInfinity)"

definition fneg :: "ieee \<Rightarrow> ieee" where
  "fneg x = (case x of Finite a \<Rightarrow> Finite (- a) | PlusInfinity \<Rightarrow> MinusInfinity
             | MinusInfinity \<Rightarrow> PlusInfinity | NaN \<Rightarrow> NaN)"

definition fadd :: "(real \<Rightarrow> ieee) \<Rightarrow> ieee \<Rightarrow> ieee \<Rightarrow> ieee" where
  "fadd r x y =
     (case x of
        NaN \<Rightarrow> NaN
      | Finite a \<Rightarrow> (case y of Finite b \<Rightarrow> r (a + b) | _ \<Rightarrow> y)
      | _ \<Rightarrow> (case y of NaN \<Rightarrow> NaN | Finite b \<Rightarrow> x | _ \<Rightarrow> if x = y then x else NaN))"

definition fsub :: "(real \<Rightarrow> ieee) \<Rightarrow> ieee \<Rightarrow> ieee \<Rightarrow> ieee" where
  "fsub r x y = fadd r x (fneg y)"

definition fmul :: "(real \<Rightarrow> ieee) \<Rightarrow> ieee \<Rightarrow> ieee \<Rightarrow> ieee" where
  "fmul r x y =
     (case x of
        NaN \<Rightarrow> NaN
      | Finite a \<Rightarrow>
          (case y of NaN \<Rightarrow> NaN
           | Finite b \<Rightarrow> r (a * b)
           | _ \<Rightarrow> if a = 0 then NaN else infinity (negative x \<noteq> negative y))
      | _ \<Rightarrow>
          (case y of NaN \<Rightarrow> NaN
           | Finite b \<Rightarrow> if b = 0 then NaN else infinity (negative x \<noteq> negative y)
           | _ \<Rightarrow> infinity (negative x \<noteq> negative y)))"

definition fdiv :: "(real \<Rightarrow> ieee) \<Rightarrow> ieee \<Rightarrow> ieee \<Rightarrow> ieee" where
  "fdiv r x y =
     (case x of
        NaN \<Rightarrow> NaN
      | Finite a \<Rightarrow>
          (case y of NaN \<Rightarrow> NaN
           | Finite b \<Rightarrow> if b = 0 then (if a = 0 then NaN else infinity (a < 0))
                         else r (a / b)
           | _ \<Rightarrow> Finite 0)
      | _ \<Rightarrow>
          (case y of Finite b \<Rightarrow> infinity (negative x \<noteq> negative y) | _ \<Rightarrow> NaN))"

definition fsqrt :: "(real \<Rightarrow> ieee) \<Rightarrow> ieee \<Rightarrow> ieee" where
  "fsqrt r x = (case x of Finite a \<Rightarrow> if a < 0 then NaN else r (sqrt a)
                | PlusInfinity \<Rightarrow> PlusInfinity | _ \<Rightarrow> NaN)"

text \<open>Comparisons; every comparison with NaN is false, so \<^verbatim>\<open>x != y\<close> is true there.\<close>

definition fless :: "ieee \<Rightarrow> ieee \<Rightarrow> bool" where
  "fless x y =
     (case x of
        NaN \<Rightarrow> False
      | PlusInfinity \<Rightarrow> False
      | MinusInfinity \<Rightarrow> (case y of Finite b \<Rightarrow> True | PlusInfinity \<Rightarrow> True | _ \<Rightarrow> False)
      | Finite a \<Rightarrow> (case y of Finite b \<Rightarrow> a < b | PlusInfinity \<Rightarrow> True | _ \<Rightarrow> False))"

definition fgreater :: "ieee \<Rightarrow> ieee \<Rightarrow> bool" where
  "fgreater x y = fless y x"

definition feq :: "ieee \<Rightarrow> ieee \<Rightarrow> bool" where
  "feq x y = (x \<noteq> NaN \<and> x = y)"

text \<open>
  The operations of the two types. A \<^verbatim>\<open>float\<close> becomes a \<^verbatim>\<open>double\<close> without change of
  value; a \<^verbatim>\<open>double\<close> stored in a \<^verbatim>\<open>float\<close> is rounded again.
\<close>

definition add32 :: "ieee \<Rightarrow> ieee \<Rightarrow> ieee" where
  "add32 = fadd rnd32"

definition sub32 :: "ieee \<Rightarrow> ieee \<Rightarrow> ieee" where
  "sub32 = fsub rnd32"

definition mul32 :: "ieee \<Rightarrow> ieee \<Rightarrow> ieee" where
  "mul32 = fmul rnd32"

definition div32 :: "ieee \<Rightarrow> ieee \<Rightarrow> ieee" where
  "div32 = fdiv rnd32"

definition sqrt32 :: "ieee \<Rightarrow> ieee" where
  "sqrt32 = fsqrt rnd32"

definition mul64 :: "ieee \<Rightarrow> ieee \<Rightarrow> ieee" where
  "mul64 = fmul rnd64"

definition div64 :: "ieee \<Rightarrow> ieee \<Rightarrow> ieee" where
  "div64 = fdiv rnd64"

definition sqrt64 :: "ieee \<Rightarrow> ieee" where
  "sqrt64 = fsqrt rnd64"

definition toFloat :: "ieee \<Rightarrow> ieee" where
  "toFloat x = (case x of Finite a \<Rightarrow> rnd32 a | _ \<Rightarrow> x)"

text \<open>A value that is not below zero: NaN, \<open>+\<infinity>\<close> or a finite number from zero on.\<close>

definition nonNegative :: "ieee \<Rightarrow> bool" where
  "nonNegative x = (case x of Finite a \<Rightarrow> 0 \<le> a | MinusInfinity \<Rightarrow> False | _ \<Rightarrow> True)"

subsection \<open>The angle at a corner\<close>

text \<open>
  The pattern of the three squared lengths of \<^verbatim>\<open>getAngleBetweenVertices\<close>,
  \<^verbatim>\<open>(ax - bx) * (ax - bx) + (ay - by) * (ay - by) + (az - bz) * (az - bz)\<close> in \<^verbatim>\<open>float\<close>.
\<close>

definition squaredLength :: "Vertex \<Rightarrow> Vertex \<Rightarrow> ieee" where
  "squaredLength p q =
     (let ax = Finite (vx p); ay = Finite (vy p); az = Finite (vz p);
          bx = Finite (vx q); by = Finite (vy q); bz = Finite (vz q)
      in add32 (add32 (mul32 (sub32 ax bx) (sub32 ax bx)) (mul32 (sub32 ay by) (sub32 ay by)))
               (mul32 (sub32 az bz) (sub32 az bz)))"

text \<open>
  The second branch of \<^verbatim>\<open>getAngleBetweenVertices\<close>:
  \<^verbatim>\<open>angle = 0.5 * (length1 + length2 - length3) / std::sqrt(length1 * length2);\<close>
  \<^verbatim>\<open>angle = std::acos(angle) * 180.0 / PIE;\<close>
  The sums and the product of the lengths are \<^verbatim>\<open>float\<close> operations and \<^verbatim>\<open>std::sqrt\<close> is
  the \<^verbatim>\<open>float\<close> overload; \<^verbatim>\<open>0.5 *\<close>, the division, \<^verbatim>\<open>* 180.0\<close> and \<^verbatim>\<open>/ PIE\<close> are \<^verbatim>\<open>double\<close>
  operations, and each assignment to \<^verbatim>\<open>angle\<close> rounds to \<^verbatim>\<open>float\<close>. \<^verbatim>\<open>std::acos\<close> is the
  \<^verbatim>\<open>float\<close> overload of the C library, whose rounding the language does not fix: it is
  the parameter \<open>acosf\<close>. \<^verbatim>\<open>PIE\<close> is a macro of the absent \<^verbatim>\<open>Common.hh\<close> and is a
  parameter too, a finite \<^verbatim>\<open>double\<close>.
\<close>

definition cosineLaw :: "ieee \<Rightarrow> ieee \<Rightarrow> ieee \<Rightarrow> ieee" where
  "cosineLaw length1 length2 length3 =
     toFloat (div64 (mul64 (Finite 0.5) (sub32 (add32 length1 length2) length3))
                    (sqrt32 (mul32 length1 length2)))"

definition degrees :: "real \<Rightarrow> ieee \<Rightarrow> ieee" where
  "degrees PIE angle = toFloat (div64 (mul64 angle (Finite 180)) (Finite PIE))"

text \<open>
  \<^verbatim>\<open>OptimizationMesh::getAngleBetweenVertices\<close>. The indices are \<^verbatim>\<open>size_t\<close> and the
  array is read unguarded: an index outside it is undefined behaviour.
\<close>

definition getAngleBetweenVertices ::
    "(ieee \<Rightarrow> ieee) \<Rightarrow> real \<Rightarrow> Vertex list \<Rightarrow> nat \<Rightarrow> nat \<Rightarrow> nat \<Rightarrow> error + ieee" where
  "getAngleBetweenVertices acosf PIE vs a b c =
     (if \<not> (a < length vs \<and> b < length vs \<and> c < length vs) then Inl OutOfBounds
      else
        let length1 = squaredLength (vs ! a) (vs ! b);
            length2 = squaredLength (vs ! a) (vs ! c);
            length3 = squaredLength (vs ! b) (vs ! c)
        in if feq length1 (Finite 0) \<or> feq length2 (Finite 0) then Inr (Finite (- 999))
           else Inr (degrees PIE (acosf (cosineLaw length1 length2 length3))))"

text \<open>
  An arc cosine for the examples: the correctly rounded one, NaN outside \<open>[-1, 1]\<close>.
  And the \<^verbatim>\<open>double\<close> next to \<open>\<pi>\<close>, \<open>884279719003555 / 2\<^bsup>48\<^esup>\<close>.
\<close>

definition acos32 :: "ieee \<Rightarrow> ieee" where
  "acos32 x = (case x of Finite a \<Rightarrow> if - 1 \<le> a \<and> a \<le> 1 then rnd32 (arccos a) else NaN
               | _ \<Rightarrow> NaN)"

definition pi64 :: real where
  "pi64 = 884279719003555 / 281474976710656"

text \<open>Two vertices that differ by less than \<open>e\<close> in every coordinate.\<close>

definition closer :: "real \<Rightarrow> Vertex \<Rightarrow> Vertex \<Rightarrow> bool" where
  "closer e p q = (\<bar>vx p - vx q\<bar> < e \<and> \<bar>vy p - vy q\<bar> < e \<and> \<bar>vz p - vz q\<bar> < e)"

text \<open>
  Test configurations: a right-angled corner with a doubled vertex; a corner with an arm
  of length \<open>2\<^bsup>-80\<^esup>\<close>; a corner with an arm of length \<open>2\<^bsup>100\<^esup>\<close>.
\<close>

definition corner :: "Vertex list" where
  "corner = [\<lparr>vx = 0, vy = 0, vz = 0, vmarker = 0, vselected = True\<rparr>,
             \<lparr>vx = 1, vy = 0, vz = 0, vmarker = 0, vselected = True\<rparr>,
             \<lparr>vx = 0, vy = 1, vz = 0, vmarker = 0, vselected = True\<rparr>,
             \<lparr>vx = 0, vy = 1, vz = 0, vmarker = 0, vselected = True\<rparr>]"

definition tinyArm :: "Vertex list" where
  "tinyArm = [\<lparr>vx = 0, vy = 0, vz = 0, vmarker = 0, vselected = True\<rparr>,
              \<lparr>vx = 1 / 1208925819614629174706176, vy = 0, vz = 0, vmarker = 0,
               vselected = True\<rparr>,
              \<lparr>vx = 0, vy = 1, vz = 0, vmarker = 0, vselected = True\<rparr>]"

definition hugeArm :: "Vertex list" where
  "hugeArm = [\<lparr>vx = 0, vy = 0, vz = 0, vmarker = 0, vselected = True\<rparr>,
              \<lparr>vx = 1267650600228229401496703205376, vy = 0, vz = 0, vmarker = 0,
               vselected = True\<rparr>,
              \<lparr>vx = 0, vy = 1, vz = 0, vmarker = 0, vselected = True\<rparr>]"

subsection \<open>The flip test\<close>

text \<open>
  The normalisation step of the kernel, \<^verbatim>\<open>length = sqrt(x * x + y * y + z * z);\<close>
  \<^verbatim>\<open>if (length > 0) { x /= length; y /= length; z /= length; }\<close> in \<^verbatim>\<open>float\<close>, for a square
  root \<open>squareRoot\<close>.
\<close>

definition unit32 :: "(ieee \<Rightarrow> ieee) \<Rightarrow> ieee \<times> ieee \<times> ieee \<Rightarrow> ieee \<times> ieee \<times> ieee" where
  "unit32 squareRoot v = (case v of (x, y, z) \<Rightarrow>
     let length = squareRoot (add32 (add32 (mul32 x x) (mul32 y y)) (mul32 z z))
     in if fgreater length (Finite 0) then (div32 x length, div32 y length, div32 z length)
        else (x, y, z))"

text \<open>The arm from vertex \<open>p\<close> to vertex \<open>q\<close>, \<^verbatim>\<open>vertex[b].x - vertex[a].x\<close> and so on.\<close>

definition arm32 :: "Vertex \<Rightarrow> Vertex \<Rightarrow> ieee \<times> ieee \<times> ieee" where
  "arm32 p q = (sub32 (Finite (vx q)) (Finite (vx p)), sub32 (Finite (vy q)) (Finite (vy p)),
                sub32 (Finite (vz q)) (Finite (vz p)))"

text \<open>
  \<^verbatim>\<open>OptimizationMesh::computeDotProduct\<close> as \<^verbatim>\<open>checkFlipAction\<close> sees it, in \<^verbatim>\<open>float\<close>, for
  indices inside the array; its root is \<^verbatim>\<open>std::sqrt\<close>, the \<^verbatim>\<open>float\<close> overload.
\<close>

definition computeDotProduct32 :: "Vertex list \<Rightarrow> nat \<Rightarrow> nat \<Rightarrow> nat \<Rightarrow> ieee" where
  "computeDotProduct32 vs a b c =
     (let (bx, by, bz) = unit32 sqrt32 (arm32 (vs ! a) (vs ! b));
          (cx, cy, cz) = unit32 sqrt32 (arm32 (vs ! a) (vs ! c))
      in add32 (add32 (mul32 bx cx) (mul32 by cy)) (mul32 bz cz))"

text \<open>
  \<^verbatim>\<open>OptimizationMesh::computeCrossProduct\<close>, for indices inside the array. Its root is the
  unqualified \<^verbatim>\<open>sqrt\<close>: the \<^verbatim>\<open>double\<close> function of the C library, whose result is stored
  in a \<^verbatim>\<open>float\<close>. (Where a header brings the \<^verbatim>\<open>float\<close> overload into scope the value is
  the same: the correctly rounded \<^verbatim>\<open>double\<close> root, rounded to \<^verbatim>\<open>float\<close>, is the correctly
  rounded \<^verbatim>\<open>float\<close> root.)
\<close>

definition sqrtC :: "ieee \<Rightarrow> ieee" where
  "sqrtC x = toFloat (sqrt64 x)"

definition computeCrossProduct :: "Vertex list \<Rightarrow> nat \<Rightarrow> nat \<Rightarrow> nat \<Rightarrow> ieee \<times> ieee \<times> ieee" where
  "computeCrossProduct vs a b c =
     (let (bx, by, bz) = unit32 sqrtC (arm32 (vs ! a) (vs ! b));
          (cx, cy, cz) = unit32 sqrtC (arm32 (vs ! a) (vs ! c));
          gx = sub32 (mul32 cy bz) (mul32 cz by);
          gy = sub32 (mul32 cz bx) (mul32 cx bz);
          gz = sub32 (mul32 cx by) (mul32 cy bx)
      in unit32 sqrtC (gx, gy, gz))"

text \<open>
  \<^verbatim>\<open>OptimizationMesh::checkFlipAction\<close>. The running maxima \<^verbatim>\<open>minAngle1\<close> and
  \<^verbatim>\<open>minAngle2\<close> start at \<open>-99999\<close> and are raised by each of four cosines in turn; a NaN
  raises nothing. The product of the two normals is a \<^verbatim>\<open>float\<close>, compared with the
  \<^verbatim>\<open>double\<close> next to \<open>0.866\<close>. The four indices are read unguarded by the first two
  calls: an index outside the array is undefined behaviour.
\<close>

definition raise :: "ieee \<Rightarrow> ieee \<Rightarrow> ieee" where
  "raise angle minAngle = (if fgreater angle minAngle then angle else minAngle)"

definition dot32 :: "ieee \<times> ieee \<times> ieee \<Rightarrow> ieee \<times> ieee \<times> ieee \<Rightarrow> ieee" where
  "dot32 normal1 normal2 =
     (case normal1 of (x1, y1, z1) \<Rightarrow> case normal2 of (x2, y2, z2) \<Rightarrow>
        add32 (add32 (mul32 x1 x2) (mul32 y1 y2)) (mul32 z1 z2))"

definition checkFlipAction :: "Vertex list \<Rightarrow> nat \<Rightarrow> nat \<Rightarrow> nat \<Rightarrow> nat \<Rightarrow> bool \<Rightarrow> error + nat" where
  "checkFlipAction vs a b c d preserveRidges =
     (if \<not> (a < length vs \<and> b < length vs \<and> c < length vs \<and> d < length vs)
      then Inl OutOfBounds
      else
        let minAngle1 = Finite (- 99999);
            minAngle1 = raise (computeDotProduct32 vs a b c) minAngle1;
            minAngle1 = raise (computeDotProduct32 vs a b d) minAngle1;
            minAngle1 = raise (computeDotProduct32 vs b a c) minAngle1;
            minAngle1 = raise (computeDotProduct32 vs b a d) minAngle1;
            minAngle2 = Finite (- 99999);
            minAngle2 = raise (computeDotProduct32 vs c a d) minAngle2;
            minAngle2 = raise (computeDotProduct32 vs c b d) minAngle2;
            minAngle2 = raise (computeDotProduct32 vs d a c) minAngle2;
            minAngle2 = raise (computeDotProduct32 vs d b c) minAngle2
        in if fgreater minAngle1 minAngle2
           then (let normal1 = computeCrossProduct vs a c b;
                     normal2 = computeCrossProduct vs a b d
                 in if \<not> preserveRidges \<or> fgreater (dot32 normal1 normal2) (rnd64 0.866)
                    then Inr 1 else Inr 0)
           else Inr 0)"

text \<open>
  The greatest of \<open>-99999\<close> and the values of a list that are not NaN: a member that no
  member exceeds.
\<close>

definition greatest :: "ieee \<Rightarrow> ieee list \<Rightarrow> bool" where
  "greatest m xs = (m \<in> set (Finite (- 99999) # xs) \<and> m \<noteq> NaN
                    \<and> (\<forall>x \<in> set (Finite (- 99999) # xs). \<not> fless m x))"

text \<open>
  Test configurations. A rectangle with sides 5 and 10, whose diagonals are equal; a
  kite folded by a right angle along its long diagonal \<open>(0, 1)\<close>; the same kite flat.
\<close>

definition rectangle :: "Vertex list" where
  "rectangle = [\<lparr>vx = 0, vy = 0, vz = 0, vmarker = 0, vselected = True\<rparr>,
                \<lparr>vx = - 5, vy = 10, vz = 0, vmarker = 0, vselected = True\<rparr>,
                \<lparr>vx = 3, vy = 4, vz = 0, vmarker = 0, vselected = True\<rparr>,
                \<lparr>vx = - 8, vy = 6, vz = 0, vmarker = 0, vselected = True\<rparr>]"

definition foldedKite :: "Vertex list" where
  "foldedKite = [\<lparr>vx = 0, vy = 0, vz = 0, vmarker = 0, vselected = True\<rparr>,
                 \<lparr>vx = 8, vy = 0, vz = 0, vmarker = 0, vselected = True\<rparr>,
                 \<lparr>vx = 4, vy = 3, vz = 0, vmarker = 0, vselected = True\<rparr>,
                 \<lparr>vx = 4, vy = 0, vz = 3, vmarker = 0, vselected = True\<rparr>]"

definition kite :: "Vertex list" where
  "kite = [\<lparr>vx = 0, vy = 0, vz = 0, vmarker = 0, vselected = True\<rparr>,
           \<lparr>vx = 8, vy = 0, vz = 0, vmarker = 0, vselected = True\<rparr>,
           \<lparr>vx = 4, vy = 3, vz = 0, vmarker = 0, vselected = True\<rparr>,
           \<lparr>vx = 4, vy = - 3, vz = 0, vmarker = 0, vselected = True\<rparr>]"

section \<open>Properties of the rounding\<close>

lemma quantum_pos: "0 < quantum p emin x"
  by (simp add: quantum_def)

lemma roundEven_nonneg: "0 \<le> x \<Longrightarrow> 0 \<le> roundEven x"
  by (simp add: roundEven_def Let_def)

lemma roundEven_0: "roundEven 0 = 0"
  by (simp add: roundEven_def)

lemma rnd_0: "rnd p emin emax 0 = Finite 0"
proof -
  have "\<not> (2::real) powi (emax + 1) \<le> 0"
    by (simp add: not_le)
  then show ?thesis
    by (simp add: rnd_def roundEven_0 Let_def)
qed

lemma rnd_nonNegative:
  assumes "0 \<le> x"
  shows "nonNegative (rnd p emin emax x)"
proof -
  let ?q = "quantum p emin x"
  have "0 \<le> x / ?q"
    using assms quantum_pos [of p emin x] by simp
  then have "0 \<le> of_int (roundEven (x / ?q)) * ?q"
    using roundEven_nonneg quantum_pos [of p emin x] by simp
  moreover have "- (2 powi (emax + 1)) < (0::real)"
    by simp
  ultimately show ?thesis
    by (simp add: rnd_def Let_def nonNegative_def)
qed

lemma roundEven_eval:
  assumes "\<bar>x - of_int n\<bar> < 1 / 2 \<or> (\<bar>x - of_int n\<bar> = 1 / 2 \<and> even n)"
  shows "roundEven x = n"
proof -
  from assms consider
      (lo) "of_int n \<le> x" "x - of_int n < 1 / 2"
    | (hi) "x < of_int n" "of_int n - x < 1 / 2"
    | (tieup) "x - of_int n = 1 / 2" "even n"
    | (tiedown) "of_int n - x = 1 / 2" "even n"
    by (auto simp: abs_real_def split: if_splits)
  then show ?thesis
  proof cases
    case lo
    then have "\<lfloor>x\<rfloor> = n" by linarith
    then show ?thesis using lo by (simp add: roundEven_def Let_def)
  next
    case hi
    then have f: "\<lfloor>x\<rfloor> = n - 1" by linarith
    have "1 / 2 < x - of_int (n - 1)" using hi by simp
    then show ?thesis using f by (simp add: roundEven_def Let_def)
  next
    case tieup
    then have "\<lfloor>x\<rfloor> = n" by linarith
    then show ?thesis using tieup by (simp add: roundEven_def Let_def)
  next
    case tiedown
    then have f: "\<lfloor>x\<rfloor> = n - 1" by linarith
    have "x - of_int (n - 1) = 1 / 2" using tiedown by simp
    then show ?thesis using f tiedown by (simp add: roundEven_def Let_def)
  qed
qed

lemma floor_log2:
  assumes "2 powi k \<le> \<bar>x\<bar>" "\<bar>x\<bar> < 2 powi (k + 1)"
  shows "\<lfloor>log 2 \<bar>x\<bar>\<rfloor> = k"
proof -
  have "(0::real) < 2 powi k" by simp
  then have "0 < \<bar>x\<bar>" using assms(1) by linarith
  moreover have "(2::real) powr real_of_int k = 2 powi k"
    by (rule powr_real_of_int') simp_all
  moreover have "(2::real) powr real_of_int (k + 1) = 2 powi (k + 1)"
    by (rule powr_real_of_int') simp_all
  ultimately show ?thesis
    using assms by (simp only: floor_log_eq_powr_iff one_less_numeral_iff num.simps semiring_norm)
qed

lemma rnd_eval_gen:
  assumes "2 powi k \<le> \<bar>x\<bar>" "\<bar>x\<bar> < 2 powi (k + 1)"
    and "q = 2 powi (max emin k - int p + 1)"
    and "\<bar>x - of_int n * q\<bar> < q / 2 \<or> (\<bar>x - of_int n * q\<bar> = q / 2 \<and> even n)"
  shows "rnd p emin emax x =
           (if 2 powi (emax + 1) \<le> of_int n * q then PlusInfinity
            else if of_int n * q \<le> - (2 powi (emax + 1)) then MinusInfinity
            else Finite (of_int n * q))"
proof -
  have q: "quantum p emin x = q"
    using floor_log2 [OF assms(1,2)] assms(3) by (simp add: quantum_def)
  have qp: "0 < q" using assms(3) by simp
  have "x / q - of_int n = (x - of_int n * q) / q"
    using qp by (simp add: field_simps)
  then have "\<bar>x / q - of_int n\<bar> = \<bar>x - of_int n * q\<bar> / q"
    using qp by (simp add: abs_divide)
  then have "\<bar>x / q - of_int n\<bar> < 1 / 2 \<or> (\<bar>x / q - of_int n\<bar> = 1 / 2 \<and> even n)"
    using assms(4) qp by (auto simp: field_simps)
  then have "roundEven (x / q) = n" by (rule roundEven_eval)
  then show ?thesis
    using q by (simp add: rnd_def Let_def)
qed

lemma rnd_eval:
  assumes "2 powi k \<le> \<bar>x\<bar>" "\<bar>x\<bar> < 2 powi (k + 1)"
    and "q = 2 powi (max emin k - int p + 1)"
    and "\<bar>x - of_int n * q\<bar> < q / 2 \<or> (\<bar>x - of_int n * q\<bar> = q / 2 \<and> even n)"
    and "\<bar>of_int n * q\<bar> < 2 powi (emax + 1)"
  shows "rnd p emin emax x = Finite (of_int n * q)"
  using assms(5) unfolding rnd_eval_gen [OF assms(1-4)]
  by (simp add: abs_real_def split: if_splits)

lemma rnd_sqrt_eval:
  assumes "0 < n" "2 powi k * 2 powi k \<le> x" "x < 2 powi (k + 1) * 2 powi (k + 1)"
    and "q = 2 powi (max emin k - int p + 1)"
    and "(of_int n - 1 / 2) * q * ((of_int n - 1 / 2) * q) < x"
    and "x < (of_int n + 1 / 2) * q * ((of_int n + 1 / 2) * q)"
    and "of_int n * q < 2 powi (emax + 1)"
  shows "rnd p emin emax (sqrt x) = Finite (of_int n * q)"
proof -
  have qp: "0 < q" using assms(4) by simp
  have n1: "(1::real) \<le> of_int n" using assms(1) by simp
  have a: "2 powi k \<le> \<bar>sqrt x\<bar>"
    using real_le_rsqrt [of "2 powi k" x] assms(2) by (simp add: power2_eq_square)
  have "sqrt x < 2 powi (k + 1)"
    by (rule real_less_lsqrt) (use assms(3) in \<open>simp_all add: power2_eq_square\<close>)
  moreover have "0 \<le> x"
    using assms(2) zero_le_square [of "(2::real) powi k"] by linarith
  then have "0 \<le> sqrt x" by simp
  ultimately have b: "\<bar>sqrt x\<bar> < 2 powi (k + 1)" by simp
  have lo: "(of_int n - 1 / 2) * q < sqrt x"
    by (rule real_less_rsqrt) (use assms(5) in \<open>simp add: power2_eq_square\<close>)
  have "0 \<le> (of_int n + 1 / 2) * q" using n1 qp by simp
  then have hi: "sqrt x < (of_int n + 1 / 2) * q"
    using assms(6) by (intro real_less_lsqrt) (simp_all add: power2_eq_square)
  have "\<bar>sqrt x - of_int n * q\<bar> < q / 2"
    using lo hi by (simp add: abs_real_def algebra_simps)
  moreover have "\<bar>of_int n * q\<bar> < 2 powi (emax + 1)"
    using assms(7) n1 qp by (simp add: abs_mult)
  ultimately show ?thesis
    using rnd_eval [OF a b assms(4)] by blast
qed

lemma roundEven_zero:
  assumes "roundEven x = 0"
  shows "\<bar>x\<bar> \<le> 1 / 2"
proof -
  have f: "of_int \<lfloor>x\<rfloor> \<le> x" "x < of_int \<lfloor>x\<rfloor> + 1" by linarith+
  consider (a) "x - of_int \<lfloor>x\<rfloor> < 1 / 2" | (b) "1 / 2 < x - of_int \<lfloor>x\<rfloor>"
    | (c) "x - of_int \<lfloor>x\<rfloor> = 1 / 2" by linarith
  then show ?thesis
  proof cases
    case a
    then have "\<lfloor>x\<rfloor> = 0" using assms by (simp add: roundEven_def Let_def)
    then show ?thesis using a f by simp
  next
    case b
    then have "\<lfloor>x\<rfloor> = - 1" using assms by (simp add: roundEven_def Let_def)
    then show ?thesis using b f by simp
  next
    case c
    then have "\<lfloor>x\<rfloor> = 0 \<or> \<lfloor>x\<rfloor> = - 1"
      using assms by (simp add: roundEven_def Let_def split: if_splits)
    then show ?thesis using c by auto
  qed
qed

lemma roundEven_ge:
  assumes "of_int m \<le> x"
  shows "m \<le> roundEven x"
proof -
  have "m \<le> \<lfloor>x\<rfloor>" using assms by (simp add: le_floor_iff)
  then show ?thesis by (simp add: roundEven_def Let_def)
qed

lemma roundEven_le:
  assumes "x \<le> of_int m"
  shows "roundEven x \<le> m"
proof (cases "x = of_int m")
  case True
  then show ?thesis by (simp add: roundEven_def Let_def)
next
  case False
  then have "x < of_int m" using assms by simp
  then have "\<lfloor>x\<rfloor> < m" by (simp add: floor_less_iff)
  then show ?thesis by (simp add: roundEven_def Let_def)
qed

lemma rnd_Finite:
  assumes "rnd p emin emax w = Finite x"
  shows "x = of_int (roundEven (w / quantum p emin w)) * quantum p emin w"
  using assms by (simp add: rnd_def Let_def split: if_splits)

lemma floor_log2_le:
  assumes "w \<noteq> 0"
  shows "2 powi \<lfloor>log 2 \<bar>w\<bar>\<rfloor> \<le> \<bar>w\<bar>" "\<bar>w\<bar> < 2 powi (\<lfloor>log 2 \<bar>w\<bar>\<rfloor> + 1)"
proof -
  have "0 < \<bar>w\<bar>" using assms by simp
  then have "2 powr real_of_int \<lfloor>log 2 \<bar>w\<bar>\<rfloor> \<le> \<bar>w\<bar>
             \<and> \<bar>w\<bar> < 2 powr real_of_int (\<lfloor>log 2 \<bar>w\<bar>\<rfloor> + 1)"
    using floor_log_eq_powr_iff [of "\<bar>w\<bar>" 2 "\<lfloor>log 2 \<bar>w\<bar>\<rfloor>"] by simp
  moreover have "(2::real) powr real_of_int k = 2 powi k" for k
    by (rule powr_real_of_int') simp_all
  ultimately show "2 powi \<lfloor>log 2 \<bar>w\<bar>\<rfloor> \<le> \<bar>w\<bar>" "\<bar>w\<bar> < 2 powi (\<lfloor>log 2 \<bar>w\<bar>\<rfloor> + 1)"
    by (simp_all only:)
qed

lemma powi2_mono: "i \<le> j \<Longrightarrow> (2::real) powi i \<le> 2 powi j"
  by (rule power_int_increasing) simp_all

lemma powi2_strict: "i < j \<Longrightarrow> (2::real) powi i < 2 powi j"
  by (rule power_int_strict_increasing) simp_all

lemma powi2_half: "(2::real) powi i / 2 = 2 powi (i - 1)"
  by (simp add: power_int_diff)

lemma rnd_small:
  assumes "rnd p emin emax w = Finite x" "\<bar>x\<bar> < 2 powi (emin - int p + 1)" "0 < p"
  shows "\<bar>w\<bar> \<le> 2 powi (emin - int p)"
proof (cases "w = 0")
  case True
  then show ?thesis by simp
next
  case False
  let ?k = "\<lfloor>log 2 \<bar>w\<bar>\<rfloor>"
  let ?q = "quantum p emin w"
  let ?n = "roundEven (w / ?q)"
  have q: "?q = 2 powi (max emin ?k - int p + 1)" by (simp add: quantum_def)
  have qp: "0 < ?q" by (rule quantum_pos)
  have ql: "2 powi (emin - int p + 1) \<le> ?q"
    unfolding q by (rule powi2_mono) simp
  have x: "x = of_int ?n * ?q" using assms(1) by (rule rnd_Finite)
  have "\<bar>x\<bar> = \<bar>real_of_int ?n\<bar> * ?q"
    unfolding x using qp by (simp add: abs_mult)
  then have "\<bar>real_of_int ?n\<bar> * ?q < ?q"
    using assms(2) ql by linarith
  then have "\<bar>real_of_int ?n\<bar> * ?q < 1 * ?q" by simp
  then have "\<bar>real_of_int ?n\<bar> < 1" using qp by (simp only: mult_less_cancel_right_pos)
  then have "?n = 0" by linarith
  then have "\<bar>w / ?q\<bar> \<le> 1 / 2" by (rule roundEven_zero)
  then have w: "\<bar>w\<bar> \<le> ?q / 2" using qp by (simp add: field_simps)
  have lo: "2 powi ?k \<le> \<bar>w\<bar>" using False by (rule floor_log2_le)
  have "?k < emin"
  proof (rule ccontr)
    assume "\<not> ?k < emin"
    then have "?q / 2 = 2 powi (?k - int p)"
      unfolding q powi2_half by (simp add: max_def)
    moreover have "(2::real) powi (?k - int p) < 2 powi ?k"
      by (rule powi2_strict) (use assms(3) in simp)
    ultimately show False using w lo by linarith
  qed
  then have "?q / 2 = 2 powi (emin - int p)"
    unfolding q powi2_half by (simp add: max_def)
  then show ?thesis using w by simp
qed

lemma rnd_large:
  assumes "rnd p emin emax w = Finite x" "2 powi j \<le> \<bar>w\<bar>" "emin \<le> j" "0 < p"
  shows "2 powi j \<le> \<bar>x\<bar>"
proof -
  let ?k = "\<lfloor>log 2 \<bar>w\<bar>\<rfloor>"
  let ?q = "quantum p emin w"
  let ?n = "roundEven (w / ?q)"
  let ?m = "(2::int) ^ (p - 1)"
  have w0: "w \<noteq> 0"
  proof
    assume "w = 0"
    then have "(2::real) powi j \<le> 0" using assms(2) by simp
    moreover have "(0::real) < 2 powi j" by simp
    ultimately show False by linarith
  qed
  have lo: "2 powi ?k \<le> \<bar>w\<bar>" and hi: "\<bar>w\<bar> < 2 powi (?k + 1)"
    using w0 by (rule floor_log2_le)+
  have jk: "j \<le> ?k"
  proof (rule ccontr)
    assume "\<not> j \<le> ?k"
    then have "(2::real) powi (?k + 1) \<le> 2 powi j" by (intro powi2_mono) simp
    then show False using hi assms(2) by linarith
  qed
  then have q: "?q = 2 powi (?k - int p + 1)"
    using assms(3) by (simp add: quantum_def max_def)
  have qp: "0 < ?q" by (rule quantum_pos)
  have x: "x = of_int ?n * ?q" using assms(1) by (rule rnd_Finite)
  have m: "real_of_int ?m = 2 powi (int p - 1)"
    using assms(4) by (simp add: power_int_def nat_diff_distrib')
  have mq: "real_of_int ?m * ?q = 2 powi ?k"
    unfolding m q by (simp flip: power_int_add)
  have "real_of_int ?m \<le> \<bar>w\<bar> / ?q"
    using lo qp mq by (simp add: field_simps)
  then have "real_of_int ?m \<le> \<bar>w / ?q\<bar>" using qp by (simp add: abs_divide)
  then consider (pos) "real_of_int ?m \<le> w / ?q" | (neg) "w / ?q \<le> real_of_int (- ?m)"
    by (auto simp: abs_real_def split: if_splits)
  then have "?m \<le> \<bar>?n\<bar>"
  proof cases
    case pos
    then have "?m \<le> ?n" by (rule roundEven_ge)
    then show ?thesis by simp
  next
    case neg
    then have "?n \<le> - ?m" by (rule roundEven_le)
    then show ?thesis by simp
  qed
  then have "real_of_int ?m \<le> \<bar>real_of_int ?n\<bar>" by linarith
  then have "real_of_int ?m * ?q \<le> \<bar>real_of_int ?n\<bar> * ?q"
    using qp by simp
  then have "2 powi ?k \<le> \<bar>x\<bar>"
    unfolding mq x using qp by (simp add: abs_mult)
  moreover have "(2::real) powi j \<le> 2 powi ?k" using jk by (rule powi2_mono)
  ultimately show ?thesis by linarith
qed

section \<open>The angle at a corner: properties\<close>

lemma add32_Finite:
  assumes "add32 X Y = Finite z"
  obtains x y where "X = Finite x" "Y = Finite y" "rnd32 (x + y) = Finite z"
  using assms by (cases X; cases Y) (simp_all add: add32_def fadd_def split: if_splits)

lemma mul32_Finite:
  assumes "mul32 X Y = Finite z"
  obtains x y where "X = Finite x" "Y = Finite y" "rnd32 (x * y) = Finite z"
  using assms
  by (cases X; cases Y) (simp_all add: mul32_def fmul_def infinity_def split: if_splits)

lemma sub32_Finite: "sub32 (Finite a) (Finite b) = rnd32 (a - b)"
  by (simp add: sub32_def fsub_def fadd_def fneg_def)

lemma rnd32_small:
  assumes "rnd32 w = Finite x" "\<bar>x\<bar> < 2 powi (- 149)"
  shows "\<bar>w\<bar> \<le> 2 powi (- 150)"
  using rnd_small [of 24 "- 126" 127 w x] assms by (simp add: rnd32_def)

lemma rnd32_nonneg:
  assumes "rnd32 w = Finite x" "0 \<le> w"
  shows "0 \<le> x"
  using rnd_nonNegative [OF assms(2), of 24 "- 126" 127] assms(1)
  by (simp add: rnd32_def nonNegative_def)

lemma square_small:
  assumes "mul32 (sub32 (Finite a) (Finite b)) (sub32 (Finite a) (Finite b)) = Finite u"
    and "\<bar>u\<bar> < 2 powi (- 149)"
  shows "\<bar>a - b\<bar> < 2 powi (- 74)"
proof (rule ccontr)
  assume "\<not> \<bar>a - b\<bar> < 2 powi (- 74)"
  then have far: "2 powi (- 74) \<le> \<bar>a - b\<bar>" by simp
  from assms(1) obtain d d' where d: "sub32 (Finite a) (Finite b) = Finite d"
    and "sub32 (Finite a) (Finite b) = Finite d'" and "rnd32 (d * d') = Finite u"
    by (rule mul32_Finite)
  then have u: "rnd32 (d * d) = Finite u" by simp
  have "\<bar>d * d\<bar> \<le> 2 powi (- 150)"
    using u assms(2) by (rule rnd32_small)
  then have "d\<^sup>2 \<le> (2 powi (- 75))\<^sup>2"
    by (simp add: power2_eq_square)
  then have small: "\<bar>d\<bar> \<le> 2 powi (- 75)"
    using abs_le_square_iff [of d "2 powi (- 75)"] by simp
  have "rnd 24 (- 126) 127 (a - b) = Finite d"
    using d by (simp add: sub32_Finite rnd32_def)
  then have "2 powi (- 74) \<le> \<bar>d\<bar>"
    using far by (rule rnd_large) simp_all
  then show False using small by simp
qed

lemma squaredLength_zero:
  assumes "squaredLength p q = Finite 0"
  shows "closer (2 powi (- 74)) p q"
proof -
  let ?dx = "sub32 (Finite (vx p)) (Finite (vx q))"
  let ?dy = "sub32 (Finite (vy p)) (Finite (vy q))"
  let ?dz = "sub32 (Finite (vz p)) (Finite (vz q))"
  have s: "add32 (add32 (mul32 ?dx ?dx) (mul32 ?dy ?dy)) (mul32 ?dz ?dz) = Finite 0"
    using assms by (simp add: squaredLength_def Let_def)
  then obtain s12 u3 where a: "add32 (mul32 ?dx ?dx) (mul32 ?dy ?dy) = Finite s12"
    and m3: "mul32 ?dz ?dz = Finite u3" and r: "rnd32 (s12 + u3) = Finite 0"
    by (rule add32_Finite)
  from a obtain u1 u2 where m1: "mul32 ?dx ?dx = Finite u1" and m2: "mul32 ?dy ?dy = Finite u2"
    and r12: "rnd32 (u1 + u2) = Finite s12"
    by (rule add32_Finite)
  have nonneg: "0 \<le> u" if "mul32 D D = Finite u" for D u
  proof -
    from that obtain d d' where "D = Finite d" "D = Finite d'" "rnd32 (d * d') = Finite u"
      by (rule mul32_Finite)
    then have "rnd32 (d * d) = Finite u" by simp
    then show ?thesis by (rule rnd32_nonneg) simp
  qed
  have p1: "0 \<le> u1" and p2: "0 \<le> u2" and p3: "0 \<le> u3"
    using nonneg m1 m2 m3 by blast+
  have p12: "0 \<le> s12"
    using r12 by (rule rnd32_nonneg) (use p1 p2 in simp)
  have "\<bar>s12 + u3\<bar> \<le> 2 powi (- 150)"
    using r by (rule rnd32_small) simp
  then have b12: "s12 \<le> 2 powi (- 150)" and b3: "u3 \<le> 2 powi (- 150)"
    using p12 p3 by simp_all
  have "\<bar>u1 + u2\<bar> \<le> 2 powi (- 150)"
    using r12 by (rule rnd32_small) (use b12 p12 in simp)
  then have b1: "u1 \<le> 2 powi (- 150)" and b2: "u2 \<le> 2 powi (- 150)"
    using p1 p2 by simp_all
  have "\<bar>vx p - vx q\<bar> < 2 powi (- 74)"
    using m1 by (rule square_small) (use b1 p1 in simp)
  moreover have "\<bar>vy p - vy q\<bar> < 2 powi (- 74)"
    using m2 by (rule square_small) (use b2 p2 in simp)
  moreover have "\<bar>vz p - vz q\<bar> < 2 powi (- 74)"
    using m3 by (rule square_small) (use b3 p3 in simp)
  ultimately show ?thesis by (simp add: closer_def)
qed

lemma toFloat_nonNegative:
  assumes "nonNegative x"
  shows "nonNegative (toFloat x)"
  using assms rnd_nonNegative
  by (cases x) (simp_all add: toFloat_def nonNegative_def rnd32_def)

lemma mul64_nonNegative:
  assumes "nonNegative x" "0 < c"
  shows "nonNegative (mul64 x (Finite c))"
proof (cases x)
  case (Finite a)
  then have "0 \<le> a * c" using assms by (simp add: nonNegative_def)
  then show ?thesis
    using Finite rnd_nonNegative by (simp add: mul64_def fmul_def rnd64_def)
qed (use assms in \<open>simp_all add: mul64_def fmul_def nonNegative_def infinity_def negative_def\<close>)

lemma div64_nonNegative:
  assumes "nonNegative x" "0 < c"
  shows "nonNegative (div64 x (Finite c))"
proof (cases x)
  case (Finite a)
  then have "0 \<le> a / c" using assms by (simp add: nonNegative_def)
  then show ?thesis
    using Finite assms(2) rnd_nonNegative by (simp add: div64_def fdiv_def rnd64_def)
qed (use assms in \<open>simp_all add: div64_def fdiv_def nonNegative_def infinity_def negative_def\<close>)

lemma degrees_nonNegative:
  assumes "0 < PIE" "nonNegative x"
  shows "nonNegative (degrees PIE x)"
  unfolding degrees_def
  by (intro toFloat_nonNegative div64_nonNegative mul64_nonNegative assms) simp

lemma degrees_sentinel:
  assumes "0 < PIE" "nonNegative x"
  shows "degrees PIE x \<noteq> Finite (- 999)"
  using degrees_nonNegative [OF assms] by (auto simp: nonNegative_def)

lemma sub32_same: "sub32 (Finite x) (Finite x) = Finite 0"
  by (simp add: sub32_def fsub_def fadd_def fneg_def rnd32_def rnd_0)

lemma mul32_zero: "mul32 (Finite 0) (Finite 0) = Finite 0"
  by (simp add: mul32_def fmul_def rnd32_def rnd_0)

lemma add32_zero: "add32 (Finite 0) (Finite 0) = Finite 0"
  by (simp add: add32_def fadd_def rnd32_def rnd_0)

lemma squaredLength_same:
  assumes "vx p = vx q" "vy p = vy q" "vz p = vz q"
  shows "squaredLength p q = Finite 0"
  unfolding squaredLength_def Let_def assms sub32_same mul32_zero add32_zero ..

lemma feq_zero: "feq x (Finite 0) \<longleftrightarrow> x = Finite 0"
  by (auto simp: feq_def)

text \<open>
  Claim C9, as the code has it. For indices inside the array,
  \<^verbatim>\<open>getAngleBetweenVertices(a, b, c)\<close> returns the sentinel \<open>-999\<close> exactly when the
  \<^verbatim>\<open>float\<close> value computed for \<open>|ab|\<^sup>2\<close> or for \<open>|ac|\<^sup>2\<close> is zero, which is so whenever \<open>b\<close> or
  \<open>c\<close> has the coordinates of \<open>a\<close>; otherwise it returns
  \<open>acos(0.5 * (|ab|\<^sup>2 + |ac|\<^sup>2 - |bc|\<^sup>2) / sqrt(|ab|\<^sup>2 * |ac|\<^sup>2)) * 180 / PIE\<close> as \<^verbatim>\<open>float\<close> and \<^verbatim>\<open>double\<close>
  arithmetic evaluate it, a value that is NaN, \<open>+\<infinity>\<close> or a finite number from zero on. The
  value computed for \<open>|bc|\<^sup>2\<close> plays no part in the choice. The sentinel is returned only
  when \<open>b\<close> or \<open>c\<close> is closer to \<open>a\<close> than \<open>2\<^bsup>-74\<^esup>\<close> in every coordinate. The library's arc
  cosine is assumed to return no negative value, and \<^verbatim>\<open>PIE\<close> to be positive.
\<close>

theorem getAngleBetweenVertices_spec:
  assumes "a < length vs" "b < length vs" "c < length vs"
    and "0 < PIE" and "\<And>x. nonNegative (acosf x)"
  shows "\<exists>angle. getAngleBetweenVertices acosf PIE vs a b c = Inr angle
           \<and> (angle = Finite (- 999) \<longleftrightarrow>
                squaredLength (vs ! a) (vs ! b) = Finite 0
                \<or> squaredLength (vs ! a) (vs ! c) = Finite 0)
           \<and> ((vx (vs ! a) = vx (vs ! b) \<and> vy (vs ! a) = vy (vs ! b) \<and> vz (vs ! a) = vz (vs ! b))
                \<or> (vx (vs ! a) = vx (vs ! c) \<and> vy (vs ! a) = vy (vs ! c) \<and> vz (vs ! a) = vz (vs ! c))
                \<longrightarrow> angle = Finite (- 999))
           \<and> (angle = Finite (- 999) \<longrightarrow>
                closer (2 powi (- 74)) (vs ! a) (vs ! b) \<or> closer (2 powi (- 74)) (vs ! a) (vs ! c))
           \<and> (angle \<noteq> Finite (- 999) \<longrightarrow>
                angle = degrees PIE (acosf (cosineLaw (squaredLength (vs ! a) (vs ! b))
                                                     (squaredLength (vs ! a) (vs ! c))
                                                     (squaredLength (vs ! b) (vs ! c))))
                \<and> nonNegative angle)"
proof -
  let ?l1 = "squaredLength (vs ! a) (vs ! b)"
  let ?l2 = "squaredLength (vs ! a) (vs ! c)"
  let ?l3 = "squaredLength (vs ! b) (vs ! c)"
  let ?formula = "degrees PIE (acosf (cosineLaw ?l1 ?l2 ?l3))"
  have f: "?formula \<noteq> Finite (- 999)" "nonNegative ?formula"
    using degrees_sentinel degrees_nonNegative assms(4,5) by blast+
  show ?thesis
  proof (cases "?l1 = Finite 0 \<or> ?l2 = Finite 0")
    case True
    then have "getAngleBetweenVertices acosf PIE vs a b c = Inr (Finite (- 999))"
      using assms(1-3) by (simp add: getAngleBetweenVertices_def Let_def feq_zero)
    moreover have "closer (2 powi (- 74)) (vs ! a) (vs ! b) \<or> closer (2 powi (- 74)) (vs ! a) (vs ! c)"
      using True squaredLength_zero by blast
    ultimately show ?thesis using True by simp
  next
    case False
    then have g: "getAngleBetweenVertices acosf PIE vs a b c = Inr ?formula"
      using assms(1-3) by (simp add: getAngleBetweenVertices_def Let_def feq_zero)
    have "\<not> (vx (vs ! a) = vx (vs ! b) \<and> vy (vs ! a) = vy (vs ! b) \<and> vz (vs ! a) = vz (vs ! b))"
      "\<not> (vx (vs ! a) = vx (vs ! c) \<and> vy (vs ! a) = vy (vs ! c) \<and> vz (vs ! a) = vz (vs ! c))"
      using False squaredLength_same by blast+
    then show ?thesis using g f False by simp
  qed
qed

text \<open>The roundings met on the test configurations.\<close>

lemma angle1: "sub32 (Finite 0) (Finite 0) = Finite 0"
  by (simp add: sub32_def fsub_def fadd_def fneg_def rnd32_def rnd_0)

lemma angle2: "sub32 (Finite 1) (Finite 1) = Finite 0"
  by (simp add: sub32_def fsub_def fadd_def fneg_def rnd32_def rnd_0)

lemma angle3: "mul32 (Finite 0) (Finite 0) = Finite 0"
  by (simp add: mul32_def fmul_def rnd32_def rnd_0)

lemma angle4: "add32 (Finite 0) (Finite 0) = Finite 0"
  by (simp add: add32_def fadd_def rnd32_def rnd_0)

lemma angle5: "sub32 (Finite 1) (Finite 0) = Finite 1"
  by (simp add: sub32_def fsub_def fadd_def fneg_def rnd32_def
        rnd_eval [where k = 0 and n = 8388608 and q = "2 powi (- 23)"])

lemma angle6: "mul32 (Finite 1) (Finite 1) = Finite 1"
  by (simp add: mul32_def fmul_def rnd32_def
        rnd_eval [where k = 0 and n = 8388608 and q = "2 powi (- 23)"])

lemma angle7: "add32 (Finite 0) (Finite 1) = Finite 1"
  by (simp add: add32_def fadd_def rnd32_def
        rnd_eval [where k = 0 and n = 8388608 and q = "2 powi (- 23)"])

lemma angle8: "add32 (Finite 1) (Finite 0) = Finite 1"
  by (simp add: add32_def fadd_def rnd32_def
        rnd_eval [where k = 0 and n = 8388608 and q = "2 powi (- 23)"])

lemma angle9: "sub32 (Finite 0) (Finite 1) = Finite (- 1)"
  by (simp add: sub32_def fsub_def fadd_def fneg_def rnd32_def
        rnd_eval [where k = 0 and n = "- 8388608" and q = "2 powi (- 23)"])

lemma angle10: "mul32 (Finite (- 1)) (Finite (- 1)) = Finite 1"
  by (simp add: mul32_def fmul_def rnd32_def
        rnd_eval [where k = 0 and n = 8388608 and q = "2 powi (- 23)"])

lemma angle11: "add32 (Finite 1) (Finite 1) = Finite 2"
  by (simp add: add32_def fadd_def rnd32_def
        rnd_eval [where k = 1 and n = 8388608 and q = "2 powi (- 22)"])

lemma angle12: "sub32 (Finite 2) (Finite 0) = Finite 2"
  by (simp add: sub32_def fsub_def fadd_def fneg_def rnd32_def
        rnd_eval [where k = 1 and n = 8388608 and q = "2 powi (- 22)"])

lemma angle13: "mul64 (Finite (1 / 2)) (Finite 2) = Finite 1"
  by (simp add: mul64_def fmul_def rnd64_def
        rnd_eval [where k = 0 and n = 4503599627370496 and q = "2 powi (- 52)"])

lemma angle14: "sqrt32 (Finite 1) = Finite 1"
proof -
  have "sqrt 1 = 1"
    by (rule real_sqrt_unique) (simp_all add: power2_eq_square)
  then show ?thesis
    by (simp add: sqrt32_def fsqrt_def rnd32_def
          rnd_eval [where k = 0 and n = 8388608 and q = "2 powi (- 23)"])
qed

lemma angle15: "div64 (Finite 1) (Finite 1) = Finite 1"
  by (simp add: div64_def fdiv_def rnd64_def
        rnd_eval [where k = 0 and n = 4503599627370496 and q = "2 powi (- 52)"])

lemma angle16: "toFloat (Finite 1) = Finite 1"
  by (simp add: toFloat_def rnd32_def
        rnd_eval [where k = 0 and n = 8388608 and q = "2 powi (- 23)"])

lemma angle17: "add32 (Finite 2) (Finite 0) = Finite 2"
  by (simp add: add32_def fadd_def rnd32_def
        rnd_eval [where k = 1 and n = 8388608 and q = "2 powi (- 22)"])

lemma angle18: "sub32 (Finite 2) (Finite 2) = Finite 0"
  by (simp add: sub32_def fsub_def fadd_def fneg_def rnd32_def rnd_0)

lemma angle19: "mul64 (Finite (1 / 2)) (Finite 0) = Finite 0"
  by (simp add: mul64_def fmul_def rnd64_def rnd_0)

lemma angle20: "div64 (Finite 0) (Finite 1) = Finite 0"
  by (simp add: div64_def fdiv_def rnd64_def rnd_0)

lemma angle21: "toFloat (Finite 0) = Finite 0"
  by (simp add: toFloat_def rnd32_def rnd_0)

lemma angle22: "sub32 (Finite 0) (Finite (1 / 1208925819614629174706176)) = Finite (- (1 / 1208925819614629174706176))"
  by (simp add: sub32_def fsub_def fadd_def fneg_def rnd32_def
        rnd_eval [where k = "- 80" and n = "- 8388608" and q = "2 powi (- 103)"])

lemma angle23: "mul32 (Finite (- (1 / 1208925819614629174706176))) (Finite (- (1 / 1208925819614629174706176))) = Finite 0"
  by (simp add: mul32_def fmul_def rnd32_def
        rnd_eval [where k = "- 160" and n = 0 and q = "2 powi (- 149)"])

lemma angle24: "sub32 (Finite (1 / 1208925819614629174706176)) (Finite 0) = Finite (1 / 1208925819614629174706176)"
  by (simp add: sub32_def fsub_def fadd_def fneg_def rnd32_def
        rnd_eval [where k = "- 80" and n = 8388608 and q = "2 powi (- 103)"])

lemma angle25: "mul32 (Finite (1 / 1208925819614629174706176)) (Finite (1 / 1208925819614629174706176)) = Finite 0"
  by (simp add: mul32_def fmul_def rnd32_def
        rnd_eval [where k = "- 160" and n = 0 and q = "2 powi (- 149)"])

lemma angle26: "sub32 (Finite 0) (Finite 1267650600228229401496703205376) = Finite (- 1267650600228229401496703205376)"
  by (simp add: sub32_def fsub_def fadd_def fneg_def rnd32_def
        rnd_eval [where k = 100 and n = "- 8388608" and q = "2 powi 77"])

lemma angle27: "mul32 (Finite (- 1267650600228229401496703205376)) (Finite (- 1267650600228229401496703205376)) = PlusInfinity"
  by (simp add: mul32_def fmul_def rnd32_def
        rnd_eval_gen [where k = 200 and n = 8388608 and q = "2 powi 177"])

lemma angle28: "sub32 (Finite 1267650600228229401496703205376) (Finite 0) = Finite 1267650600228229401496703205376"
  by (simp add: sub32_def fsub_def fadd_def fneg_def rnd32_def
        rnd_eval [where k = 100 and n = 8388608 and q = "2 powi 77"])

lemma angle29: "mul32 (Finite 1267650600228229401496703205376) (Finite 1267650600228229401496703205376) = PlusInfinity"
  by (simp add: mul32_def fmul_def rnd32_def
        rnd_eval_gen [where k = 200 and n = 8388608 and q = "2 powi 177"])

lemma angle30: "mul64 (Finite 0) (Finite 180) = Finite 0"
  by (simp add: mul64_def fmul_def rnd64_def rnd_0)

lemma angle31: "div64 (Finite 0) (Finite (884279719003555 / 281474976710656)) = Finite 0"
  by (simp add: div64_def fdiv_def rnd64_def rnd_0)

lemmas angleEval = angle1 angle2 angle3 angle4 angle5 angle6 angle7 angle8 angle9 angle10
  angle11 angle12 angle13 angle14 angle15 angle16 angle17 angle18 angle19 angle20 angle21
  angle22 angle23 angle24 angle25 angle26 angle27 angle28 angle29 angle30 angle31

lemma acos32_nonNegative: "nonNegative (acos32 x)"
proof (cases x)
  case (Finite a)
  show ?thesis
  proof (cases "- 1 \<le> a \<and> a \<le> 1")
    case True
    then have "0 \<le> arccos a" by (simp add: arccos_lbound)
    then have "nonNegative (rnd 24 (- 126) 127 (arccos a))" by (rule rnd_nonNegative)
    then show ?thesis using Finite True by (simp add: acos32_def rnd32_def)
  next
    case False
    then show ?thesis using Finite by (auto simp: acos32_def nonNegative_def)
  qed
qed (simp_all add: acos32_def nonNegative_def)

lemma add32_special:
  "add32 PlusInfinity (Finite b) = PlusInfinity"
  "add32 (Finite a) PlusInfinity = PlusInfinity"
  "add32 PlusInfinity PlusInfinity = PlusInfinity"
  "add32 NaN x = NaN"
  "add32 (Finite a) NaN = NaN"
  by (simp_all add: add32_def fadd_def)

lemma pi64_pos: "0 < pi64"
  by (simp add: pi64_def)

lemma acos32_1: "acos32 (Finite 1) = Finite 0"
  by (simp add: acos32_def rnd32_def rnd_0)

lemma acos32_0: "acos32 (Finite 0) = rnd32 (pi / 2)"
  by (simp add: acos32_def)

lemma acos32_NaN: "acos32 NaN = NaN"
  by (simp add: acos32_def)

lemma corner_length: "length corner = 4"
  by (simp add: corner_def)

lemma corner_coord:
  "vx (corner ! 0) = 0" "vy (corner ! 0) = 0" "vz (corner ! 0) = 0"
  "vx (corner ! Suc 0) = 1" "vy (corner ! Suc 0) = 0" "vz (corner ! Suc 0) = 0"
  "vx (corner ! 2) = 0" "vy (corner ! 2) = 1" "vz (corner ! 2) = 0"
  "vx (corner ! 3) = 0" "vy (corner ! 3) = 1" "vz (corner ! 3) = 0"
  by (simp_all add: corner_def)

lemma corner_lengths:
  "squaredLength (corner ! 2) (corner ! 3) = Finite 0"
  "squaredLength (corner ! 2) (corner ! 0) = Finite 1"
  "squaredLength (corner ! 3) (corner ! 0) = Finite 1"
  "squaredLength (corner ! 0) (corner ! 2) = Finite 1"
  "squaredLength (corner ! 0) (corner ! 3) = Finite 1"
  "squaredLength (corner ! 0) (corner ! Suc 0) = Finite 1"
  "squaredLength (corner ! Suc 0) (corner ! 2) = Finite 2"
  by (simp_all add: squaredLength_def corner_coord angleEval)

lemma cosineLaw_eval:
  "cosineLaw (Finite 1) (Finite 1) (Finite 0) = Finite 1"
  "cosineLaw (Finite 1) (Finite 1) (Finite 2) = Finite 0"
  by (simp_all add: cosineLaw_def angleEval)

lemma degrees_0: "degrees pi64 (Finite 0) = Finite 0"
  by (simp add: degrees_def pi64_def angleEval)

theorem getAngleBetweenVertices_witness:
  "getAngleBetweenVertices acos32 pi64 corner 2 3 0 = Inr (Finite (- 999))
   \<and> squaredLength (corner ! 2) (corner ! 3) = Finite 0
   \<and> getAngleBetweenVertices acos32 pi64 corner 0 2 3 = Inr (Finite 0)
   \<and> squaredLength (corner ! 2) (corner ! 3) = Finite 0
   \<and> squaredLength (corner ! 0) (corner ! 2) = Finite 1
   \<and> squaredLength (corner ! 0) (corner ! 3) = Finite 1
   \<and> getAngleBetweenVertices acos32 pi64 corner 0 1 2 = Inr (degrees pi64 (rnd32 (pi / 2)))"
  using getAngleBetweenVertices_spec [of 2 corner 3 0 pi64 acos32, OF _ _ _ pi64_pos acos32_nonNegative]
        getAngleBetweenVertices_spec [of 0 corner 2 3 pi64 acos32, OF _ _ _ pi64_pos acos32_nonNegative]
        getAngleBetweenVertices_spec [of 0 corner 1 2 pi64 acos32, OF _ _ _ pi64_pos acos32_nonNegative]
  by (simp add: getAngleBetweenVertices_def corner_length corner_lengths cosineLaw_eval
        feq_def acos32_1 acos32_0 degrees_0)

lemma tinyArm_lengths:
  "squaredLength (tinyArm ! 0) (tinyArm ! Suc 0) = Finite 0"
  by (simp add: squaredLength_def tinyArm_def angleEval)

lemma hugeArm_lengths:
  "squaredLength (hugeArm ! 0) (hugeArm ! Suc 0) = PlusInfinity"
  "squaredLength (hugeArm ! 0) (hugeArm ! 2) = Finite 1"
  "squaredLength (hugeArm ! Suc 0) (hugeArm ! 2) = PlusInfinity"
  by (simp_all add: squaredLength_def hugeArm_def angleEval add32_special)

lemma cosineLaw_NaN: "cosineLaw PlusInfinity (Finite 1) PlusInfinity = NaN"
  by (simp add: cosineLaw_def add32_def sub32_def fadd_def fsub_def fneg_def mul64_def fmul_def
        div64_def fdiv_def toFloat_def)

lemma degrees_NaN: "degrees PIE NaN = NaN"
  by (simp add: degrees_def mul64_def fmul_def div64_def fdiv_def toFloat_def)

text \<open>
  Read over exact squared lengths the claim fails twice. With an arm of length \<open>2\<^bsup>-80\<^esup>\<close>
  the square \<open>2\<^bsup>-160\<^esup>\<close> is rounded to zero and the sentinel is returned although no edge
  has length zero. With an arm of length \<open>2\<^bsup>100\<^esup>\<close> the squares overflow, \<open>\<infinity> - \<infinity>\<close> is
  NaN, and NaN is returned for a right angle.
\<close>

theorem getAngleBetweenVertices_counterexample:
  "getAngleBetweenVertices acos32 pi64 tinyArm 0 1 2 = Inr (Finite (- 999))
   \<and> sqlen (tinyArm ! 0) (tinyArm ! 1) = 2 powi (- 160)
   \<and> sqlen (tinyArm ! 0) (tinyArm ! 2) = 1
   \<and> getAngleBetweenVertices acos32 pi64 hugeArm 0 1 2 = Inr NaN
   \<and> sqlen (hugeArm ! 0) (hugeArm ! 1) = 2 powi 200
   \<and> sqlen (hugeArm ! 0) (hugeArm ! 2) = 1
   \<and> sqlen (hugeArm ! 1) (hugeArm ! 2) = 2 powi 200 + 1"
proof -
  have "getAngleBetweenVertices acos32 pi64 tinyArm 0 1 2 = Inr (Finite (- 999))"
    by (simp add: getAngleBetweenVertices_def tinyArm_lengths feq_def) (simp add: tinyArm_def)
  moreover have "getAngleBetweenVertices acos32 pi64 hugeArm 0 1 2 = Inr NaN"
    by (simp add: getAngleBetweenVertices_def hugeArm_lengths feq_def cosineLaw_NaN acos32_NaN
          degrees_NaN) (simp add: hugeArm_def)
  moreover have "sqlen (tinyArm ! 0) (tinyArm ! 1) = 2 powi (- 160)"
    "sqlen (tinyArm ! 0) (tinyArm ! 2) = 1"
    by (simp_all add: sqlen_def tinyArm_def)
  moreover have "sqlen (hugeArm ! 0) (hugeArm ! 1) = 2 powi 200"
    "sqlen (hugeArm ! 0) (hugeArm ! 2) = 1" "sqlen (hugeArm ! 1) (hugeArm ! 2) = 2 powi 200 + 1"
    by (simp_all add: sqlen_def hugeArm_def)
  ultimately show ?thesis by (simp only: simp_thms)
qed

section \<open>The flip test: properties\<close>

lemma fless_irrefl: "\<not> fless x x"
  by (cases x) (simp_all add: fless_def)

lemma fless_trans: "fless x y \<Longrightarrow> fless y z \<Longrightarrow> fless x z"
  by (cases x; cases y; cases z) (simp_all add: fless_def)

lemma fless_NaN: "fless x y \<Longrightarrow> x \<noteq> NaN \<and> y \<noteq> NaN"
  by (cases x; cases y) (simp_all add: fless_def)

lemma fless_total: "x \<noteq> NaN \<Longrightarrow> y \<noteq> NaN \<Longrightarrow> \<not> fless x y \<Longrightarrow> \<not> fless y x \<Longrightarrow> x = y"
  by (cases x; cases y) (simp_all add: fless_def)

lemma greatest_Nil: "greatest (Finite (- 99999)) []"
  by (simp add: greatest_def fless_irrefl)

lemma greatest_raise:
  assumes "greatest m xs"
  shows "greatest (raise x m) (xs @ [x])"
proof (cases "fless m x")
  case True
  then have r: "raise x m = x" by (simp add: raise_def fgreater_def)
  have "\<not> fless x y" if "y \<in> set (Finite (- 99999) # xs)" for y
  proof
    assume "fless x y"
    with True have "fless m y" by (rule fless_trans)
    then show False using assms that by (auto simp: greatest_def)
  qed
  then show ?thesis
    unfolding r using True fless_NaN [OF True] by (auto simp: greatest_def fless_irrefl)
next
  case False
  then have "raise x m = m" by (simp add: raise_def fgreater_def)
  then show ?thesis using assms False by (auto simp: greatest_def)
qed

lemma greatest_unique:
  assumes "greatest m xs" "greatest m' xs"
  shows "m = m'"
proof -
  have "\<not> fless m m'" "\<not> fless m' m" "m \<noteq> NaN" "m' \<noteq> NaN"
    using assms by (auto simp: greatest_def)
  then show ?thesis using fless_total by blast
qed

lemma greatest4:
  "greatest (raise x4 (raise x3 (raise x2 (raise x1 (Finite (- 99999)))))) [x1, x2, x3, x4]"
  using greatest_raise [OF greatest_raise [OF greatest_raise [OF greatest_raise [OF greatest_Nil]]]]
  by simp

text \<open>
  Claim C2, as the code has it. For indices inside the array, \<^verbatim>\<open>checkFlipAction(a, b, c, d,\<close>
  \<^verbatim>\<open>preserveRidges)\<close> returns 0 or 1, and it returns 1 exactly when (1) the greatest of the
  four cosines that \<^verbatim>\<open>computeDotProduct\<close> computes in \<^verbatim>\<open>float\<close> at the corners \<open>a\<close> and \<open>b\<close>
  strictly exceeds the greatest of the four it computes at the corners \<open>c\<close> and \<open>d\<close>, and
  (2) \<^verbatim>\<open>preserveRidges\<close> is false or the \<^verbatim>\<open>float\<close> product of the two computed normals
  exceeds the \<^verbatim>\<open>double\<close> \<open>0.866\<close>. The greatest of four cosines is taken over those that are
  not NaN, and is \<open>-99999\<close> when none is left; it is unique.
\<close>

theorem checkFlipAction_spec:
  assumes "a < length vs" "b < length vs" "c < length vs" "d < length vs"
  shows "\<exists>present flipped.
           greatest present [computeDotProduct32 vs a b c, computeDotProduct32 vs a b d,
                             computeDotProduct32 vs b a c, computeDotProduct32 vs b a d]
         \<and> (\<forall>m. greatest m [computeDotProduct32 vs a b c, computeDotProduct32 vs a b d,
                              computeDotProduct32 vs b a c, computeDotProduct32 vs b a d]
                \<longrightarrow> m = present)
         \<and> greatest flipped [computeDotProduct32 vs c a d, computeDotProduct32 vs c b d,
                             computeDotProduct32 vs d a c, computeDotProduct32 vs d b c]
         \<and> (\<forall>m. greatest m [computeDotProduct32 vs c a d, computeDotProduct32 vs c b d,
                              computeDotProduct32 vs d a c, computeDotProduct32 vs d b c]
                \<longrightarrow> m = flipped)
         \<and> checkFlipAction vs a b c d preserveRidges =
             Inr (if fgreater present flipped
                     \<and> (\<not> preserveRidges
                        \<or> fgreater (dot32 (computeCrossProduct vs a c b)
                                           (computeCrossProduct vs a b d)) (rnd64 0.866))
                  then 1 else 0)"
proof -
  let ?xs = "[computeDotProduct32 vs a b c, computeDotProduct32 vs a b d,
              computeDotProduct32 vs b a c, computeDotProduct32 vs b a d]"
  let ?ys = "[computeDotProduct32 vs c a d, computeDotProduct32 vs c b d,
              computeDotProduct32 vs d a c, computeDotProduct32 vs d b c]"
  let ?present = "raise (computeDotProduct32 vs b a d) (raise (computeDotProduct32 vs b a c)
                   (raise (computeDotProduct32 vs a b d) (raise (computeDotProduct32 vs a b c)
                     (Finite (- 99999)))))"
  let ?flipped = "raise (computeDotProduct32 vs d b c) (raise (computeDotProduct32 vs d a c)
                   (raise (computeDotProduct32 vs c b d) (raise (computeDotProduct32 vs c a d)
                     (Finite (- 99999)))))"
  have p: "greatest ?present ?xs" and f: "greatest ?flipped ?ys"
    by (rule greatest4)+
  have "checkFlipAction vs a b c d preserveRidges =
          Inr (if fgreater ?present ?flipped
                  \<and> (\<not> preserveRidges
                     \<or> fgreater (dot32 (computeCrossProduct vs a c b)
                                        (computeCrossProduct vs a b d)) (rnd64 0.866))
               then 1 else 0)"
    using assms by (simp add: checkFlipAction_def Let_def)
  moreover have "\<forall>m. greatest m ?xs \<longrightarrow> m = ?present"
    using greatest_unique [OF _ p] by blast
  moreover have "\<forall>m. greatest m ?ys \<longrightarrow> m = ?flipped"
    using greatest_unique [OF _ f] by blast
  ultimately show ?thesis using p f by blast
qed

text \<open>The roundings met on the test configurations.\<close>

lemma literal1: "rnd64 (433 / 500) = Finite (7800234554605699 / 9007199254740992)"
  by (simp add: rnd64_def
        rnd_eval [where k = "- 1" and n = 7800234554605699 and q = "2 powi (- 53)"])

lemma foldedKite_length: "length foldedKite = 4"
  by (simp add: foldedKite_def)

lemma foldedKite_coord:
  "vx (foldedKite ! 0) = 0"
  "vy (foldedKite ! 0) = 0"
  "vz (foldedKite ! 0) = 0"
  "vx (foldedKite ! Suc 0) = 8"
  "vy (foldedKite ! Suc 0) = 0"
  "vz (foldedKite ! Suc 0) = 0"
  "vx (foldedKite ! 2) = 4"
  "vy (foldedKite ! 2) = 3"
  "vz (foldedKite ! 2) = 0"
  "vx (foldedKite ! 3) = 4"
  "vy (foldedKite ! 3) = 0"
  "vz (foldedKite ! 3) = 3"
  by (simp_all add: foldedKite_def)

lemma foldedKiteOp1: "sub32 (Finite 8) (Finite 0) = Finite 8"
  by (simp add: sub32_def fsub_def fadd_def fneg_def rnd32_def
        rnd_eval [where k = 3 and n = 8388608 and q = "2 powi (- 20)"])

lemma foldedKiteOp2: "sub32 (Finite 0) (Finite 0) = Finite 0"
  by (simp add: sub32_def fsub_def fadd_def fneg_def rnd32_def rnd_0)

lemma foldedKiteOp3: "mul32 (Finite 8) (Finite 8) = Finite 64"
  by (simp add: mul32_def fmul_def rnd32_def
        rnd_eval [where k = 6 and n = 8388608 and q = "2 powi (- 17)"])

lemma foldedKiteOp4: "mul32 (Finite 0) (Finite 0) = Finite 0"
  by (simp add: mul32_def fmul_def rnd32_def rnd_0)

lemma foldedKiteOp5: "add32 (Finite 64) (Finite 0) = Finite 64"
  by (simp add: add32_def fadd_def rnd32_def
        rnd_eval [where k = 6 and n = 8388608 and q = "2 powi (- 17)"])

lemma foldedKiteOp6: "sqrt32 (Finite 64) = Finite 8"
proof -
  have "sqrt 64 = 8"
    by (rule real_sqrt_unique) (simp_all add: power2_eq_square)
  then show ?thesis
    by (simp add: sqrt32_def fsqrt_def rnd32_def
          rnd_eval [where k = 3 and n = 8388608 and q = "2 powi (- 20)"])
qed

lemma foldedKiteOp7: "div32 (Finite 8) (Finite 8) = Finite 1"
  by (simp add: div32_def fdiv_def rnd32_def
        rnd_eval [where k = 0 and n = 8388608 and q = "2 powi (- 23)"])

lemma foldedKiteOp8: "div32 (Finite 0) (Finite 8) = Finite 0"
  by (simp add: div32_def fdiv_def rnd32_def rnd_0)

lemma foldedKiteOp9: "sub32 (Finite 4) (Finite 0) = Finite 4"
  by (simp add: sub32_def fsub_def fadd_def fneg_def rnd32_def
        rnd_eval [where k = 2 and n = 8388608 and q = "2 powi (- 21)"])

lemma foldedKiteOp10: "sub32 (Finite 3) (Finite 0) = Finite 3"
  by (simp add: sub32_def fsub_def fadd_def fneg_def rnd32_def
        rnd_eval [where k = 1 and n = 12582912 and q = "2 powi (- 22)"])

lemma foldedKiteOp11: "mul32 (Finite 4) (Finite 4) = Finite 16"
  by (simp add: mul32_def fmul_def rnd32_def
        rnd_eval [where k = 4 and n = 8388608 and q = "2 powi (- 19)"])

lemma foldedKiteOp12: "mul32 (Finite 3) (Finite 3) = Finite 9"
  by (simp add: mul32_def fmul_def rnd32_def
        rnd_eval [where k = 3 and n = 9437184 and q = "2 powi (- 20)"])

lemma foldedKiteOp13: "add32 (Finite 16) (Finite 9) = Finite 25"
  by (simp add: add32_def fadd_def rnd32_def
        rnd_eval [where k = 4 and n = 13107200 and q = "2 powi (- 19)"])

lemma foldedKiteOp14: "add32 (Finite 25) (Finite 0) = Finite 25"
  by (simp add: add32_def fadd_def rnd32_def
        rnd_eval [where k = 4 and n = 13107200 and q = "2 powi (- 19)"])

lemma foldedKiteOp15: "sqrt32 (Finite 25) = Finite 5"
proof -
  have "sqrt 25 = 5"
    by (rule real_sqrt_unique) (simp_all add: power2_eq_square)
  then show ?thesis
    by (simp add: sqrt32_def fsqrt_def rnd32_def
          rnd_eval [where k = 2 and n = 10485760 and q = "2 powi (- 21)"])
qed

lemma foldedKiteOp16: "div32 (Finite 4) (Finite 5) = Finite (13421773 / 16777216)"
  by (simp add: div32_def fdiv_def rnd32_def
        rnd_eval [where k = "- 1" and n = 13421773 and q = "2 powi (- 24)"])

lemma foldedKiteOp17: "div32 (Finite 3) (Finite 5) = Finite (5033165 / 8388608)"
  by (simp add: div32_def fdiv_def rnd32_def
        rnd_eval [where k = "- 1" and n = 10066330 and q = "2 powi (- 24)"])

lemma foldedKiteOp18: "div32 (Finite 0) (Finite 5) = Finite 0"
  by (simp add: div32_def fdiv_def rnd32_def rnd_0)

lemma foldedKiteOp19: "mul32 (Finite 1) (Finite (13421773 / 16777216)) = Finite (13421773 / 16777216)"
  by (simp add: mul32_def fmul_def rnd32_def
        rnd_eval [where k = "- 1" and n = 13421773 and q = "2 powi (- 24)"])

lemma foldedKiteOp20: "mul32 (Finite 0) (Finite (5033165 / 8388608)) = Finite 0"
  by (simp add: mul32_def fmul_def rnd32_def rnd_0)

lemma foldedKiteOp21: "add32 (Finite (13421773 / 16777216)) (Finite 0) = Finite (13421773 / 16777216)"
  by (simp add: add32_def fadd_def rnd32_def
        rnd_eval [where k = "- 1" and n = 13421773 and q = "2 powi (- 24)"])

lemma foldedKiteOp22: "add32 (Finite 16) (Finite 0) = Finite 16"
  by (simp add: add32_def fadd_def rnd32_def
        rnd_eval [where k = 4 and n = 8388608 and q = "2 powi (- 19)"])

lemma foldedKiteOp23: "sub32 (Finite 0) (Finite 8) = Finite (- 8)"
  by (simp add: sub32_def fsub_def fadd_def fneg_def rnd32_def
        rnd_eval [where k = 3 and n = "- 8388608" and q = "2 powi (- 20)"])

lemma foldedKiteOp24: "mul32 (Finite (- 8)) (Finite (- 8)) = Finite 64"
  by (simp add: mul32_def fmul_def rnd32_def
        rnd_eval [where k = 6 and n = 8388608 and q = "2 powi (- 17)"])

lemma foldedKiteOp25: "div32 (Finite (- 8)) (Finite 8) = Finite (- 1)"
  by (simp add: div32_def fdiv_def rnd32_def
        rnd_eval [where k = 0 and n = "- 8388608" and q = "2 powi (- 23)"])

lemma foldedKiteOp26: "sub32 (Finite 4) (Finite 8) = Finite (- 4)"
  by (simp add: sub32_def fsub_def fadd_def fneg_def rnd32_def
        rnd_eval [where k = 2 and n = "- 8388608" and q = "2 powi (- 21)"])

lemma foldedKiteOp27: "mul32 (Finite (- 4)) (Finite (- 4)) = Finite 16"
  by (simp add: mul32_def fmul_def rnd32_def
        rnd_eval [where k = 4 and n = 8388608 and q = "2 powi (- 19)"])

lemma foldedKiteOp28: "div32 (Finite (- 4)) (Finite 5) = Finite (- (13421773 / 16777216))"
  by (simp add: div32_def fdiv_def rnd32_def
        rnd_eval [where k = "- 1" and n = "- 13421773" and q = "2 powi (- 24)"])

lemma foldedKiteOp29: "mul32 (Finite (- 1)) (Finite (- (13421773 / 16777216))) = Finite (13421773 / 16777216)"
  by (simp add: mul32_def fmul_def rnd32_def
        rnd_eval [where k = "- 1" and n = 13421773 and q = "2 powi (- 24)"])

lemma foldedKiteOp30: "sub32 (Finite 0) (Finite 4) = Finite (- 4)"
  by (simp add: sub32_def fsub_def fadd_def fneg_def rnd32_def
        rnd_eval [where k = 2 and n = "- 8388608" and q = "2 powi (- 21)"])

lemma foldedKiteOp31: "sub32 (Finite 0) (Finite 3) = Finite (- 3)"
  by (simp add: sub32_def fsub_def fadd_def fneg_def rnd32_def
        rnd_eval [where k = 1 and n = "- 12582912" and q = "2 powi (- 22)"])

lemma foldedKiteOp32: "mul32 (Finite (- 3)) (Finite (- 3)) = Finite 9"
  by (simp add: mul32_def fmul_def rnd32_def
        rnd_eval [where k = 3 and n = 9437184 and q = "2 powi (- 20)"])

lemma foldedKiteOp33: "div32 (Finite (- 3)) (Finite 5) = Finite (- (5033165 / 8388608))"
  by (simp add: div32_def fdiv_def rnd32_def
        rnd_eval [where k = "- 1" and n = "- 10066330" and q = "2 powi (- 24)"])

lemma foldedKiteOp34: "sub32 (Finite 4) (Finite 4) = Finite 0"
  by (simp add: sub32_def fsub_def fadd_def fneg_def rnd32_def rnd_0)

lemma foldedKiteOp35: "add32 (Finite 0) (Finite 9) = Finite 9"
  by (simp add: add32_def fadd_def rnd32_def
        rnd_eval [where k = 3 and n = 9437184 and q = "2 powi (- 20)"])

lemma foldedKiteOp36: "add32 (Finite 9) (Finite 9) = Finite 18"
  by (simp add: add32_def fadd_def rnd32_def
        rnd_eval [where k = 4 and n = 9437184 and q = "2 powi (- 19)"])

lemma foldedKiteOp37: "sqrt32 (Finite 18) = Finite (4448731 / 1048576)"
  by (simp add: sqrt32_def fsqrt_def rnd32_def
        rnd_sqrt_eval [where k = 2 and n = 8897462 and q = "2 powi (- 21)"])

lemma foldedKiteOp38: "div32 (Finite 0) (Finite (4448731 / 1048576)) = Finite 0"
  by (simp add: div32_def fdiv_def rnd32_def rnd_0)

lemma foldedKiteOp39: "div32 (Finite (- 3)) (Finite (4448731 / 1048576)) = Finite (- (2965821 / 4194304))"
  by (simp add: div32_def fdiv_def rnd32_def
        rnd_eval [where k = "- 1" and n = "- 11863284" and q = "2 powi (- 24)"])

lemma foldedKiteOp40: "div32 (Finite 3) (Finite (4448731 / 1048576)) = Finite (2965821 / 4194304)"
  by (simp add: div32_def fdiv_def rnd32_def
        rnd_eval [where k = "- 1" and n = 11863284 and q = "2 powi (- 24)"])

lemma foldedKiteOp41: "mul32 (Finite (- (13421773 / 16777216))) (Finite 0) = Finite 0"
  by (simp add: mul32_def fmul_def rnd32_def rnd_0)

lemma foldedKiteOp42: "mul32 (Finite (- (5033165 / 8388608))) (Finite (- (2965821 / 4194304))) = Finite (14235941 / 33554432)"
  by (simp add: mul32_def fmul_def rnd32_def
        rnd_eval [where k = "- 2" and n = 14235941 and q = "2 powi (- 25)"])

lemma foldedKiteOp43: "add32 (Finite 0) (Finite (14235941 / 33554432)) = Finite (14235941 / 33554432)"
  by (simp add: add32_def fadd_def rnd32_def
        rnd_eval [where k = "- 2" and n = 14235941 and q = "2 powi (- 25)"])

lemma foldedKiteOp44: "mul32 (Finite 0) (Finite (2965821 / 4194304)) = Finite 0"
  by (simp add: mul32_def fmul_def rnd32_def rnd_0)

lemma foldedKiteOp45: "add32 (Finite (14235941 / 33554432)) (Finite 0) = Finite (14235941 / 33554432)"
  by (simp add: add32_def fadd_def rnd32_def
        rnd_eval [where k = "- 2" and n = 14235941 and q = "2 powi (- 25)"])

lemma foldedKiteOp46: "sub32 (Finite 8) (Finite 4) = Finite 4"
  by (simp add: sub32_def fsub_def fadd_def fneg_def rnd32_def
        rnd_eval [where k = 2 and n = 8388608 and q = "2 powi (- 21)"])

lemma foldedKiteOp47: "mul32 (Finite (13421773 / 16777216)) (Finite 0) = Finite 0"
  by (simp add: mul32_def fmul_def rnd32_def rnd_0)

lemma foldedKiteOp48: "add32 (Finite 0) (Finite 0) = Finite 0"
  by (simp add: add32_def fadd_def rnd32_def rnd_0)

lemma foldedKiteOp49: "sqrt64 (Finite 25) = Finite 5"
proof -
  have "sqrt 25 = 5"
    by (rule real_sqrt_unique) (simp_all add: power2_eq_square)
  then show ?thesis
    by (simp add: sqrt64_def fsqrt_def rnd64_def
          rnd_eval [where k = 2 and n = 5629499534213120 and q = "2 powi (- 50)"])
qed

lemma foldedKiteOp50: "toFloat (Finite 5) = Finite 5"
  by (simp add: toFloat_def rnd32_def
        rnd_eval [where k = 2 and n = 10485760 and q = "2 powi (- 21)"])

lemma foldedKiteOp51: "sqrt64 (Finite 64) = Finite 8"
proof -
  have "sqrt 64 = 8"
    by (rule real_sqrt_unique) (simp_all add: power2_eq_square)
  then show ?thesis
    by (simp add: sqrt64_def fsqrt_def rnd64_def
          rnd_eval [where k = 3 and n = 4503599627370496 and q = "2 powi (- 49)"])
qed

lemma foldedKiteOp52: "toFloat (Finite 8) = Finite 8"
  by (simp add: toFloat_def rnd32_def
        rnd_eval [where k = 3 and n = 8388608 and q = "2 powi (- 20)"])

lemma foldedKiteOp53: "mul32 (Finite 0) (Finite (13421773 / 16777216)) = Finite 0"
  by (simp add: mul32_def fmul_def rnd32_def rnd_0)

lemma foldedKiteOp54: "mul32 (Finite 1) (Finite 0) = Finite 0"
  by (simp add: mul32_def fmul_def rnd32_def rnd_0)

lemma foldedKiteOp55: "mul32 (Finite 1) (Finite (5033165 / 8388608)) = Finite (5033165 / 8388608)"
  by (simp add: mul32_def fmul_def rnd32_def
        rnd_eval [where k = "- 1" and n = 10066330 and q = "2 powi (- 24)"])

lemma foldedKiteOp56: "sub32 (Finite (5033165 / 8388608)) (Finite 0) = Finite (5033165 / 8388608)"
  by (simp add: sub32_def fsub_def fadd_def fneg_def rnd32_def
        rnd_eval [where k = "- 1" and n = 10066330 and q = "2 powi (- 24)"])

lemma foldedKiteOp57: "mul32 (Finite (5033165 / 8388608)) (Finite (5033165 / 8388608)) = Finite (3019899 / 8388608)"
  by (simp add: mul32_def fmul_def rnd32_def
        rnd_eval [where k = "- 2" and n = 12079596 and q = "2 powi (- 25)"])

lemma foldedKiteOp58: "add32 (Finite 0) (Finite (3019899 / 8388608)) = Finite (3019899 / 8388608)"
  by (simp add: add32_def fadd_def rnd32_def
        rnd_eval [where k = "- 2" and n = 12079596 and q = "2 powi (- 25)"])

lemma foldedKiteOp59: "sqrt64 (Finite (3019899 / 8388608)) = Finite (5404319660218777 / 9007199254740992)"
  by (simp add: sqrt64_def fsqrt_def rnd64_def
        rnd_sqrt_eval [where k = "- 1" and n = 5404319660218777 and q = "2 powi (- 53)"])

lemma foldedKiteOp60: "toFloat (Finite (5404319660218777 / 9007199254740992)) = Finite (5033165 / 8388608)"
  by (simp add: toFloat_def rnd32_def
        rnd_eval [where k = "- 1" and n = 10066330 and q = "2 powi (- 24)"])

lemma foldedKiteOp61: "div32 (Finite 0) (Finite (5033165 / 8388608)) = Finite 0"
  by (simp add: div32_def fdiv_def rnd32_def rnd_0)

lemma foldedKiteOp62: "div32 (Finite (5033165 / 8388608)) (Finite (5033165 / 8388608)) = Finite 1"
  by (simp add: div32_def fdiv_def rnd32_def
        rnd_eval [where k = 0 and n = 8388608 and q = "2 powi (- 23)"])

lemma foldedKiteOp63: "mul32 (Finite (5033165 / 8388608)) (Finite 0) = Finite 0"
  by (simp add: mul32_def fmul_def rnd32_def rnd_0)

lemma foldedKiteOp64: "mul32 (Finite (5033165 / 8388608)) (Finite 1) = Finite (5033165 / 8388608)"
  by (simp add: mul32_def fmul_def rnd32_def
        rnd_eval [where k = "- 1" and n = 10066330 and q = "2 powi (- 24)"])

lemma foldedKiteOp65: "mul32 (Finite 0) (Finite 1) = Finite 0"
  by (simp add: mul32_def fmul_def rnd32_def rnd_0)

lemma foldedKiteOp66: "add32 (Finite (3019899 / 8388608)) (Finite 0) = Finite (3019899 / 8388608)"
  by (simp add: add32_def fadd_def rnd32_def
        rnd_eval [where k = "- 2" and n = 12079596 and q = "2 powi (- 25)"])

lemmas foldedKiteEval = foldedKiteOp1 foldedKiteOp2 foldedKiteOp3 foldedKiteOp4 foldedKiteOp5
  foldedKiteOp6 foldedKiteOp7 foldedKiteOp8 foldedKiteOp9 foldedKiteOp10 foldedKiteOp11
  foldedKiteOp12 foldedKiteOp13 foldedKiteOp14 foldedKiteOp15 foldedKiteOp16 foldedKiteOp17
  foldedKiteOp18 foldedKiteOp19 foldedKiteOp20 foldedKiteOp21 foldedKiteOp22 foldedKiteOp23
  foldedKiteOp24 foldedKiteOp25 foldedKiteOp26 foldedKiteOp27 foldedKiteOp28 foldedKiteOp29
  foldedKiteOp30 foldedKiteOp31 foldedKiteOp32 foldedKiteOp33 foldedKiteOp34 foldedKiteOp35
  foldedKiteOp36 foldedKiteOp37 foldedKiteOp38 foldedKiteOp39 foldedKiteOp40 foldedKiteOp41
  foldedKiteOp42 foldedKiteOp43 foldedKiteOp44 foldedKiteOp45 foldedKiteOp46 foldedKiteOp47
  foldedKiteOp48 foldedKiteOp49 foldedKiteOp50 foldedKiteOp51 foldedKiteOp52 foldedKiteOp53
  foldedKiteOp54 foldedKiteOp55 foldedKiteOp56 foldedKiteOp57 foldedKiteOp58 foldedKiteOp59
  foldedKiteOp60 foldedKiteOp61 foldedKiteOp62 foldedKiteOp63 foldedKiteOp64 foldedKiteOp65
  foldedKiteOp66

lemma foldedKite_cosines:
  "computeDotProduct32 foldedKite 0 (Suc 0) 2 = Finite (13421773 / 16777216)"
  "computeDotProduct32 foldedKite 0 (Suc 0) 3 = Finite (13421773 / 16777216)"
  "computeDotProduct32 foldedKite (Suc 0) 0 2 = Finite (13421773 / 16777216)"
  "computeDotProduct32 foldedKite (Suc 0) 0 3 = Finite (13421773 / 16777216)"
  "computeDotProduct32 foldedKite 2 0 3 = Finite (14235941 / 33554432)"
  "computeDotProduct32 foldedKite 2 (Suc 0) 3 = Finite (14235941 / 33554432)"
  "computeDotProduct32 foldedKite 3 0 2 = Finite (14235941 / 33554432)"
  "computeDotProduct32 foldedKite 3 (Suc 0) 2 = Finite (14235941 / 33554432)"
  by (simp_all add: computeDotProduct32_def unit32_def arm32_def foldedKite_coord foldedKiteEval
        fgreater_def fless_def)

lemma foldedKite_normals:
  "computeCrossProduct foldedKite 0 2 (Suc 0) = (Finite 0, Finite 0, Finite 1)"
  "computeCrossProduct foldedKite 0 (Suc 0) 3 = (Finite 0, Finite 1, Finite 0)"
  by (simp_all add: computeCrossProduct_def unit32_def arm32_def sqrtC_def Let_def foldedKite_coord
        foldedKiteEval fgreater_def fless_def)

lemma foldedKite_dot:
  "dot32 (Finite 0, Finite 0, Finite 1) (Finite 0, Finite 1, Finite 0) = Finite 0"
  by (simp_all add: dot32_def foldedKiteEval)

lemma kite_length: "length kite = 4"
  by (simp add: kite_def)

lemma kite_coord:
  "vx (kite ! 0) = 0"
  "vy (kite ! 0) = 0"
  "vz (kite ! 0) = 0"
  "vx (kite ! Suc 0) = 8"
  "vy (kite ! Suc 0) = 0"
  "vz (kite ! Suc 0) = 0"
  "vx (kite ! 2) = 4"
  "vy (kite ! 2) = 3"
  "vz (kite ! 2) = 0"
  "vx (kite ! 3) = 4"
  "vy (kite ! 3) = - 3"
  "vz (kite ! 3) = 0"
  by (simp_all add: kite_def)

lemma kiteOp1: "sub32 (Finite 8) (Finite 0) = Finite 8"
  by (simp add: sub32_def fsub_def fadd_def fneg_def rnd32_def
        rnd_eval [where k = 3 and n = 8388608 and q = "2 powi (- 20)"])

lemma kiteOp2: "sub32 (Finite 0) (Finite 0) = Finite 0"
  by (simp add: sub32_def fsub_def fadd_def fneg_def rnd32_def rnd_0)

lemma kiteOp3: "mul32 (Finite 8) (Finite 8) = Finite 64"
  by (simp add: mul32_def fmul_def rnd32_def
        rnd_eval [where k = 6 and n = 8388608 and q = "2 powi (- 17)"])

lemma kiteOp4: "mul32 (Finite 0) (Finite 0) = Finite 0"
  by (simp add: mul32_def fmul_def rnd32_def rnd_0)

lemma kiteOp5: "add32 (Finite 64) (Finite 0) = Finite 64"
  by (simp add: add32_def fadd_def rnd32_def
        rnd_eval [where k = 6 and n = 8388608 and q = "2 powi (- 17)"])

lemma kiteOp6: "sqrt32 (Finite 64) = Finite 8"
proof -
  have "sqrt 64 = 8"
    by (rule real_sqrt_unique) (simp_all add: power2_eq_square)
  then show ?thesis
    by (simp add: sqrt32_def fsqrt_def rnd32_def
          rnd_eval [where k = 3 and n = 8388608 and q = "2 powi (- 20)"])
qed

lemma kiteOp7: "div32 (Finite 8) (Finite 8) = Finite 1"
  by (simp add: div32_def fdiv_def rnd32_def
        rnd_eval [where k = 0 and n = 8388608 and q = "2 powi (- 23)"])

lemma kiteOp8: "div32 (Finite 0) (Finite 8) = Finite 0"
  by (simp add: div32_def fdiv_def rnd32_def rnd_0)

lemma kiteOp9: "sub32 (Finite 4) (Finite 0) = Finite 4"
  by (simp add: sub32_def fsub_def fadd_def fneg_def rnd32_def
        rnd_eval [where k = 2 and n = 8388608 and q = "2 powi (- 21)"])

lemma kiteOp10: "sub32 (Finite 3) (Finite 0) = Finite 3"
  by (simp add: sub32_def fsub_def fadd_def fneg_def rnd32_def
        rnd_eval [where k = 1 and n = 12582912 and q = "2 powi (- 22)"])

lemma kiteOp11: "mul32 (Finite 4) (Finite 4) = Finite 16"
  by (simp add: mul32_def fmul_def rnd32_def
        rnd_eval [where k = 4 and n = 8388608 and q = "2 powi (- 19)"])

lemma kiteOp12: "mul32 (Finite 3) (Finite 3) = Finite 9"
  by (simp add: mul32_def fmul_def rnd32_def
        rnd_eval [where k = 3 and n = 9437184 and q = "2 powi (- 20)"])

lemma kiteOp13: "add32 (Finite 16) (Finite 9) = Finite 25"
  by (simp add: add32_def fadd_def rnd32_def
        rnd_eval [where k = 4 and n = 13107200 and q = "2 powi (- 19)"])

lemma kiteOp14: "add32 (Finite 25) (Finite 0) = Finite 25"
  by (simp add: add32_def fadd_def rnd32_def
        rnd_eval [where k = 4 and n = 13107200 and q = "2 powi (- 19)"])

lemma kiteOp15: "sqrt32 (Finite 25) = Finite 5"
proof -
  have "sqrt 25 = 5"
    by (rule real_sqrt_unique) (simp_all add: power2_eq_square)
  then show ?thesis
    by (simp add: sqrt32_def fsqrt_def rnd32_def
          rnd_eval [where k = 2 and n = 10485760 and q = "2 powi (- 21)"])
qed

lemma kiteOp16: "div32 (Finite 4) (Finite 5) = Finite (13421773 / 16777216)"
  by (simp add: div32_def fdiv_def rnd32_def
        rnd_eval [where k = "- 1" and n = 13421773 and q = "2 powi (- 24)"])

lemma kiteOp17: "div32 (Finite 3) (Finite 5) = Finite (5033165 / 8388608)"
  by (simp add: div32_def fdiv_def rnd32_def
        rnd_eval [where k = "- 1" and n = 10066330 and q = "2 powi (- 24)"])

lemma kiteOp18: "div32 (Finite 0) (Finite 5) = Finite 0"
  by (simp add: div32_def fdiv_def rnd32_def rnd_0)

lemma kiteOp19: "mul32 (Finite 1) (Finite (13421773 / 16777216)) = Finite (13421773 / 16777216)"
  by (simp add: mul32_def fmul_def rnd32_def
        rnd_eval [where k = "- 1" and n = 13421773 and q = "2 powi (- 24)"])

lemma kiteOp20: "mul32 (Finite 0) (Finite (5033165 / 8388608)) = Finite 0"
  by (simp add: mul32_def fmul_def rnd32_def rnd_0)

lemma kiteOp21: "add32 (Finite (13421773 / 16777216)) (Finite 0) = Finite (13421773 / 16777216)"
  by (simp add: add32_def fadd_def rnd32_def
        rnd_eval [where k = "- 1" and n = 13421773 and q = "2 powi (- 24)"])

lemma kiteOp22: "sub32 (Finite (- 3)) (Finite 0) = Finite (- 3)"
  by (simp add: sub32_def fsub_def fadd_def fneg_def rnd32_def
        rnd_eval [where k = 1 and n = "- 12582912" and q = "2 powi (- 22)"])

lemma kiteOp23: "mul32 (Finite (- 3)) (Finite (- 3)) = Finite 9"
  by (simp add: mul32_def fmul_def rnd32_def
        rnd_eval [where k = 3 and n = 9437184 and q = "2 powi (- 20)"])

lemma kiteOp24: "div32 (Finite (- 3)) (Finite 5) = Finite (- (5033165 / 8388608))"
  by (simp add: div32_def fdiv_def rnd32_def
        rnd_eval [where k = "- 1" and n = "- 10066330" and q = "2 powi (- 24)"])

lemma kiteOp25: "mul32 (Finite 0) (Finite (- (5033165 / 8388608))) = Finite 0"
  by (simp add: mul32_def fmul_def rnd32_def rnd_0)

lemma kiteOp26: "sub32 (Finite 0) (Finite 8) = Finite (- 8)"
  by (simp add: sub32_def fsub_def fadd_def fneg_def rnd32_def
        rnd_eval [where k = 3 and n = "- 8388608" and q = "2 powi (- 20)"])

lemma kiteOp27: "mul32 (Finite (- 8)) (Finite (- 8)) = Finite 64"
  by (simp add: mul32_def fmul_def rnd32_def
        rnd_eval [where k = 6 and n = 8388608 and q = "2 powi (- 17)"])

lemma kiteOp28: "div32 (Finite (- 8)) (Finite 8) = Finite (- 1)"
  by (simp add: div32_def fdiv_def rnd32_def
        rnd_eval [where k = 0 and n = "- 8388608" and q = "2 powi (- 23)"])

lemma kiteOp29: "sub32 (Finite 4) (Finite 8) = Finite (- 4)"
  by (simp add: sub32_def fsub_def fadd_def fneg_def rnd32_def
        rnd_eval [where k = 2 and n = "- 8388608" and q = "2 powi (- 21)"])

lemma kiteOp30: "mul32 (Finite (- 4)) (Finite (- 4)) = Finite 16"
  by (simp add: mul32_def fmul_def rnd32_def
        rnd_eval [where k = 4 and n = 8388608 and q = "2 powi (- 19)"])

lemma kiteOp31: "div32 (Finite (- 4)) (Finite 5) = Finite (- (13421773 / 16777216))"
  by (simp add: div32_def fdiv_def rnd32_def
        rnd_eval [where k = "- 1" and n = "- 13421773" and q = "2 powi (- 24)"])

lemma kiteOp32: "mul32 (Finite (- 1)) (Finite (- (13421773 / 16777216))) = Finite (13421773 / 16777216)"
  by (simp add: mul32_def fmul_def rnd32_def
        rnd_eval [where k = "- 1" and n = 13421773 and q = "2 powi (- 24)"])

lemma kiteOp33: "sub32 (Finite 0) (Finite 4) = Finite (- 4)"
  by (simp add: sub32_def fsub_def fadd_def fneg_def rnd32_def
        rnd_eval [where k = 2 and n = "- 8388608" and q = "2 powi (- 21)"])

lemma kiteOp34: "sub32 (Finite 0) (Finite 3) = Finite (- 3)"
  by (simp add: sub32_def fsub_def fadd_def fneg_def rnd32_def
        rnd_eval [where k = 1 and n = "- 12582912" and q = "2 powi (- 22)"])

lemma kiteOp35: "sub32 (Finite 4) (Finite 4) = Finite 0"
  by (simp add: sub32_def fsub_def fadd_def fneg_def rnd32_def rnd_0)

lemma kiteOp36: "sub32 (Finite (- 3)) (Finite 3) = Finite (- 6)"
  by (simp add: sub32_def fsub_def fadd_def fneg_def rnd32_def
        rnd_eval [where k = 2 and n = "- 12582912" and q = "2 powi (- 21)"])

lemma kiteOp37: "mul32 (Finite (- 6)) (Finite (- 6)) = Finite 36"
  by (simp add: mul32_def fmul_def rnd32_def
        rnd_eval [where k = 5 and n = 9437184 and q = "2 powi (- 18)"])

lemma kiteOp38: "add32 (Finite 0) (Finite 36) = Finite 36"
  by (simp add: add32_def fadd_def rnd32_def
        rnd_eval [where k = 5 and n = 9437184 and q = "2 powi (- 18)"])

lemma kiteOp39: "add32 (Finite 36) (Finite 0) = Finite 36"
  by (simp add: add32_def fadd_def rnd32_def
        rnd_eval [where k = 5 and n = 9437184 and q = "2 powi (- 18)"])

lemma kiteOp40: "sqrt32 (Finite 36) = Finite 6"
proof -
  have "sqrt 36 = 6"
    by (rule real_sqrt_unique) (simp_all add: power2_eq_square)
  then show ?thesis
    by (simp add: sqrt32_def fsqrt_def rnd32_def
          rnd_eval [where k = 2 and n = 12582912 and q = "2 powi (- 21)"])
qed

lemma kiteOp41: "div32 (Finite 0) (Finite 6) = Finite 0"
  by (simp add: div32_def fdiv_def rnd32_def rnd_0)

lemma kiteOp42: "div32 (Finite (- 6)) (Finite 6) = Finite (- 1)"
  by (simp add: div32_def fdiv_def rnd32_def
        rnd_eval [where k = 0 and n = "- 8388608" and q = "2 powi (- 23)"])

lemma kiteOp43: "mul32 (Finite (- (13421773 / 16777216))) (Finite 0) = Finite 0"
  by (simp add: mul32_def fmul_def rnd32_def rnd_0)

lemma kiteOp44: "mul32 (Finite (- (5033165 / 8388608))) (Finite (- 1)) = Finite (5033165 / 8388608)"
  by (simp add: mul32_def fmul_def rnd32_def
        rnd_eval [where k = "- 1" and n = 10066330 and q = "2 powi (- 24)"])

lemma kiteOp45: "add32 (Finite 0) (Finite (5033165 / 8388608)) = Finite (5033165 / 8388608)"
  by (simp add: add32_def fadd_def rnd32_def
        rnd_eval [where k = "- 1" and n = 10066330 and q = "2 powi (- 24)"])

lemma kiteOp46: "add32 (Finite (5033165 / 8388608)) (Finite 0) = Finite (5033165 / 8388608)"
  by (simp add: add32_def fadd_def rnd32_def
        rnd_eval [where k = "- 1" and n = 10066330 and q = "2 powi (- 24)"])

lemma kiteOp47: "sub32 (Finite 8) (Finite 4) = Finite 4"
  by (simp add: sub32_def fsub_def fadd_def fneg_def rnd32_def
        rnd_eval [where k = 2 and n = 8388608 and q = "2 powi (- 21)"])

lemma kiteOp48: "mul32 (Finite (13421773 / 16777216)) (Finite 0) = Finite 0"
  by (simp add: mul32_def fmul_def rnd32_def rnd_0)

lemma kiteOp49: "sub32 (Finite 0) (Finite (- 3)) = Finite 3"
  by (simp add: sub32_def fsub_def fadd_def fneg_def rnd32_def
        rnd_eval [where k = 1 and n = 12582912 and q = "2 powi (- 22)"])

lemma kiteOp50: "sub32 (Finite 3) (Finite (- 3)) = Finite 6"
  by (simp add: sub32_def fsub_def fadd_def fneg_def rnd32_def
        rnd_eval [where k = 2 and n = 12582912 and q = "2 powi (- 21)"])

lemma kiteOp51: "mul32 (Finite 6) (Finite 6) = Finite 36"
  by (simp add: mul32_def fmul_def rnd32_def
        rnd_eval [where k = 5 and n = 9437184 and q = "2 powi (- 18)"])

lemma kiteOp52: "div32 (Finite 6) (Finite 6) = Finite 1"
  by (simp add: div32_def fdiv_def rnd32_def
        rnd_eval [where k = 0 and n = 8388608 and q = "2 powi (- 23)"])

lemma kiteOp53: "mul32 (Finite (5033165 / 8388608)) (Finite 1) = Finite (5033165 / 8388608)"
  by (simp add: mul32_def fmul_def rnd32_def
        rnd_eval [where k = "- 1" and n = 10066330 and q = "2 powi (- 24)"])

lemma kiteOp54: "sqrt64 (Finite 25) = Finite 5"
proof -
  have "sqrt 25 = 5"
    by (rule real_sqrt_unique) (simp_all add: power2_eq_square)
  then show ?thesis
    by (simp add: sqrt64_def fsqrt_def rnd64_def
          rnd_eval [where k = 2 and n = 5629499534213120 and q = "2 powi (- 50)"])
qed

lemma kiteOp55: "toFloat (Finite 5) = Finite 5"
  by (simp add: toFloat_def rnd32_def
        rnd_eval [where k = 2 and n = 10485760 and q = "2 powi (- 21)"])

lemma kiteOp56: "sqrt64 (Finite 64) = Finite 8"
proof -
  have "sqrt 64 = 8"
    by (rule real_sqrt_unique) (simp_all add: power2_eq_square)
  then show ?thesis
    by (simp add: sqrt64_def fsqrt_def rnd64_def
          rnd_eval [where k = 3 and n = 4503599627370496 and q = "2 powi (- 49)"])
qed

lemma kiteOp57: "toFloat (Finite 8) = Finite 8"
  by (simp add: toFloat_def rnd32_def
        rnd_eval [where k = 3 and n = 8388608 and q = "2 powi (- 20)"])

lemma kiteOp58: "mul32 (Finite 0) (Finite (13421773 / 16777216)) = Finite 0"
  by (simp add: mul32_def fmul_def rnd32_def rnd_0)

lemma kiteOp59: "mul32 (Finite 1) (Finite 0) = Finite 0"
  by (simp add: mul32_def fmul_def rnd32_def rnd_0)

lemma kiteOp60: "mul32 (Finite 1) (Finite (5033165 / 8388608)) = Finite (5033165 / 8388608)"
  by (simp add: mul32_def fmul_def rnd32_def
        rnd_eval [where k = "- 1" and n = 10066330 and q = "2 powi (- 24)"])

lemma kiteOp61: "sub32 (Finite (5033165 / 8388608)) (Finite 0) = Finite (5033165 / 8388608)"
  by (simp add: sub32_def fsub_def fadd_def fneg_def rnd32_def
        rnd_eval [where k = "- 1" and n = 10066330 and q = "2 powi (- 24)"])

lemma kiteOp62: "add32 (Finite 0) (Finite 0) = Finite 0"
  by (simp add: add32_def fadd_def rnd32_def rnd_0)

lemma kiteOp63: "mul32 (Finite (5033165 / 8388608)) (Finite (5033165 / 8388608)) = Finite (3019899 / 8388608)"
  by (simp add: mul32_def fmul_def rnd32_def
        rnd_eval [where k = "- 2" and n = 12079596 and q = "2 powi (- 25)"])

lemma kiteOp64: "add32 (Finite 0) (Finite (3019899 / 8388608)) = Finite (3019899 / 8388608)"
  by (simp add: add32_def fadd_def rnd32_def
        rnd_eval [where k = "- 2" and n = 12079596 and q = "2 powi (- 25)"])

lemma kiteOp65: "sqrt64 (Finite (3019899 / 8388608)) = Finite (5404319660218777 / 9007199254740992)"
  by (simp add: sqrt64_def fsqrt_def rnd64_def
        rnd_sqrt_eval [where k = "- 1" and n = 5404319660218777 and q = "2 powi (- 53)"])

lemma kiteOp66: "toFloat (Finite (5404319660218777 / 9007199254740992)) = Finite (5033165 / 8388608)"
  by (simp add: toFloat_def rnd32_def
        rnd_eval [where k = "- 1" and n = 10066330 and q = "2 powi (- 24)"])

lemma kiteOp67: "div32 (Finite 0) (Finite (5033165 / 8388608)) = Finite 0"
  by (simp add: div32_def fdiv_def rnd32_def rnd_0)

lemma kiteOp68: "div32 (Finite (5033165 / 8388608)) (Finite (5033165 / 8388608)) = Finite 1"
  by (simp add: div32_def fdiv_def rnd32_def
        rnd_eval [where k = 0 and n = 8388608 and q = "2 powi (- 23)"])

lemma kiteOp69: "mul32 (Finite (- (5033165 / 8388608))) (Finite 0) = Finite 0"
  by (simp add: mul32_def fmul_def rnd32_def rnd_0)

lemma kiteOp70: "mul32 (Finite 0) (Finite 1) = Finite 0"
  by (simp add: mul32_def fmul_def rnd32_def rnd_0)

lemma kiteOp71: "mul32 (Finite (- (5033165 / 8388608))) (Finite 1) = Finite (- (5033165 / 8388608))"
  by (simp add: mul32_def fmul_def rnd32_def
        rnd_eval [where k = "- 1" and n = "- 10066330" and q = "2 powi (- 24)"])

lemma kiteOp72: "sub32 (Finite 0) (Finite (- (5033165 / 8388608))) = Finite (5033165 / 8388608)"
  by (simp add: sub32_def fsub_def fadd_def fneg_def rnd32_def
        rnd_eval [where k = "- 1" and n = 10066330 and q = "2 powi (- 24)"])

lemma kiteOp73: "mul32 (Finite 1) (Finite 1) = Finite 1"
  by (simp add: mul32_def fmul_def rnd32_def
        rnd_eval [where k = 0 and n = 8388608 and q = "2 powi (- 23)"])

lemma kiteOp74: "add32 (Finite 0) (Finite 1) = Finite 1"
  by (simp add: add32_def fadd_def rnd32_def
        rnd_eval [where k = 0 and n = 8388608 and q = "2 powi (- 23)"])

lemma kiteOp75: "mul32 (Finite 0) (Finite (- (13421773 / 16777216))) = Finite 0"
  by (simp add: mul32_def fmul_def rnd32_def rnd_0)

lemma kiteOp76: "mul32 (Finite (- 1)) (Finite (- (5033165 / 8388608))) = Finite (5033165 / 8388608)"
  by (simp add: mul32_def fmul_def rnd32_def
        rnd_eval [where k = "- 1" and n = 10066330 and q = "2 powi (- 24)"])

lemma kiteOp77: "mul32 (Finite (13421773 / 16777216)) (Finite 1) = Finite (13421773 / 16777216)"
  by (simp add: mul32_def fmul_def rnd32_def
        rnd_eval [where k = "- 1" and n = 13421773 and q = "2 powi (- 24)"])

lemma kiteOp78: "mul32 (Finite (5033165 / 8388608)) (Finite 0) = Finite 0"
  by (simp add: mul32_def fmul_def rnd32_def rnd_0)

lemma kiteOp79: "mul32 (Finite (- (13421773 / 16777216))) (Finite (- 1)) = Finite (13421773 / 16777216)"
  by (simp add: mul32_def fmul_def rnd32_def
        rnd_eval [where k = "- 1" and n = 13421773 and q = "2 powi (- 24)"])

lemmas kiteEval = kiteOp1 kiteOp2 kiteOp3 kiteOp4 kiteOp5 kiteOp6 kiteOp7 kiteOp8 kiteOp9
  kiteOp10 kiteOp11 kiteOp12 kiteOp13 kiteOp14 kiteOp15 kiteOp16 kiteOp17 kiteOp18 kiteOp19
  kiteOp20 kiteOp21 kiteOp22 kiteOp23 kiteOp24 kiteOp25 kiteOp26 kiteOp27 kiteOp28 kiteOp29
  kiteOp30 kiteOp31 kiteOp32 kiteOp33 kiteOp34 kiteOp35 kiteOp36 kiteOp37 kiteOp38 kiteOp39
  kiteOp40 kiteOp41 kiteOp42 kiteOp43 kiteOp44 kiteOp45 kiteOp46 kiteOp47 kiteOp48 kiteOp49
  kiteOp50 kiteOp51 kiteOp52 kiteOp53 kiteOp54 kiteOp55 kiteOp56 kiteOp57 kiteOp58 kiteOp59
  kiteOp60 kiteOp61 kiteOp62 kiteOp63 kiteOp64 kiteOp65 kiteOp66 kiteOp67 kiteOp68 kiteOp69
  kiteOp70 kiteOp71 kiteOp72 kiteOp73 kiteOp74 kiteOp75 kiteOp76 kiteOp77 kiteOp78 kiteOp79

lemma kite_cosines:
  "computeDotProduct32 kite 0 (Suc 0) 2 = Finite (13421773 / 16777216)"
  "computeDotProduct32 kite 0 (Suc 0) 3 = Finite (13421773 / 16777216)"
  "computeDotProduct32 kite (Suc 0) 0 2 = Finite (13421773 / 16777216)"
  "computeDotProduct32 kite (Suc 0) 0 3 = Finite (13421773 / 16777216)"
  "computeDotProduct32 kite 2 0 3 = Finite (5033165 / 8388608)"
  "computeDotProduct32 kite 2 (Suc 0) 3 = Finite (5033165 / 8388608)"
  "computeDotProduct32 kite 3 0 2 = Finite (5033165 / 8388608)"
  "computeDotProduct32 kite 3 (Suc 0) 2 = Finite (5033165 / 8388608)"
  "computeDotProduct32 kite 2 3 0 = Finite (5033165 / 8388608)"
  "computeDotProduct32 kite 2 3 (Suc 0) = Finite (5033165 / 8388608)"
  "computeDotProduct32 kite 3 2 0 = Finite (5033165 / 8388608)"
  "computeDotProduct32 kite 3 2 (Suc 0) = Finite (5033165 / 8388608)"
  "computeDotProduct32 kite 0 2 (Suc 0) = Finite (13421773 / 16777216)"
  "computeDotProduct32 kite 0 3 (Suc 0) = Finite (13421773 / 16777216)"
  "computeDotProduct32 kite (Suc 0) 2 0 = Finite (13421773 / 16777216)"
  "computeDotProduct32 kite (Suc 0) 3 0 = Finite (13421773 / 16777216)"
  by (simp_all add: computeDotProduct32_def unit32_def arm32_def kite_coord kiteEval
        fgreater_def fless_def)

lemma kite_normals:
  "computeCrossProduct kite 0 2 (Suc 0) = (Finite 0, Finite 0, Finite 1)"
  "computeCrossProduct kite 0 (Suc 0) 3 = (Finite 0, Finite 0, Finite 1)"
  by (simp_all add: computeCrossProduct_def unit32_def arm32_def sqrtC_def Let_def kite_coord
        kiteEval fgreater_def fless_def)

lemma kite_dot:
  "dot32 (Finite 0, Finite 0, Finite 1) (Finite 0, Finite 0, Finite 1) = Finite 1"
  by (simp_all add: dot32_def kiteEval)

lemma rectangle_length: "length rectangle = 4"
  by (simp add: rectangle_def)

lemma rectangle_coord:
  "vx (rectangle ! 0) = 0"
  "vy (rectangle ! 0) = 0"
  "vz (rectangle ! 0) = 0"
  "vx (rectangle ! Suc 0) = - 5"
  "vy (rectangle ! Suc 0) = 10"
  "vz (rectangle ! Suc 0) = 0"
  "vx (rectangle ! 2) = 3"
  "vy (rectangle ! 2) = 4"
  "vz (rectangle ! 2) = 0"
  "vx (rectangle ! 3) = - 8"
  "vy (rectangle ! 3) = 6"
  "vz (rectangle ! 3) = 0"
  by (simp_all add: rectangle_def)

lemma rectangleOp1: "sub32 (Finite (- 8)) (Finite 3) = Finite (- 11)"
  by (simp add: sub32_def fsub_def fadd_def fneg_def rnd32_def
        rnd_eval [where k = 3 and n = "- 11534336" and q = "2 powi (- 20)"])

lemma rectangleOp2: "sub32 (Finite 6) (Finite 4) = Finite 2"
  by (simp add: sub32_def fsub_def fadd_def fneg_def rnd32_def
        rnd_eval [where k = 1 and n = 8388608 and q = "2 powi (- 22)"])

lemma rectangleOp3: "sub32 (Finite 0) (Finite 0) = Finite 0"
  by (simp add: sub32_def fsub_def fadd_def fneg_def rnd32_def rnd_0)

lemma rectangleOp4: "mul32 (Finite (- 11)) (Finite (- 11)) = Finite 121"
  by (simp add: mul32_def fmul_def rnd32_def
        rnd_eval [where k = 6 and n = 15859712 and q = "2 powi (- 17)"])

lemma rectangleOp5: "mul32 (Finite 2) (Finite 2) = Finite 4"
  by (simp add: mul32_def fmul_def rnd32_def
        rnd_eval [where k = 2 and n = 8388608 and q = "2 powi (- 21)"])

lemma rectangleOp6: "add32 (Finite 121) (Finite 4) = Finite 125"
  by (simp add: add32_def fadd_def rnd32_def
        rnd_eval [where k = 6 and n = 16384000 and q = "2 powi (- 17)"])

lemma rectangleOp7: "mul32 (Finite 0) (Finite 0) = Finite 0"
  by (simp add: mul32_def fmul_def rnd32_def rnd_0)

lemma rectangleOp8: "add32 (Finite 125) (Finite 0) = Finite 125"
  by (simp add: add32_def fadd_def rnd32_def
        rnd_eval [where k = 6 and n = 16384000 and q = "2 powi (- 17)"])

lemma rectangleOp9: "sqrt32 (Finite 125) = Finite (2930859 / 262144)"
  by (simp add: sqrt32_def fsqrt_def rnd32_def
        rnd_sqrt_eval [where k = 3 and n = 11723436 and q = "2 powi (- 20)"])

lemma rectangleOp10: "div32 (Finite (- 11)) (Finite (2930859 / 262144)) = Finite (- (8253299 / 8388608))"
  by (simp add: div32_def fdiv_def rnd32_def
        rnd_eval [where k = "- 1" and n = "- 16506598" and q = "2 powi (- 24)"])

lemma rectangleOp11: "div32 (Finite 2) (Finite (2930859 / 262144)) = Finite (12004799 / 67108864)"
  by (simp add: div32_def fdiv_def rnd32_def
        rnd_eval [where k = "- 3" and n = 12004799 and q = "2 powi (- 26)"])

lemma rectangleOp12: "div32 (Finite 0) (Finite (2930859 / 262144)) = Finite 0"
  by (simp add: div32_def fdiv_def rnd32_def rnd_0)

lemma rectangleOp13: "sub32 (Finite 0) (Finite 3) = Finite (- 3)"
  by (simp add: sub32_def fsub_def fadd_def fneg_def rnd32_def
        rnd_eval [where k = 1 and n = "- 12582912" and q = "2 powi (- 22)"])

lemma rectangleOp14: "sub32 (Finite 0) (Finite 4) = Finite (- 4)"
  by (simp add: sub32_def fsub_def fadd_def fneg_def rnd32_def
        rnd_eval [where k = 2 and n = "- 8388608" and q = "2 powi (- 21)"])

lemma rectangleOp15: "mul32 (Finite (- 3)) (Finite (- 3)) = Finite 9"
  by (simp add: mul32_def fmul_def rnd32_def
        rnd_eval [where k = 3 and n = 9437184 and q = "2 powi (- 20)"])

lemma rectangleOp16: "mul32 (Finite (- 4)) (Finite (- 4)) = Finite 16"
  by (simp add: mul32_def fmul_def rnd32_def
        rnd_eval [where k = 4 and n = 8388608 and q = "2 powi (- 19)"])

lemma rectangleOp17: "add32 (Finite 9) (Finite 16) = Finite 25"
  by (simp add: add32_def fadd_def rnd32_def
        rnd_eval [where k = 4 and n = 13107200 and q = "2 powi (- 19)"])

lemma rectangleOp18: "add32 (Finite 25) (Finite 0) = Finite 25"
  by (simp add: add32_def fadd_def rnd32_def
        rnd_eval [where k = 4 and n = 13107200 and q = "2 powi (- 19)"])

lemma rectangleOp19: "sqrt32 (Finite 25) = Finite 5"
proof -
  have "sqrt 25 = 5"
    by (rule real_sqrt_unique) (simp_all add: power2_eq_square)
  then show ?thesis
    by (simp add: sqrt32_def fsqrt_def rnd32_def
          rnd_eval [where k = 2 and n = 10485760 and q = "2 powi (- 21)"])
qed

lemma rectangleOp20: "div32 (Finite (- 3)) (Finite 5) = Finite (- (5033165 / 8388608))"
  by (simp add: div32_def fdiv_def rnd32_def
        rnd_eval [where k = "- 1" and n = "- 10066330" and q = "2 powi (- 24)"])

lemma rectangleOp21: "div32 (Finite (- 4)) (Finite 5) = Finite (- (13421773 / 16777216))"
  by (simp add: div32_def fdiv_def rnd32_def
        rnd_eval [where k = "- 1" and n = "- 13421773" and q = "2 powi (- 24)"])

lemma rectangleOp22: "div32 (Finite 0) (Finite 5) = Finite 0"
  by (simp add: div32_def fdiv_def rnd32_def rnd_0)

lemma rectangleOp23: "mul32 (Finite (- (8253299 / 8388608))) (Finite (- (5033165 / 8388608))) = Finite (9903959 / 16777216)"
  by (simp add: mul32_def fmul_def rnd32_def
        rnd_eval [where k = "- 1" and n = 9903959 and q = "2 powi (- 24)"])

lemma rectangleOp24: "mul32 (Finite (12004799 / 67108864)) (Finite (- (13421773 / 16777216))) = Finite (- (9603839 / 67108864))"
  by (simp add: mul32_def fmul_def rnd32_def
        rnd_eval [where k = "- 3" and n = "- 9603839" and q = "2 powi (- 26)"])

lemma rectangleOp25: "add32 (Finite (9903959 / 16777216)) (Finite (- (9603839 / 67108864))) = Finite (7502999 / 16777216)"
  by (simp add: add32_def fadd_def rnd32_def
        rnd_eval [where k = "- 2" and n = 15005998 and q = "2 powi (- 25)"])

lemma rectangleOp26: "add32 (Finite (7502999 / 16777216)) (Finite 0) = Finite (7502999 / 16777216)"
  by (simp add: add32_def fadd_def rnd32_def
        rnd_eval [where k = "- 2" and n = 15005998 and q = "2 powi (- 25)"])

lemma rectangleOp27: "sub32 (Finite (- 5)) (Finite 3) = Finite (- 8)"
  by (simp add: sub32_def fsub_def fadd_def fneg_def rnd32_def
        rnd_eval [where k = 3 and n = "- 8388608" and q = "2 powi (- 20)"])

lemma rectangleOp28: "sub32 (Finite 10) (Finite 4) = Finite 6"
  by (simp add: sub32_def fsub_def fadd_def fneg_def rnd32_def
        rnd_eval [where k = 2 and n = 12582912 and q = "2 powi (- 21)"])

lemma rectangleOp29: "mul32 (Finite (- 8)) (Finite (- 8)) = Finite 64"
  by (simp add: mul32_def fmul_def rnd32_def
        rnd_eval [where k = 6 and n = 8388608 and q = "2 powi (- 17)"])

lemma rectangleOp30: "mul32 (Finite 6) (Finite 6) = Finite 36"
  by (simp add: mul32_def fmul_def rnd32_def
        rnd_eval [where k = 5 and n = 9437184 and q = "2 powi (- 18)"])

lemma rectangleOp31: "add32 (Finite 64) (Finite 36) = Finite 100"
  by (simp add: add32_def fadd_def rnd32_def
        rnd_eval [where k = 6 and n = 13107200 and q = "2 powi (- 17)"])

lemma rectangleOp32: "add32 (Finite 100) (Finite 0) = Finite 100"
  by (simp add: add32_def fadd_def rnd32_def
        rnd_eval [where k = 6 and n = 13107200 and q = "2 powi (- 17)"])

lemma rectangleOp33: "sqrt32 (Finite 100) = Finite 10"
proof -
  have "sqrt 100 = 10"
    by (rule real_sqrt_unique) (simp_all add: power2_eq_square)
  then show ?thesis
    by (simp add: sqrt32_def fsqrt_def rnd32_def
          rnd_eval [where k = 3 and n = 10485760 and q = "2 powi (- 20)"])
qed

lemma rectangleOp34: "div32 (Finite (- 8)) (Finite 10) = Finite (- (13421773 / 16777216))"
  by (simp add: div32_def fdiv_def rnd32_def
        rnd_eval [where k = "- 1" and n = "- 13421773" and q = "2 powi (- 24)"])

lemma rectangleOp35: "div32 (Finite 6) (Finite 10) = Finite (5033165 / 8388608)"
  by (simp add: div32_def fdiv_def rnd32_def
        rnd_eval [where k = "- 1" and n = 10066330 and q = "2 powi (- 24)"])

lemma rectangleOp36: "div32 (Finite 0) (Finite 10) = Finite 0"
  by (simp add: div32_def fdiv_def rnd32_def rnd_0)

lemma rectangleOp37: "mul32 (Finite (- (8253299 / 8388608))) (Finite (- (13421773 / 16777216))) = Finite (13205279 / 16777216)"
  by (simp add: mul32_def fmul_def rnd32_def
        rnd_eval [where k = "- 1" and n = 13205279 and q = "2 powi (- 24)"])

lemma rectangleOp38: "mul32 (Finite (12004799 / 67108864)) (Finite (5033165 / 8388608)) = Finite (14405759 / 134217728)"
  by (simp add: mul32_def fmul_def rnd32_def
        rnd_eval [where k = "- 4" and n = 14405759 and q = "2 powi (- 27)"])

lemma rectangleOp39: "add32 (Finite (13205279 / 16777216)) (Finite (14405759 / 134217728)) = Finite (15005999 / 16777216)"
  by (simp add: add32_def fadd_def rnd32_def
        rnd_eval [where k = "- 1" and n = 15005999 and q = "2 powi (- 24)"])

lemma rectangleOp40: "add32 (Finite (15005999 / 16777216)) (Finite 0) = Finite (15005999 / 16777216)"
  by (simp add: add32_def fadd_def rnd32_def
        rnd_eval [where k = "- 1" and n = 15005999 and q = "2 powi (- 24)"])

lemma rectangleOp41: "sub32 (Finite 3) (Finite (- 8)) = Finite 11"
  by (simp add: sub32_def fsub_def fadd_def fneg_def rnd32_def
        rnd_eval [where k = 3 and n = 11534336 and q = "2 powi (- 20)"])

lemma rectangleOp42: "sub32 (Finite 4) (Finite 6) = Finite (- 2)"
  by (simp add: sub32_def fsub_def fadd_def fneg_def rnd32_def
        rnd_eval [where k = 1 and n = "- 8388608" and q = "2 powi (- 22)"])

lemma rectangleOp43: "mul32 (Finite 11) (Finite 11) = Finite 121"
  by (simp add: mul32_def fmul_def rnd32_def
        rnd_eval [where k = 6 and n = 15859712 and q = "2 powi (- 17)"])

lemma rectangleOp44: "mul32 (Finite (- 2)) (Finite (- 2)) = Finite 4"
  by (simp add: mul32_def fmul_def rnd32_def
        rnd_eval [where k = 2 and n = 8388608 and q = "2 powi (- 21)"])

lemma rectangleOp45: "div32 (Finite 11) (Finite (2930859 / 262144)) = Finite (8253299 / 8388608)"
  by (simp add: div32_def fdiv_def rnd32_def
        rnd_eval [where k = "- 1" and n = 16506598 and q = "2 powi (- 24)"])

lemma rectangleOp46: "div32 (Finite (- 2)) (Finite (2930859 / 262144)) = Finite (- (12004799 / 67108864))"
  by (simp add: div32_def fdiv_def rnd32_def
        rnd_eval [where k = "- 3" and n = "- 12004799" and q = "2 powi (- 26)"])

lemma rectangleOp47: "sub32 (Finite 0) (Finite (- 8)) = Finite 8"
  by (simp add: sub32_def fsub_def fadd_def fneg_def rnd32_def
        rnd_eval [where k = 3 and n = 8388608 and q = "2 powi (- 20)"])

lemma rectangleOp48: "sub32 (Finite 0) (Finite 6) = Finite (- 6)"
  by (simp add: sub32_def fsub_def fadd_def fneg_def rnd32_def
        rnd_eval [where k = 2 and n = "- 12582912" and q = "2 powi (- 21)"])

lemma rectangleOp49: "mul32 (Finite 8) (Finite 8) = Finite 64"
  by (simp add: mul32_def fmul_def rnd32_def
        rnd_eval [where k = 6 and n = 8388608 and q = "2 powi (- 17)"])

lemma rectangleOp50: "mul32 (Finite (- 6)) (Finite (- 6)) = Finite 36"
  by (simp add: mul32_def fmul_def rnd32_def
        rnd_eval [where k = 5 and n = 9437184 and q = "2 powi (- 18)"])

lemma rectangleOp51: "div32 (Finite 8) (Finite 10) = Finite (13421773 / 16777216)"
  by (simp add: div32_def fdiv_def rnd32_def
        rnd_eval [where k = "- 1" and n = 13421773 and q = "2 powi (- 24)"])

lemma rectangleOp52: "div32 (Finite (- 6)) (Finite 10) = Finite (- (5033165 / 8388608))"
  by (simp add: div32_def fdiv_def rnd32_def
        rnd_eval [where k = "- 1" and n = "- 10066330" and q = "2 powi (- 24)"])

lemma rectangleOp53: "mul32 (Finite (8253299 / 8388608)) (Finite (13421773 / 16777216)) = Finite (13205279 / 16777216)"
  by (simp add: mul32_def fmul_def rnd32_def
        rnd_eval [where k = "- 1" and n = 13205279 and q = "2 powi (- 24)"])

lemma rectangleOp54: "mul32 (Finite (- (12004799 / 67108864))) (Finite (- (5033165 / 8388608))) = Finite (14405759 / 134217728)"
  by (simp add: mul32_def fmul_def rnd32_def
        rnd_eval [where k = "- 4" and n = 14405759 and q = "2 powi (- 27)"])

lemma rectangleOp55: "sub32 (Finite (- 5)) (Finite (- 8)) = Finite 3"
  by (simp add: sub32_def fsub_def fadd_def fneg_def rnd32_def
        rnd_eval [where k = 1 and n = 12582912 and q = "2 powi (- 22)"])

lemma rectangleOp56: "sub32 (Finite 10) (Finite 6) = Finite 4"
  by (simp add: sub32_def fsub_def fadd_def fneg_def rnd32_def
        rnd_eval [where k = 2 and n = 8388608 and q = "2 powi (- 21)"])

lemma rectangleOp57: "mul32 (Finite 3) (Finite 3) = Finite 9"
  by (simp add: mul32_def fmul_def rnd32_def
        rnd_eval [where k = 3 and n = 9437184 and q = "2 powi (- 20)"])

lemma rectangleOp58: "mul32 (Finite 4) (Finite 4) = Finite 16"
  by (simp add: mul32_def fmul_def rnd32_def
        rnd_eval [where k = 4 and n = 8388608 and q = "2 powi (- 19)"])

lemma rectangleOp59: "div32 (Finite 3) (Finite 5) = Finite (5033165 / 8388608)"
  by (simp add: div32_def fdiv_def rnd32_def
        rnd_eval [where k = "- 1" and n = 10066330 and q = "2 powi (- 24)"])

lemma rectangleOp60: "div32 (Finite 4) (Finite 5) = Finite (13421773 / 16777216)"
  by (simp add: div32_def fdiv_def rnd32_def
        rnd_eval [where k = "- 1" and n = 13421773 and q = "2 powi (- 24)"])

lemma rectangleOp61: "mul32 (Finite (8253299 / 8388608)) (Finite (5033165 / 8388608)) = Finite (9903959 / 16777216)"
  by (simp add: mul32_def fmul_def rnd32_def
        rnd_eval [where k = "- 1" and n = 9903959 and q = "2 powi (- 24)"])

lemma rectangleOp62: "mul32 (Finite (- (12004799 / 67108864))) (Finite (13421773 / 16777216)) = Finite (- (9603839 / 67108864))"
  by (simp add: mul32_def fmul_def rnd32_def
        rnd_eval [where k = "- 3" and n = "- 9603839" and q = "2 powi (- 26)"])

lemma rectangleOp63: "sub32 (Finite 3) (Finite 0) = Finite 3"
  by (simp add: sub32_def fsub_def fadd_def fneg_def rnd32_def
        rnd_eval [where k = 1 and n = 12582912 and q = "2 powi (- 22)"])

lemma rectangleOp64: "sub32 (Finite 4) (Finite 0) = Finite 4"
  by (simp add: sub32_def fsub_def fadd_def fneg_def rnd32_def
        rnd_eval [where k = 2 and n = 8388608 and q = "2 powi (- 21)"])

lemma rectangleOp65: "sub32 (Finite (- 5)) (Finite 0) = Finite (- 5)"
  by (simp add: sub32_def fsub_def fadd_def fneg_def rnd32_def
        rnd_eval [where k = 2 and n = "- 10485760" and q = "2 powi (- 21)"])

lemma rectangleOp66: "sub32 (Finite 10) (Finite 0) = Finite 10"
  by (simp add: sub32_def fsub_def fadd_def fneg_def rnd32_def
        rnd_eval [where k = 3 and n = 10485760 and q = "2 powi (- 20)"])

lemma rectangleOp67: "mul32 (Finite (- 5)) (Finite (- 5)) = Finite 25"
  by (simp add: mul32_def fmul_def rnd32_def
        rnd_eval [where k = 4 and n = 13107200 and q = "2 powi (- 19)"])

lemma rectangleOp68: "mul32 (Finite 10) (Finite 10) = Finite 100"
  by (simp add: mul32_def fmul_def rnd32_def
        rnd_eval [where k = 6 and n = 13107200 and q = "2 powi (- 17)"])

lemma rectangleOp69: "add32 (Finite 25) (Finite 100) = Finite 125"
  by (simp add: add32_def fadd_def rnd32_def
        rnd_eval [where k = 6 and n = 16384000 and q = "2 powi (- 17)"])

lemma rectangleOp70: "div32 (Finite (- 5)) (Finite (2930859 / 262144)) = Finite (- (7502999 / 16777216))"
  by (simp add: div32_def fdiv_def rnd32_def
        rnd_eval [where k = "- 2" and n = "- 15005998" and q = "2 powi (- 25)"])

lemma rectangleOp71: "div32 (Finite 10) (Finite (2930859 / 262144)) = Finite (7502999 / 8388608)"
  by (simp add: div32_def fdiv_def rnd32_def
        rnd_eval [where k = "- 1" and n = 15005998 and q = "2 powi (- 24)"])

lemma rectangleOp72: "mul32 (Finite (5033165 / 8388608)) (Finite (- (7502999 / 16777216))) = Finite (- (9003599 / 33554432))"
  by (simp add: mul32_def fmul_def rnd32_def
        rnd_eval [where k = "- 2" and n = "- 9003599" and q = "2 powi (- 25)"])

lemma rectangleOp73: "mul32 (Finite (13421773 / 16777216)) (Finite (7502999 / 8388608)) = Finite (12004799 / 16777216)"
  by (simp add: mul32_def fmul_def rnd32_def
        rnd_eval [where k = "- 1" and n = 12004799 and q = "2 powi (- 24)"])

lemma rectangleOp74: "add32 (Finite (- (9003599 / 33554432))) (Finite (12004799 / 16777216)) = Finite (15005999 / 33554432)"
  by (simp add: add32_def fadd_def rnd32_def
        rnd_eval [where k = "- 2" and n = 15005999 and q = "2 powi (- 25)"])

lemma rectangleOp75: "add32 (Finite (15005999 / 33554432)) (Finite 0) = Finite (15005999 / 33554432)"
  by (simp add: add32_def fadd_def rnd32_def
        rnd_eval [where k = "- 2" and n = 15005999 and q = "2 powi (- 25)"])

lemma rectangleOp76: "sub32 (Finite (- 8)) (Finite 0) = Finite (- 8)"
  by (simp add: sub32_def fsub_def fadd_def fneg_def rnd32_def
        rnd_eval [where k = 3 and n = "- 8388608" and q = "2 powi (- 20)"])

lemma rectangleOp77: "sub32 (Finite 6) (Finite 0) = Finite 6"
  by (simp add: sub32_def fsub_def fadd_def fneg_def rnd32_def
        rnd_eval [where k = 2 and n = 12582912 and q = "2 powi (- 21)"])

lemma rectangleOp78: "mul32 (Finite (- (13421773 / 16777216))) (Finite (- (7502999 / 16777216))) = Finite (12004799 / 33554432)"
  by (simp add: mul32_def fmul_def rnd32_def
        rnd_eval [where k = "- 2" and n = 12004799 and q = "2 powi (- 25)"])

lemma rectangleOp79: "mul32 (Finite (5033165 / 8388608)) (Finite (7502999 / 8388608)) = Finite (9003599 / 16777216)"
  by (simp add: mul32_def fmul_def rnd32_def
        rnd_eval [where k = "- 1" and n = 9003599 and q = "2 powi (- 24)"])

lemma rectangleOp80: "add32 (Finite (12004799 / 33554432)) (Finite (9003599 / 16777216)) = Finite (7502999 / 8388608)"
  by (simp add: add32_def fadd_def rnd32_def
        rnd_eval [where k = "- 1" and n = 15005998 and q = "2 powi (- 24)"])

lemma rectangleOp81: "add32 (Finite (7502999 / 8388608)) (Finite 0) = Finite (7502999 / 8388608)"
  by (simp add: add32_def fadd_def rnd32_def
        rnd_eval [where k = "- 1" and n = 15005998 and q = "2 powi (- 24)"])

lemma rectangleOp82: "sub32 (Finite 3) (Finite (- 5)) = Finite 8"
  by (simp add: sub32_def fsub_def fadd_def fneg_def rnd32_def
        rnd_eval [where k = 3 and n = 8388608 and q = "2 powi (- 20)"])

lemma rectangleOp83: "sub32 (Finite 4) (Finite 10) = Finite (- 6)"
  by (simp add: sub32_def fsub_def fadd_def fneg_def rnd32_def
        rnd_eval [where k = 2 and n = "- 12582912" and q = "2 powi (- 21)"])

lemma rectangleOp84: "sub32 (Finite 0) (Finite (- 5)) = Finite 5"
  by (simp add: sub32_def fsub_def fadd_def fneg_def rnd32_def
        rnd_eval [where k = 2 and n = 10485760 and q = "2 powi (- 21)"])

lemma rectangleOp85: "sub32 (Finite 0) (Finite 10) = Finite (- 10)"
  by (simp add: sub32_def fsub_def fadd_def fneg_def rnd32_def
        rnd_eval [where k = 3 and n = "- 10485760" and q = "2 powi (- 20)"])

lemma rectangleOp86: "mul32 (Finite 5) (Finite 5) = Finite 25"
  by (simp add: mul32_def fmul_def rnd32_def
        rnd_eval [where k = 4 and n = 13107200 and q = "2 powi (- 19)"])

lemma rectangleOp87: "mul32 (Finite (- 10)) (Finite (- 10)) = Finite 100"
  by (simp add: mul32_def fmul_def rnd32_def
        rnd_eval [where k = 6 and n = 13107200 and q = "2 powi (- 17)"])

lemma rectangleOp88: "div32 (Finite 5) (Finite (2930859 / 262144)) = Finite (7502999 / 16777216)"
  by (simp add: div32_def fdiv_def rnd32_def
        rnd_eval [where k = "- 2" and n = 15005998 and q = "2 powi (- 25)"])

lemma rectangleOp89: "div32 (Finite (- 10)) (Finite (2930859 / 262144)) = Finite (- (7502999 / 8388608))"
  by (simp add: div32_def fdiv_def rnd32_def
        rnd_eval [where k = "- 1" and n = "- 15005998" and q = "2 powi (- 24)"])

lemma rectangleOp90: "mul32 (Finite (13421773 / 16777216)) (Finite (7502999 / 16777216)) = Finite (12004799 / 33554432)"
  by (simp add: mul32_def fmul_def rnd32_def
        rnd_eval [where k = "- 2" and n = 12004799 and q = "2 powi (- 25)"])

lemma rectangleOp91: "mul32 (Finite (- (5033165 / 8388608))) (Finite (- (7502999 / 8388608))) = Finite (9003599 / 16777216)"
  by (simp add: mul32_def fmul_def rnd32_def
        rnd_eval [where k = "- 1" and n = 9003599 and q = "2 powi (- 24)"])

lemma rectangleOp92: "sub32 (Finite (- 8)) (Finite (- 5)) = Finite (- 3)"
  by (simp add: sub32_def fsub_def fadd_def fneg_def rnd32_def
        rnd_eval [where k = 1 and n = "- 12582912" and q = "2 powi (- 22)"])

lemma rectangleOp93: "sub32 (Finite 6) (Finite 10) = Finite (- 4)"
  by (simp add: sub32_def fsub_def fadd_def fneg_def rnd32_def
        rnd_eval [where k = 2 and n = "- 8388608" and q = "2 powi (- 21)"])

lemma rectangleOp94: "mul32 (Finite (- (5033165 / 8388608))) (Finite (7502999 / 16777216)) = Finite (- (9003599 / 33554432))"
  by (simp add: mul32_def fmul_def rnd32_def
        rnd_eval [where k = "- 2" and n = "- 9003599" and q = "2 powi (- 25)"])

lemma rectangleOp95: "mul32 (Finite (- (13421773 / 16777216))) (Finite (- (7502999 / 8388608))) = Finite (12004799 / 16777216)"
  by (simp add: mul32_def fmul_def rnd32_def
        rnd_eval [where k = "- 1" and n = 12004799 and q = "2 powi (- 24)"])

lemma rectangleOp96: "mul32 (Finite (- (7502999 / 16777216))) (Finite (5033165 / 8388608)) = Finite (- (9003599 / 33554432))"
  by (simp add: mul32_def fmul_def rnd32_def
        rnd_eval [where k = "- 2" and n = "- 9003599" and q = "2 powi (- 25)"])

lemma rectangleOp97: "mul32 (Finite (7502999 / 8388608)) (Finite (13421773 / 16777216)) = Finite (12004799 / 16777216)"
  by (simp add: mul32_def fmul_def rnd32_def
        rnd_eval [where k = "- 1" and n = 12004799 and q = "2 powi (- 24)"])

lemma rectangleOp98: "mul32 (Finite (- (7502999 / 16777216))) (Finite (- (13421773 / 16777216))) = Finite (12004799 / 33554432)"
  by (simp add: mul32_def fmul_def rnd32_def
        rnd_eval [where k = "- 2" and n = 12004799 and q = "2 powi (- 25)"])

lemma rectangleOp99: "mul32 (Finite (7502999 / 8388608)) (Finite (5033165 / 8388608)) = Finite (9003599 / 16777216)"
  by (simp add: mul32_def fmul_def rnd32_def
        rnd_eval [where k = "- 1" and n = 9003599 and q = "2 powi (- 24)"])

lemma rectangleOp100: "mul32 (Finite (7502999 / 16777216)) (Finite (13421773 / 16777216)) = Finite (12004799 / 33554432)"
  by (simp add: mul32_def fmul_def rnd32_def
        rnd_eval [where k = "- 2" and n = 12004799 and q = "2 powi (- 25)"])

lemma rectangleOp101: "mul32 (Finite (- (7502999 / 8388608))) (Finite (- (5033165 / 8388608))) = Finite (9003599 / 16777216)"
  by (simp add: mul32_def fmul_def rnd32_def
        rnd_eval [where k = "- 1" and n = 9003599 and q = "2 powi (- 24)"])

lemma rectangleOp102: "mul32 (Finite (7502999 / 16777216)) (Finite (- (5033165 / 8388608))) = Finite (- (9003599 / 33554432))"
  by (simp add: mul32_def fmul_def rnd32_def
        rnd_eval [where k = "- 2" and n = "- 9003599" and q = "2 powi (- 25)"])

lemma rectangleOp103: "mul32 (Finite (- (7502999 / 8388608))) (Finite (- (13421773 / 16777216))) = Finite (12004799 / 16777216)"
  by (simp add: mul32_def fmul_def rnd32_def
        rnd_eval [where k = "- 1" and n = 12004799 and q = "2 powi (- 24)"])

lemma rectangleOp104: "mul32 (Finite (- (5033165 / 8388608))) (Finite (- (8253299 / 8388608))) = Finite (9903959 / 16777216)"
  by (simp add: mul32_def fmul_def rnd32_def
        rnd_eval [where k = "- 1" and n = 9903959 and q = "2 powi (- 24)"])

lemma rectangleOp105: "mul32 (Finite (- (13421773 / 16777216))) (Finite (12004799 / 67108864)) = Finite (- (9603839 / 67108864))"
  by (simp add: mul32_def fmul_def rnd32_def
        rnd_eval [where k = "- 3" and n = "- 9603839" and q = "2 powi (- 26)"])

lemma rectangleOp106: "mul32 (Finite (- (13421773 / 16777216))) (Finite (- (8253299 / 8388608))) = Finite (13205279 / 16777216)"
  by (simp add: mul32_def fmul_def rnd32_def
        rnd_eval [where k = "- 1" and n = 13205279 and q = "2 powi (- 24)"])

lemma rectangleOp107: "mul32 (Finite (5033165 / 8388608)) (Finite (12004799 / 67108864)) = Finite (14405759 / 134217728)"
  by (simp add: mul32_def fmul_def rnd32_def
        rnd_eval [where k = "- 4" and n = 14405759 and q = "2 powi (- 27)"])

lemma rectangleOp108: "mul32 (Finite (13421773 / 16777216)) (Finite (8253299 / 8388608)) = Finite (13205279 / 16777216)"
  by (simp add: mul32_def fmul_def rnd32_def
        rnd_eval [where k = "- 1" and n = 13205279 and q = "2 powi (- 24)"])

lemma rectangleOp109: "mul32 (Finite (- (5033165 / 8388608))) (Finite (- (12004799 / 67108864))) = Finite (14405759 / 134217728)"
  by (simp add: mul32_def fmul_def rnd32_def
        rnd_eval [where k = "- 4" and n = 14405759 and q = "2 powi (- 27)"])

lemma rectangleOp110: "mul32 (Finite (5033165 / 8388608)) (Finite (8253299 / 8388608)) = Finite (9903959 / 16777216)"
  by (simp add: mul32_def fmul_def rnd32_def
        rnd_eval [where k = "- 1" and n = 9903959 and q = "2 powi (- 24)"])

lemma rectangleOp111: "mul32 (Finite (13421773 / 16777216)) (Finite (- (12004799 / 67108864))) = Finite (- (9603839 / 67108864))"
  by (simp add: mul32_def fmul_def rnd32_def
        rnd_eval [where k = "- 3" and n = "- 9603839" and q = "2 powi (- 26)"])

lemmas rectangleEval = rectangleOp1 rectangleOp2 rectangleOp3 rectangleOp4 rectangleOp5
  rectangleOp6 rectangleOp7 rectangleOp8 rectangleOp9 rectangleOp10 rectangleOp11 rectangleOp12
  rectangleOp13 rectangleOp14 rectangleOp15 rectangleOp16 rectangleOp17 rectangleOp18
  rectangleOp19 rectangleOp20 rectangleOp21 rectangleOp22 rectangleOp23 rectangleOp24
  rectangleOp25 rectangleOp26 rectangleOp27 rectangleOp28 rectangleOp29 rectangleOp30
  rectangleOp31 rectangleOp32 rectangleOp33 rectangleOp34 rectangleOp35 rectangleOp36
  rectangleOp37 rectangleOp38 rectangleOp39 rectangleOp40 rectangleOp41 rectangleOp42
  rectangleOp43 rectangleOp44 rectangleOp45 rectangleOp46 rectangleOp47 rectangleOp48
  rectangleOp49 rectangleOp50 rectangleOp51 rectangleOp52 rectangleOp53 rectangleOp54
  rectangleOp55 rectangleOp56 rectangleOp57 rectangleOp58 rectangleOp59 rectangleOp60
  rectangleOp61 rectangleOp62 rectangleOp63 rectangleOp64 rectangleOp65 rectangleOp66
  rectangleOp67 rectangleOp68 rectangleOp69 rectangleOp70 rectangleOp71 rectangleOp72
  rectangleOp73 rectangleOp74 rectangleOp75 rectangleOp76 rectangleOp77 rectangleOp78
  rectangleOp79 rectangleOp80 rectangleOp81 rectangleOp82 rectangleOp83 rectangleOp84
  rectangleOp85 rectangleOp86 rectangleOp87 rectangleOp88 rectangleOp89 rectangleOp90
  rectangleOp91 rectangleOp92 rectangleOp93 rectangleOp94 rectangleOp95 rectangleOp96
  rectangleOp97 rectangleOp98 rectangleOp99 rectangleOp100 rectangleOp101 rectangleOp102
  rectangleOp103 rectangleOp104 rectangleOp105 rectangleOp106 rectangleOp107 rectangleOp108
  rectangleOp109 rectangleOp110 rectangleOp111

lemma rectangle_cosines:
  "computeDotProduct32 rectangle 2 3 0 = Finite (7502999 / 16777216)"
  "computeDotProduct32 rectangle 2 3 (Suc 0) = Finite (15005999 / 16777216)"
  "computeDotProduct32 rectangle 3 2 0 = Finite (15005999 / 16777216)"
  "computeDotProduct32 rectangle 3 2 (Suc 0) = Finite (7502999 / 16777216)"
  "computeDotProduct32 rectangle 0 2 (Suc 0) = Finite (15005999 / 33554432)"
  "computeDotProduct32 rectangle 0 3 (Suc 0) = Finite (7502999 / 8388608)"
  "computeDotProduct32 rectangle (Suc 0) 2 0 = Finite (7502999 / 8388608)"
  "computeDotProduct32 rectangle (Suc 0) 3 0 = Finite (15005999 / 33554432)"
  "computeDotProduct32 rectangle 0 (Suc 0) 2 = Finite (15005999 / 33554432)"
  "computeDotProduct32 rectangle 0 (Suc 0) 3 = Finite (7502999 / 8388608)"
  "computeDotProduct32 rectangle (Suc 0) 0 2 = Finite (7502999 / 8388608)"
  "computeDotProduct32 rectangle (Suc 0) 0 3 = Finite (15005999 / 33554432)"
  "computeDotProduct32 rectangle 2 0 3 = Finite (7502999 / 16777216)"
  "computeDotProduct32 rectangle 2 (Suc 0) 3 = Finite (15005999 / 16777216)"
  "computeDotProduct32 rectangle 3 0 2 = Finite (15005999 / 16777216)"
  "computeDotProduct32 rectangle 3 (Suc 0) 2 = Finite (7502999 / 16777216)"
  by (simp_all add: computeDotProduct32_def unit32_def arm32_def rectangle_coord rectangleEval
        fgreater_def fless_def)

theorem checkFlipAction_witness:
  "checkFlipAction foldedKite 0 1 2 3 True = Inr 0
   \<and> checkFlipAction foldedKite 0 1 2 3 False = Inr 1
   \<and> greatest (Finite (13421773 / 16777216))
        [computeDotProduct32 foldedKite 0 1 2, computeDotProduct32 foldedKite 0 1 3,
         computeDotProduct32 foldedKite 1 0 2, computeDotProduct32 foldedKite 1 0 3]
   \<and> greatest (Finite (14235941 / 33554432))
        [computeDotProduct32 foldedKite 2 0 3, computeDotProduct32 foldedKite 2 1 3,
         computeDotProduct32 foldedKite 3 0 2, computeDotProduct32 foldedKite 3 1 2]
   \<and> computeCrossProduct foldedKite 0 2 1 = (Finite 0, Finite 0, Finite 1)
   \<and> computeCrossProduct foldedKite 0 1 3 = (Finite 0, Finite 1, Finite 0)
   \<and> dot32 (computeCrossProduct foldedKite 0 2 1) (computeCrossProduct foldedKite 0 1 3) = Finite 0
   \<and> checkFlipAction kite 0 1 2 3 True = Inr 1
   \<and> dot32 (computeCrossProduct kite 0 2 1) (computeCrossProduct kite 0 1 3) = Finite 1
   \<and> checkFlipAction kite 2 3 0 1 True = Inr 0"
  using checkFlipAction_spec [of 0 foldedKite 1 2 3 True]
        checkFlipAction_spec [of 0 foldedKite 1 2 3 False]
        checkFlipAction_spec [of 0 kite 1 2 3 True]
        checkFlipAction_spec [of 2 kite 3 0 1 True]
  by (simp add: checkFlipAction_def greatest_def raise_def fgreater_def fless_def
        foldedKite_length foldedKite_cosines foldedKite_normals foldedKite_dot
        kite_length kite_cosines kite_normals kite_dot literal1)

lemma sqrt125: "sqrt 125 = 5 * sqrt 5"
  using real_sqrt_mult [of 25 5] by simp

lemma sqrt100: "sqrt 100 = 10"
  using real_sqrt_abs [of 10] by simp

lemma root25: "sqrt 25 = 5"
  using real_sqrt_abs [of 5] by simp

lemma rectangle_exact:
  "computeDotProduct rectangle 2 3 0 = 1 / sqrt 5"
  "computeDotProduct rectangle 2 3 (Suc 0) = 2 / sqrt 5"
  "computeDotProduct rectangle 3 2 0 = 2 / sqrt 5"
  "computeDotProduct rectangle 3 2 (Suc 0) = 1 / sqrt 5"
  "computeDotProduct rectangle 0 2 (Suc 0) = 1 / sqrt 5"
  "computeDotProduct rectangle 0 3 (Suc 0) = 2 / sqrt 5"
  "computeDotProduct rectangle (Suc 0) 2 0 = 2 / sqrt 5"
  "computeDotProduct rectangle (Suc 0) 3 0 = 1 / sqrt 5"
  by (simp_all add: computeDotProduct_def rectangle_coord sqrt125 sqrt100 root25)

lemma rectangle_max:
  "max (2 / sqrt 5) (1 / sqrt 5) = 2 / sqrt 5" "max (1 / sqrt 5) (2 / sqrt 5) = 2 / sqrt 5"
  by (simp_all add: max_def divide_le_cancel)

text \<open>
  Read over exact cosines the claim fails where the two maxima are equal. In the
  rectangle the greatest cosine is \<open>2 / \<surd>5\<close> at the ends of either diagonal, so no flip
  should be made. In \<^verbatim>\<open>float\<close> the value at the ends of the diagonal \<open>(2, 3)\<close> is
  \<open>15005999 / 2\<^bsup>24\<^esup>\<close> and at the ends of \<open>(0, 1)\<close> it is \<open>15005998 / 2\<^bsup>24\<^esup>\<close>: the diagonal
  \<open>(2, 3)\<close> is flipped and the diagonal \<open>(0, 1)\<close> is not.
\<close>

theorem checkFlipAction_counterexample:
  "checkFlipAction rectangle 2 3 0 1 False = Inr 1
   \<and> checkFlipAction rectangle 0 1 2 3 False = Inr 0
   \<and> Max {computeDotProduct rectangle 2 3 0, computeDotProduct rectangle 2 3 1,
           computeDotProduct rectangle 3 2 0, computeDotProduct rectangle 3 2 1} = 2 / sqrt 5
   \<and> Max {computeDotProduct rectangle 0 2 1, computeDotProduct rectangle 0 3 1,
           computeDotProduct rectangle 1 2 0, computeDotProduct rectangle 1 3 0} = 2 / sqrt 5
   \<and> greatest (Finite (15005999 / 16777216))
        [computeDotProduct32 rectangle 2 3 0, computeDotProduct32 rectangle 2 3 1,
         computeDotProduct32 rectangle 3 2 0, computeDotProduct32 rectangle 3 2 1]
   \<and> greatest (Finite (7502999 / 8388608))
        [computeDotProduct32 rectangle 0 2 1, computeDotProduct32 rectangle 0 3 1,
         computeDotProduct32 rectangle 1 2 0, computeDotProduct32 rectangle 1 3 0]"
  by (simp add: checkFlipAction_def greatest_def raise_def fgreater_def fless_def
        rectangle_length rectangle_cosines rectangle_exact rectangle_max)

end
